theory Spec2Isabelle
  imports Complex_Main "HOL-Library.Word" "HOL-Library.AList"
begin

section \<open>JavaScript strings and runtime values\<close>

text \<open>
  A JavaScript string is a sequence of UTF-16 code units and \<open>length\<close> counts code units,
  so a string is a list of 16-bit words. \<open>lit\<close> embeds an ASCII literal.
  Numbers are the finite doubles, read as reals; NaN and the infinities are not modelled.
\<close>

type_synonym jsstring = "16 word list"

definition lit :: "string \<Rightarrow> jsstring" where
  "lit s = map (\<lambda>c. of_nat (of_char c)) s"

text \<open>
  Runtime values as \<open>typeof\<close> and \<open>Array.isArray\<close> tell them apart. An array is the list of
  the values read at its indices (a hole reads as \<open>undefined\<close>); an object is the list
  \<open>Object.entries\<close> returns for it: its own enumerable string-keyed properties in iteration
  order, with pairwise distinct keys. A function carries its \<open>name\<close>.
  Values are finite trees, so a cyclic structure is not a value of this type.
\<close>

datatype jsval =
    JNull
  | JUndefined
  | JStr jsstring
  | JNum real
  | JBool bool
  | JArr "jsval list"
  | JObj "(jsstring \<times> jsval) list"
  | JFunction jsstring
  | JSymbol
  | JBigInt int

text \<open>
  \<open>SerializableValue\<close>: what \<open>toSerializableValue\<close> returns when it does not return \<open>null\<close>.
  The result \<open>SerializableValue | null\<close> is \<open>sval option\<close>, \<open>None\<close> being \<open>null\<close>.
\<close>

datatype sval =
    SStr jsstring
  | SNum real
  | SBool bool
  | SArr "sval list"
  | SObj "(jsstring \<times> sval) list"

section \<open>Serializable-value conversion\<close>

text \<open>
  \<open>toSerializableValue(value, depth)\<close> with its two loops.
  \<open>arrayLoop xs i depth items\<close> is the \<open>for\<close> loop over an array, at index \<open>i\<close> with \<open>xs\<close> the
  elements from \<open>i\<close> on and \<open>items\<close> the array built so far.
  \<open>entriesLoop es depth out count\<close> is the \<open>for ... of\<close> loop over \<open>Object.entries(obj)\<close>,
  with \<open>es\<close> the entries not yet visited.
  \<open>assignProperty out key v\<close> is the assignment \<open>out[key] = v\<close> on the object \<open>out\<close>, which
  was created by \<open>{}\<close> and so inherits from \<open>Object.prototype\<close>: for the key \<open>__proto__\<close>
  the assignment runs the setter of \<open>Object.prototype\<close>, which adds no own property to
  \<open>out\<close> (it replaces the prototype of \<open>out\<close> when the value is an object); for any other
  key, the keys of the entries being distinct, it adds a property after the ones present.
  The loop counts the assignment in both cases.
\<close>

definition assignProperty :: "(jsstring \<times> 'a) list \<Rightarrow> jsstring \<Rightarrow> 'a \<Rightarrow> (jsstring \<times> 'a) list" where
  "assignProperty out key v = (if key = lit ''__proto__'' then out else out @ [(key, v)])"

fun toSerializableValue :: "jsval \<Rightarrow> int \<Rightarrow> sval option"
  and arrayLoop :: "jsval list \<Rightarrow> nat \<Rightarrow> int \<Rightarrow> sval list \<Rightarrow> sval list"
  and entriesLoop ::
    "(jsstring \<times> jsval) list \<Rightarrow> int \<Rightarrow> (jsstring \<times> sval) list \<Rightarrow> nat
      \<Rightarrow> (jsstring \<times> sval) list"
where
  "toSerializableValue v depth =
     (if depth > 2 then None
      else case v of
        JNull \<Rightarrow> None
      | JStr s \<Rightarrow> Some (SStr s)
      | JNum n \<Rightarrow> Some (SNum n)
      | JBool b \<Rightarrow> Some (SBool b)
      | JArr vs \<Rightarrow> Some (SArr (arrayLoop vs 0 depth []))
      | JObj es \<Rightarrow> Some (SObj (entriesLoop es depth [] 0))
      | _ \<Rightarrow> None)"
| "arrayLoop [] i depth items = items"
| "arrayLoop (x # xs) i depth items =
     (if i < 5 then
        (case toSerializableValue x (depth + 1) of
           None \<Rightarrow> arrayLoop xs (i + 1) depth items
         | Some c \<Rightarrow> arrayLoop xs (i + 1) depth (items @ [c]))
      else items)"
| "entriesLoop [] depth out count = out"
| "entriesLoop ((key, x) # rest) depth out count =
     (if count \<ge> 8 then out
      else case toSerializableValue x (depth + 1) of
             None \<Rightarrow> entriesLoop rest depth out count
           | Some c \<Rightarrow> entriesLoop rest depth (assignProperty out key c) (count + 1))"

declare toSerializableValue.simps [simp del]

subsection \<open>Reference readings of the conversion\<close>

text \<open>
  The converted elements of an array, and the converted entries of an object, with the
  ones that convert to \<open>null\<close> left out.
\<close>

definition keptItems :: "int \<Rightarrow> jsval list \<Rightarrow> sval list" where
  "keptItems depth xs = List.map_filter (\<lambda>x. toSerializableValue x (depth + 1)) xs"

definition keptEntries :: "int \<Rightarrow> (jsstring \<times> jsval) list \<Rightarrow> (jsstring \<times> sval) list" where
  "keptEntries depth es =
     List.map_filter (\<lambda>(k, x). map_option (Pair k) (toSerializableValue x (depth + 1))) es"

text \<open>
  The entries that become own properties of the result: all but one of key \<open>__proto__\<close>.
  \<open>plainKeys v\<close> says that no object in \<open>v\<close> has an own property of that key.
\<close>

definition ownEntries :: "(jsstring \<times> 'a) list \<Rightarrow> (jsstring \<times> 'a) list" where
  "ownEntries es = filter (\<lambda>e. fst e \<noteq> lit ''__proto__'') es"

fun plainKeys :: "jsval \<Rightarrow> bool" where
  "plainKeys (JArr vs) = list_all plainKeys vs"
| "plainKeys (JObj es) = list_all (\<lambda>(k, x). k \<noteq> lit ''__proto__'' \<and> plainKeys x) es"
| "plainKeys v = True"

text \<open>
  The object budget as the specification words it: the first 8 attempted entries, the
  ones converting to \<open>null\<close> skipped, nothing taken from later entries.
\<close>

definition firstEightAttempted ::
  "int \<Rightarrow> (jsstring \<times> jsval) list \<Rightarrow> (jsstring \<times> sval) list" where
  "firstEightAttempted depth es = keptEntries depth (take 8 es)"

text \<open>
  The input restricted to at most 8 keys per object and 5 items per array, the reading
  of the specification's structural-equality property; \<open>asJs\<close> reads a result back as a
  value, and \<open>resultValue\<close> reads \<open>null\<close> back as \<open>null\<close>.
\<close>

fun restrict :: "jsval \<Rightarrow> jsval" where
  "restrict (JArr vs) = JArr (take 5 (map restrict vs))"
| "restrict (JObj es) = JObj (take 8 (map (\<lambda>(k, x). (k, restrict x)) es))"
| "restrict v = v"

fun asJs :: "sval \<Rightarrow> jsval" where
  "asJs (SStr s) = JStr s"
| "asJs (SNum n) = JNum n"
| "asJs (SBool b) = JBool b"
| "asJs (SArr xs) = JArr (map asJs xs)"
| "asJs (SObj es) = JObj (map (\<lambda>(k, x). (k, asJs x)) es)"

definition resultValue :: "sval option \<Rightarrow> jsval" where
  "resultValue r = (case r of None \<Rightarrow> JNull | Some s \<Rightarrow> asJs s)"

text \<open>
  How deep containers nest: a primitive is at 0, a container one above its deepest
  member. A value of nesting at most 2 converted at depth 0 has every part at depth
  at most 2.
\<close>

fun nesting :: "jsval \<Rightarrow> nat" where
  "nesting (JArr vs) = Suc (fold max (map nesting vs) 0)"
| "nesting (JObj es) = Suc (fold max (map (\<lambda>(k, x). nesting x) es) 0)"
| "nesting v = 0"

text \<open>
  Values all of whose parts convert: strings, numbers, booleans, and containers of such.
\<close>

fun convertible :: "jsval \<Rightarrow> bool" where
  "convertible (JStr s) = True"
| "convertible (JNum n) = True"
| "convertible (JBool b) = True"
| "convertible (JArr vs) = list_all convertible vs"
| "convertible (JObj es) = list_all (\<lambda>(k, x). convertible x) es"
| "convertible v = False"

text \<open>\<open>SerializablePrimitive = string | number | boolean | null\<close>.\<close>

fun isSerializablePrimitive :: "jsval \<Rightarrow> bool" where
  "isSerializablePrimitive JNull = True"
| "isSerializablePrimitive (JStr s) = True"
| "isSerializablePrimitive (JNum n) = True"
| "isSerializablePrimitive (JBool b) = True"
| "isSerializablePrimitive v = False"

subsection \<open>The loops, characterised\<close>

lemma arrayLoop_eq:
  "arrayLoop xs i depth items = items @ keptItems depth (take (5 - i) xs)"
proof (induction xs arbitrary: i items)
  case Nil
  show ?case by (simp add: keptItems_def List.map_filter_simps)
next
  case (Cons x xs)
  show ?case
  proof (cases "i < 5")
    case True
    then have t: "take (5 - i) (x # xs) = x # take (5 - (i + 1)) xs"
      by (simp add: take_Cons' Suc_diff_le)
    show ?thesis
      using True Cons.IH [of "i + 1"]
      by (simp only: t) (simp add: keptItems_def List.map_filter_simps split: option.split)
  next
    case False
    then show ?thesis by (simp add: keptItems_def List.map_filter_simps)
  qed
qed

lemma keptEntries_Nil: "keptEntries depth [] = []"
  by (simp add: keptEntries_def List.map_filter_simps)

lemma keptEntries_Cons:
  "keptEntries depth ((k, x) # es) =
     (case toSerializableValue x (depth + 1) of
        None \<Rightarrow> keptEntries depth es
      | Some c \<Rightarrow> (k, c) # keptEntries depth es)"
  by (simp add: keptEntries_def List.map_filter_simps split: option.split)

lemma entriesLoop_eq:
  "entriesLoop es depth out count = out @ ownEntries (take (8 - count) (keptEntries depth es))"
proof (induction es arbitrary: out count)
  case Nil
  show ?case by (simp add: keptEntries_Nil ownEntries_def)
next
  case (Cons e es)
  obtain k x where e: "e = (k, x)" by (cases e)
  show ?case
  proof (cases "count \<ge> 8")
    case True
    then show ?thesis by (simp add: e ownEntries_def)
  next
    case False
    then have c: "8 - count = Suc (8 - (count + 1))" by simp
    show ?thesis
      using False Cons.IH [of _ "count + 1"] Cons.IH [of _ count]
      by (simp only: e c)
         (simp add: keptEntries_Cons ownEntries_def assignProperty_def split: option.split)
  qed
qed

lemma keptEntries_keys: "fst ` set (keptEntries depth es) \<subseteq> fst ` set es"
proof (induction es)
  case Nil
  show ?case by (simp add: keptEntries_Nil)
next
  case (Cons e es)
  obtain k x where e: "e = (k, x)" by (cases e)
  show ?case using Cons.IH by (auto simp add: e keptEntries_Cons split: option.split)
qed

lemma ownEntries_plain:
  assumes "lit ''__proto__'' \<notin> fst ` set es"
  shows "ownEntries (take n (keptEntries depth es)) = take n (keptEntries depth es)"
proof -
  have "fst e \<noteq> lit ''__proto__''" if "e \<in> set (take n (keptEntries depth es))" for e
  proof -
    have "e \<in> set (keptEntries depth es)" using that by (rule in_set_takeD)
    then have "fst e \<in> fst ` set es" using keptEntries_keys by blast
    then show ?thesis using assms by metis
  qed
  then show ?thesis by (simp add: ownEntries_def)
qed

lemma toSerializableValue_deep: "depth > 2 \<Longrightarrow> toSerializableValue v depth = None"
  by (simp add: toSerializableValue.simps)

lemma toSerializableValue_JArr:
  "depth \<le> 2 \<Longrightarrow> toSerializableValue (JArr vs) depth = Some (SArr (keptItems depth (take 5 vs)))"
  by (simp add: toSerializableValue.simps arrayLoop_eq)

lemma toSerializableValue_JObj:
  "depth \<le> 2 \<Longrightarrow>
     toSerializableValue (JObj es) depth = Some (SObj (ownEntries (take 8 (keptEntries depth es))))"
  by (simp add: toSerializableValue.simps entriesLoop_eq)

lemma toSerializableValue_prototype_key:
  "toSerializableValue (JObj [(lit ''__proto__'', JStr (lit ''p'')), (lit ''a'', JNum 1)]) 0
     = Some (SObj [(lit ''a'', SNum 1)])"
  by (simp add: toSerializableValue.simps assignProperty_def lit_def)

lemma toSerializableValue_JObj_plain:
  "depth \<le> 2 \<Longrightarrow> lit ''__proto__'' \<notin> fst ` set es \<Longrightarrow>
     toSerializableValue (JObj es) depth = Some (SObj (take 8 (keptEntries depth es)))"
  by (simp add: toSerializableValue_JObj ownEntries_plain)

lemma toSerializableValue_prims:
  "depth \<le> 2 \<Longrightarrow> toSerializableValue (JStr s) depth = Some (SStr s)"
  "depth \<le> 2 \<Longrightarrow> toSerializableValue (JNum n) depth = Some (SNum n)"
  "depth \<le> 2 \<Longrightarrow> toSerializableValue (JBool b) depth = Some (SBool b)"
  "toSerializableValue JNull depth = None"
  "toSerializableValue JUndefined depth = None"
  "toSerializableValue (JFunction f) depth = None"
  "toSerializableValue JSymbol depth = None"
  "toSerializableValue (JBigInt z) depth = None"
  by (simp_all add: toSerializableValue.simps)

lemma fold_max_le: "fold max ns (a::nat) \<le> m \<longleftrightarrow> a \<le> m \<and> (\<forall>n \<in> set ns. n \<le> m)"
  by (induction ns arbitrary: a) auto

lemma keptItems_all:
  assumes "\<And>x. x \<in> set xs \<Longrightarrow> \<exists>s. toSerializableValue x (depth + 1) = Some s \<and> asJs s = restrict x"
  shows "map asJs (keptItems depth xs) = map restrict xs"
  using assms
proof (induction xs)
  case Nil
  show ?case by (simp add: keptItems_def List.map_filter_simps)
next
  case (Cons x xs)
  from Cons.prems [of x] obtain s where s: "toSerializableValue x (depth + 1) = Some s" "asJs s = restrict x"
    by auto
  have "map asJs (keptItems depth xs) = map restrict xs"
    using Cons.IH Cons.prems by auto
  then show ?case using s by (simp add: keptItems_def List.map_filter_simps)
qed

lemma keptEntries_all:
  assumes "\<And>k x. (k, x) \<in> set es \<Longrightarrow> \<exists>s. toSerializableValue x (depth + 1) = Some s \<and> asJs s = restrict x"
  shows "map (\<lambda>(k, x). (k, asJs x)) (keptEntries depth es) = map (\<lambda>(k, x). (k, restrict x)) es"
  using assms
proof (induction es)
  case Nil
  show ?case by (simp add: keptEntries_Nil)
next
  case (Cons e es)
  obtain k x where e: "e = (k, x)" by (cases e)
  from Cons.prems [of k x] obtain s where s: "toSerializableValue x (depth + 1) = Some s" "asJs s = restrict x"
    by (auto simp: e)
  have "map (\<lambda>(k, x). (k, asJs x)) (keptEntries depth es) = map (\<lambda>(k, x). (k, restrict x)) es"
    using Cons.IH Cons.prems by auto
  then show ?case by (simp add: e keptEntries_Cons s)
qed

lemma convert_restrict:
  "convertible v \<Longrightarrow> depth + int (nesting v) \<le> 2 \<Longrightarrow> plainKeys v \<Longrightarrow>
     \<exists>s. toSerializableValue v depth = Some s \<and> asJs s = restrict v"
proof (induction v arbitrary: depth)
  case (JArr vs)
  have d: "depth \<le> 2" using JArr.prems(2) by simp
  have each: "\<exists>s. toSerializableValue x (depth + 1) = Some s \<and> asJs s = restrict x"
    if "x \<in> set vs" for x
  proof -
    have "nesting x \<le> fold max (map nesting vs) 0"
      using that fold_max_le [of "map nesting vs" 0 "fold max (map nesting vs) 0"] by auto
    then have "depth + 1 + int (nesting x) \<le> 2" using JArr.prems(2) by simp
    moreover have "convertible x" using JArr.prems(1) that by (simp add: list_all_iff)
    moreover have "plainKeys x" using JArr.prems(3) that by (simp add: list_all_iff)
    ultimately show ?thesis using JArr.IH [OF that] by blast
  qed
  have "map asJs (keptItems depth (take 5 vs)) = map restrict (take 5 vs)"
    by (rule keptItems_all) (auto dest: in_set_takeD intro: each)
  then show ?case
    by (simp add: toSerializableValue_JArr [OF d] take_map)
next
  case (JObj es)
  have d: "depth \<le> 2" using JObj.prems(2) by simp
  have each: "\<exists>s. toSerializableValue x (depth + 1) = Some s \<and> asJs s = restrict x"
    if "(k, x) \<in> set es" for k x
  proof -
    have "nesting x \<in> set (map (\<lambda>(k, x). nesting x) es)" using that by force
    then have "nesting x \<le> fold max (map (\<lambda>(k, x). nesting x) es) 0"
      using fold_max_le [of "map (\<lambda>(k, x). nesting x) es" 0 "fold max (map (\<lambda>(k, x). nesting x) es) 0"]
      by auto
    then have "depth + 1 + int (nesting x) \<le> 2" using JObj.prems(2) by simp
    moreover have "convertible x" using JObj.prems(1) that by (auto simp: list_all_iff)
    moreover have "plainKeys x" using JObj.prems(3) that by (auto simp: list_all_iff)
    moreover have "x \<in> Basic_BNFs.snds (k, x)" by simp
    ultimately show ?thesis using JObj.IH [OF that] by blast
  qed
  have keys: "lit ''__proto__'' \<notin> fst ` set es"
    using JObj.prems(3) by (auto simp: list_all_iff)
  have all: "map (\<lambda>(k, x). (k, asJs x)) (keptEntries depth es) = map (\<lambda>(k, x). (k, restrict x)) es"
    by (rule keptEntries_all) (rule each)
  have "map (\<lambda>(k, x). (k, asJs x)) (take 8 (keptEntries depth es)) = take 8 (map (\<lambda>(k, x). (k, restrict x)) es)"
    using all by (simp add: take_map [symmetric])
  then show ?case
    by (simp add: toSerializableValue_JObj_plain [OF d keys])
qed (simp_all add: toSerializableValue.simps)

subsection \<open>Claims about the conversion\<close>

text \<open>
  An object of nine entries whose first value is \<open>null\<close>, and a value nesting two levels
  with an array of six items.
\<close>

definition nineEntries :: "(jsstring \<times> jsval) list" where
  "nineEntries =
     [(lit ''a'', JNull), (lit ''b'', JNum 1), (lit ''c'', JNum 2), (lit ''d'', JNum 3),
      (lit ''e'', JNum 4), (lit ''f'', JNum 5), (lit ''g'', JNum 6), (lit ''h'', JNum 7),
      (lit ''i'', JNum 8)]"

definition sampleNested :: jsval where
  "sampleNested =
     JObj [(lit ''a'', JObj [(lit ''b'', JNum 1)]),
           (lit ''xs'', JArr [JNum 1, JNum 2, JNum 3, JNum 4, JNum 5, JNum 6])]"

lemma keptEntries_nineEntries:
  "keptEntries 0 nineEntries =
     [(lit ''b'', SNum 1), (lit ''c'', SNum 2), (lit ''d'', SNum 3),
      (lit ''e'', SNum 4), (lit ''f'', SNum 5), (lit ''g'', SNum 6), (lit ''h'', SNum 7),
      (lit ''i'', SNum 8)]"
  by (simp add: nineEntries_def keptEntries_Cons keptEntries_Nil toSerializableValue_prims)

lemma length_keptItems:
  "length (keptItems depth xs) =
     length (filter (\<lambda>x. toSerializableValue x (depth + 1) \<noteq> None) xs)"
  by (induction xs) (auto simp: keptItems_def List.map_filter_simps split: option.split)

text \<open>
  C3, as the code has it: for an object without an own property \<open>__proto__\<close>, converted at
  depth at most 2, the result holds, in iteration order, the first 8 entries whose value
  converts to non-\<open>null\<close>. An entry whose value converts to \<open>null\<close> is skipped and does not
  count, so the budget is one of kept entries, not of attempted ones: entries after the
  eighth attempted one are still taken while fewer than 8 are kept.
\<close>

theorem object_budget_counts_kept_entries:
  "depth \<le> 2 \<Longrightarrow> lit ''__proto__'' \<notin> fst ` set es \<Longrightarrow>
     toSerializableValue (JObj es) depth = Some (SObj (take 8 (keptEntries depth es)))"
  by (rule toSerializableValue_JObj_plain)

theorem object_budget_counts_kept_entries_witness:
  "(0::int) \<le> 2 \<and> lit ''__proto__'' \<notin> fst ` set nineEntries \<and>
   toSerializableValue (JObj nineEntries) 0 =
     Some (SObj [(lit ''b'', SNum 1), (lit ''c'', SNum 2), (lit ''d'', SNum 3),
      (lit ''e'', SNum 4), (lit ''f'', SNum 5), (lit ''g'', SNum 6), (lit ''h'', SNum 7),
      (lit ''i'', SNum 8)])"
proof -
  have k: "lit ''__proto__'' \<notin> fst ` set nineEntries"
    by (simp add: nineEntries_def lit_def)
  from object_budget_counts_kept_entries [of 0 nineEntries] k
  show ?thesis by (simp add: keptEntries_nineEntries)
qed

text \<open>
  C3 as stated (the budget applies to the first 8 attempted entries, with no backfill)
  fails on the nine-entry object: its ninth entry is kept.
\<close>

theorem object_budget_first_eight_attempted_counterexample:
  "toSerializableValue (JObj nineEntries) 0 \<noteq> Some (SObj (firstEightAttempted 0 nineEntries))"
proof -
  have "firstEightAttempted 0 nineEntries =
     [(lit ''b'', SNum 1), (lit ''c'', SNum 2), (lit ''d'', SNum 3),
      (lit ''e'', SNum 4), (lit ''f'', SNum 5), (lit ''g'', SNum 6), (lit ''h'', SNum 7)]"
    by (simp add: firstEightAttempted_def nineEntries_def keptEntries_Cons keptEntries_Nil
        toSerializableValue_prims)
  moreover have "lit ''__proto__'' \<notin> fst ` set nineEntries"
    by (simp add: nineEntries_def lit_def)
  ultimately show ?thesis
    by (simp add: toSerializableValue_JObj_plain keptEntries_nineEntries)
qed

text \<open>
  C4, as the code has it: at a depth above 2 the result is \<open>null\<close>; at a depth of at most 2
  a string, a number and a boolean are returned unchanged and \<open>null\<close> gives \<open>null\<close>; and a
  value nesting at most 2 levels, all of whose members are strings, numbers, booleans or
  containers of such and none of whose objects has an own property \<open>__proto__\<close>, converts,
  at depth 0, to the input restricted to the first 8 keys of every object and the first 5
  items of every array.
\<close>

theorem convert_depth_and_structure:
  "(depth > 2 \<longrightarrow> toSerializableValue v depth = None) \<and>
   (depth \<le> 2 \<longrightarrow>
      toSerializableValue (JStr s) depth = Some (SStr s) \<and>
      toSerializableValue (JNum n) depth = Some (SNum n) \<and>
      toSerializableValue (JBool b) depth = Some (SBool b) \<and>
      toSerializableValue JNull depth = None) \<and>
   (convertible v \<and> plainKeys v \<and> nesting v \<le> 2 \<longrightarrow>
      resultValue (toSerializableValue v 0) = restrict v)"
proof (intro conjI impI)
  assume "convertible v \<and> plainKeys v \<and> nesting v \<le> 2"
  then obtain s where "toSerializableValue v 0 = Some s" "asJs s = restrict v"
    using convert_restrict [of v 0] by auto
  then show "resultValue (toSerializableValue v 0) = restrict v"
    by (simp add: resultValue_def)
qed (simp_all add: toSerializableValue_prims toSerializableValue_deep)

theorem convert_depth_and_structure_witness:
  "toSerializableValue sampleNested 3 = None \<and>
   toSerializableValue (JStr (lit ''x'')) 0 = Some (SStr (lit ''x'')) \<and>
   toSerializableValue (JNum 1) 0 = Some (SNum 1) \<and>
   toSerializableValue (JBool True) 0 = Some (SBool True) \<and>
   toSerializableValue JNull 0 = None \<and>
   convertible sampleNested \<and> plainKeys sampleNested \<and> nesting sampleNested \<le> 2 \<and>
   resultValue (toSerializableValue sampleNested 0) =
     JObj [(lit ''a'', JObj [(lit ''b'', JNum 1)]),
           (lit ''xs'', JArr [JNum 1, JNum 2, JNum 3, JNum 4, JNum 5])]"
proof -
  have c: "convertible sampleNested" and n: "nesting sampleNested \<le> 2"
    by (simp_all add: sampleNested_def)
  have k: "plainKeys sampleNested"
    by (simp add: sampleNested_def lit_def)
  have r: "restrict sampleNested =
     JObj [(lit ''a'', JObj [(lit ''b'', JNum 1)]),
           (lit ''xs'', JArr [JNum 1, JNum 2, JNum 3, JNum 4, JNum 5])]"
    by (simp add: sampleNested_def)
  show ?thesis
    using convert_depth_and_structure [of 3 sampleNested "lit ''x''" 1 True]
      convert_depth_and_structure [of 0 sampleNested "lit ''x''" 1 True] c k n r
    by simp
qed

text \<open>
  C4 as stated fails on \<open>[1, null, 2]\<close>, an acyclic value nesting one level: the result
  \<open>[1, 2]\<close> is not the input restricted to 5 items.
\<close>

theorem convert_structure_counterexample:
  "nesting (JArr [JNum 1, JNull, JNum 2]) \<le> 2 \<and> plainKeys (JArr [JNum 1, JNull, JNum 2]) \<and>
   resultValue (toSerializableValue (JArr [JNum 1, JNull, JNum 2]) 0)
     \<noteq> restrict (JArr [JNum 1, JNull, JNum 2])"
  by (simp add: toSerializableValue_JArr keptItems_def List.map_filter_simps
      toSerializableValue_prims resultValue_def)

text \<open>
  C10: for an array converted at depth at most 2 the result holds the non-\<open>null\<close>
  conversions of the first 5 elements; a literal \<open>null\<close> converts to \<open>null\<close> and is dropped
  as a failed conversion is, so an array with a \<open>null\<close> among its first 5 elements gives
  fewer than \<open>min(5, length)\<close> items; \<open>[1, null, 2]\<close>, all of whose elements are
  serializable primitives, converts to \<open>[1, 2]\<close>.
\<close>

theorem array_null_elements_dropped:
  "depth \<le> 2 \<Longrightarrow>
     toSerializableValue (JArr vs) depth = Some (SArr (keptItems depth (take 5 vs))) \<and>
     toSerializableValue JNull (depth + 1) = None \<and>
     (JNull \<in> set (take 5 vs) \<longrightarrow> length (keptItems depth (take 5 vs)) < min 5 (length vs)) \<and>
     toSerializableValue (JArr [JNum 1, JNull, JNum 2]) 0 = Some (SArr [SNum 1, SNum 2]) \<and>
     list_all isSerializablePrimitive [JNum 1, JNull, JNum 2]"
proof (intro conjI impI)
  assume d: "depth \<le> 2"
  show "toSerializableValue (JArr vs) depth = Some (SArr (keptItems depth (take 5 vs)))"
    by (rule toSerializableValue_JArr [OF d])
  show "toSerializableValue JNull (depth + 1) = None"
    by (simp add: toSerializableValue_prims)
  show "toSerializableValue (JArr [JNum 1, JNull, JNum 2]) 0 = Some (SArr [SNum 1, SNum 2])"
    by (simp add: toSerializableValue_JArr keptItems_def List.map_filter_simps
        toSerializableValue_prims)
  show "list_all isSerializablePrimitive [JNum 1, JNull, JNum 2]" by simp
next
  assume d: "depth \<le> 2" and m: "JNull \<in> set (take 5 vs)"
  have "length (filter (\<lambda>x. toSerializableValue x (depth + 1) \<noteq> None) (take 5 vs))
          < length (take 5 vs)"
    by (rule length_filter_less [OF m]) (simp add: toSerializableValue_prims)
  then show "length (keptItems depth (take 5 vs)) < min 5 (length vs)"
    by (simp add: length_keptItems min.commute)
qed

theorem array_null_elements_dropped_witness:
  "(0::int) \<le> 2 \<and> JNull \<in> set (take 5 [JNum 1, JNull, JNum 2]) \<and>
   toSerializableValue (JArr [JNum 1, JNull, JNum 2]) 0 = Some (SArr [SNum 1, SNum 2]) \<and>
   length (keptItems 0 (take 5 [JNum 1, JNull, JNum 2])) < min 5 (length [JNum 1, JNull, JNum 2])"
  using array_null_elements_dropped [of 0 "[JNum 1, JNull, JNum 2]"]
  by auto

section \<open>Text snippets\<close>

text \<open>
  The white space of \<open>String.prototype.trim\<close> and of the regular expression class \<open>\s\<close>:
  the code points WhiteSpace and LineTerminator of ECMAScript.
\<close>

definition isWhiteSpace :: "16 word \<Rightarrow> bool" where
  "isWhiteSpace c =
     (c = 0x09 \<or> c = 0x0A \<or> c = 0x0B \<or> c = 0x0C \<or> c = 0x0D \<or> c = 0x20 \<or> c = 0xA0 \<or>
      c = 0x1680 \<or> (0x2000 \<le> c \<and> c \<le> 0x200A) \<or> c = 0x2028 \<or> c = 0x2029 \<or>
      c = 0x202F \<or> c = 0x205F \<or> c = 0x3000 \<or> c = 0xFEFF)"

definition trim :: "jsstring \<Rightarrow> jsstring" where
  "trim s = rev (dropWhile isWhiteSpace (rev (dropWhile isWhiteSpace s)))"

text \<open>\<open>s.replace(/\s+/g, " ")\<close>: every maximal run of white space becomes one space.\<close>

function collapseWhitespace :: "jsstring \<Rightarrow> jsstring" where
  "collapseWhitespace [] = []"
| "collapseWhitespace (c # cs) =
     (if isWhiteSpace c then 0x20 # collapseWhitespace (dropWhile isWhiteSpace cs)
      else c # collapseWhitespace cs)"
  by pat_completeness auto
termination
  by (relation "measure length") (auto simp: length_dropWhile_le less_Suc_eq_le)

text \<open>
  \<open>s.slice(0, e)\<close> for an integral \<open>e\<close>: a negative end counts from the end of the string.
\<close>

definition slice0 :: "'a list \<Rightarrow> int \<Rightarrow> 'a list" where
  "slice0 s e =
     (let len = int (length s);
          to = (if e < 0 then max (len + e) 0 else min e len)
      in take (nat to) s)"

text \<open>The ellipsis marker U+2026, one code unit.\<close>

definition ELLIPSIS :: "16 word" where
  "ELLIPSIS = 0x2026"

text \<open>
  \<open>truncateText(text, limit)\<close>; the limit is an integral number (a fractional limit, which
  \<open>slice\<close> would truncate, is not modelled).
\<close>

definition truncateText :: "jsstring \<Rightarrow> int \<Rightarrow> jsstring" where
  "truncateText txt limit =
     (let trimmed = collapseWhitespace (trim txt)
      in if int (length trimmed) \<le> limit then trimmed
         else slice0 trimmed limit @ [ELLIPSIS])"

text \<open>
  C6, as the code has it: for every text and every limit that is not negative,
  \<open>truncateText\<close> trims and whitespace-collapses the input and returns the normalised text
  when it fits, and its first \<open>limit\<close> code units followed by the ellipsis otherwise; the
  result has length at most \<open>limit + 1\<close>, and exactly \<open>limit + 1\<close> if and only if the
  normalised text is longer than the limit.
\<close>

theorem truncateText_length:
  "0 \<le> limit \<Longrightarrow>
     truncateText txt limit =
       (if int (length (collapseWhitespace (trim txt))) \<le> limit
        then collapseWhitespace (trim txt)
        else take (nat limit) (collapseWhitespace (trim txt)) @ [ELLIPSIS]) \<and>
     int (length (truncateText txt limit)) \<le> limit + 1 \<and>
     (int (length (truncateText txt limit)) = limit + 1
        \<longleftrightarrow> int (length (collapseWhitespace (trim txt))) > limit)"
  by (auto simp: truncateText_def slice0_def Let_def min_def)

theorem truncateText_length_witness:
  "(0::int) \<le> 5 \<and>
   truncateText (lit ''  hello   world  '') 5 = lit ''hello'' @ [ELLIPSIS] \<and>
   int (length (truncateText (lit ''  hello   world  '') 5)) = 5 + 1 \<and>
   int (length (collapseWhitespace (trim (lit ''  hello   world  '')))) > 5"
proof -
  have t: "collapseWhitespace (trim (lit ''  hello   world  '')) = lit ''hello world''"
    by (simp add: lit_def trim_def isWhiteSpace_def)
  show ?thesis
    using truncateText_length [of 5 "lit ''  hello   world  ''"]
    by (simp add: t) (simp add: lit_def)
qed

text \<open>
  C6 as stated, for every limit, fails at a negative limit: \<open>slice(0, -1)\<close> keeps all but
  the last code unit, and the result of length 4 exceeds \<open>limit + 1 = 0\<close>.
\<close>

theorem truncateText_negative_limit_counterexample:
  "truncateText (lit ''abcd'') (- 1) = lit ''abc'' @ [ELLIPSIS] \<and>
   \<not> int (length (truncateText (lit ''abcd'') (- 1))) \<le> (- 1) + 1"
  by (simp add: truncateText_def lit_def trim_def isWhiteSpace_def slice0_def)

section \<open>String operations\<close>

text \<open>
  \<open>startsWith\<close>, \<open>endsWith\<close>, \<open>includes\<close>, \<open>join\<close> and \<open>split\<close> on a one-character separator, as
  \<open>String.prototype\<close> and \<open>Array.prototype\<close> define them. \<open>toLowerCase\<close> maps the letters A to Z
  and leaves every other code unit unchanged, which is \<open>String.prototype.toLowerCase\<close> on
  a string of ASCII characters, what \<open>isAscii\<close> says of a string; the case mappings beyond
  ASCII are not modelled. \<open>showNat\<close> is the decimal numeral of an array index, as a
  template literal prints it.
\<close>

definition isAscii :: "jsstring \<Rightarrow> bool" where
  "isAscii s = list_all (\<lambda>c. c < 0x80) s"

definition startsWith :: "jsstring \<Rightarrow> jsstring \<Rightarrow> bool" where
  "startsWith s p = (take (length p) s = p)"

definition endsWith :: "jsstring \<Rightarrow> jsstring \<Rightarrow> bool" where
  "endsWith s p = (length p \<le> length s \<and> drop (length s - length p) s = p)"

fun includesStr :: "jsstring \<Rightarrow> jsstring \<Rightarrow> bool" where
  "includesStr [] p = (p = [])"
| "includesStr (c # cs) p = (startsWith (c # cs) p \<or> includesStr cs p)"

definition toLowerCase :: "jsstring \<Rightarrow> jsstring" where
  "toLowerCase s = map (\<lambda>c. if 0x41 \<le> c \<and> c \<le> 0x5A then c + 0x20 else c) s"

fun joinWith :: "jsstring \<Rightarrow> jsstring list \<Rightarrow> jsstring" where
  "joinWith sep [] = []"
| "joinWith sep [x] = x"
| "joinWith sep (x # y # ys) = x @ sep @ joinWith sep (y # ys)"

fun splitOn :: "16 word \<Rightarrow> jsstring \<Rightarrow> jsstring list" where
  "splitOn d [] = [[]]"
| "splitOn d (c # cs) =
     (if c = d then [] # splitOn d cs
      else (case splitOn d cs of
              seg # rest \<Rightarrow> (c # seg) # rest
            | [] \<Rightarrow> [[c]]))"

function showNat :: "nat \<Rightarrow> jsstring" where
  "showNat n =
     (if n < 10 then [0x30 + of_nat n]
      else showNat (n div 10) @ [0x30 + of_nat (n mod 10)])"
  by pat_completeness auto
termination
  by (relation "measure id") auto

declare showNat.simps [simp del]

section \<open>The context schema\<close>

text \<open>
  The interfaces of the context schema as records. A field is named after the property
  it models, behind a short prefix of its record, since a property name such as \<open>tag\<close>,
  \<open>id\<close> or \<open>source\<close> recurs across interfaces. A property of type \<open>T | null\<close> is a
  \<open>T option\<close>, an optional property also.
\<close>

record BoundingBox =
  bb_x :: real
  bb_y :: real
  bb_width :: real
  bb_height :: real

record SelectionIdentity =
  si_tag :: jsstring
  si_id :: "jsstring option"
  si_dataTestId :: "jsstring option"
  si_role :: "jsstring option"
  si_classes :: "jsstring list"

datatype SourceConfidence = ConfidenceNone | ConfidenceLow | ConfidenceMedium | ConfidenceHigh

datatype SourceOrigin = OriginBippy | OriginSourcemap | OriginInline | OriginUnknown

record SourceLocation =
  sl_fileName :: jsstring
  sl_lineNumber :: "real option"
  sl_columnNumber :: "real option"
  sl_confidence :: SourceConfidence
  sl_origin :: SourceOrigin

record SelectionInfo =
  sel_tag :: jsstring
  sel_boundingBox :: BoundingBox
  sel_identity :: SelectionIdentity
  sel_componentDisplayName :: "jsstring option"
  sel_nearestSource :: "SourceLocation option"
  sel_isLikelyServerComponent :: "bool option"

record DomNodeSummary =
  dn_tag :: jsstring
  dn_id :: "jsstring option"
  dn_dataTestId :: "jsstring option"
  dn_classes :: "jsstring list"
  dn_textSnippet :: "jsstring option"

record SiblingSummary =
  sib_index :: int
  sib_total :: nat
  sib_previous :: "DomNodeSummary option"
  sib_next :: "DomNodeSummary option"

record ChildSummary =
  ch_totalChildren :: nat
  ch_tagCounts :: "(jsstring \<times> nat) list"
  ch_samples :: "DomNodeSummary list"

record Selectors =
  sels_preferred :: jsstring
  sels_all :: "jsstring list"

record DomNeighborhood =
  dom_snippet :: jsstring
  dom_parents :: "DomNodeSummary list"
  dom_siblings :: SiblingSummary
  dom_children :: ChildSummary
  dom_selectors :: Selectors

record ComponentFlags =
  cf_isHost :: bool
  cf_isComposite :: bool
  cf_isSuspenseBoundary :: "bool option"
  cf_isErrorBoundary :: "bool option"
  cf_isServerComponent :: "bool option"
  cf_isLayoutLike :: "bool option"

datatype HighlightReason =
  ReasonText | ReasonDesign | ReasonChildren | ReasonTestId | ReasonAriaLabel | ReasonOther

record PropHighlight =
  ph_name :: jsstring
  ph_value :: "sval option"
  ph_reason :: HighlightReason

record PropsSnapshot =
  ps_totalProps :: nat
  ps_highlighted :: "PropHighlight list"

record StateSnapshotEntry =
  sse_hookIndex :: nat
  sse_value :: "sval option"

record StateSnapshot =
  ss_totalHooks :: nat
  ss_entries :: "StateSnapshotEntry list"

record ContextEntry =
  ce_index :: nat
  ce_value :: "sval option"

record ContextSnapshot =
  cs_totalContexts :: nat
  cs_entries :: "ContextEntry list"

record ReactComponentFrame =
  rf_displayName :: "jsstring option"
  rf_isHost :: bool
  rf_source :: "SourceLocation option"
  rf_flags :: ComponentFlags

record ReactTreeSlice =
  rs_stack :: "ReactComponentFrame list"
  rs_ownerIndex :: "nat option"
  rs_ownerProps :: "PropsSnapshot option"
  rs_ownerState :: "StateSnapshot option"
  rs_ownerContexts :: "ContextSnapshot option"

datatype RuleOrigin = RuleAuthor | RuleUserAgent | RuleInline | RuleUnknown

record MatchedRuleSummary =
  mr_selector :: jsstring
  mr_origin :: RuleOrigin
  mr_specificity :: jsstring
  mr_importantCount :: nat

record StyleLayout =
  ly_display :: "jsstring option"
  ly_position :: "jsstring option"
  ly_flexDirection :: "jsstring option"
  ly_justifyContent :: "jsstring option"
  ly_alignItems :: "jsstring option"
  ly_gap :: "jsstring option"
  ly_gridTemplateColumns :: "jsstring option"
  ly_gridTemplateRows :: "jsstring option"

record StyleSpacing =
  sp_margin :: "jsstring option"
  sp_padding :: "jsstring option"

record StyleSize =
  sz_width :: "jsstring option"
  sz_height :: "jsstring option"

record StyleTypography =
  ty_fontFamily :: "jsstring option"
  ty_fontSize :: "jsstring option"
  ty_fontWeight :: "jsstring option"
  ty_lineHeight :: "jsstring option"

record StyleColors =
  co_color :: "jsstring option"
  co_backgroundColor :: "jsstring option"
  co_borderColor :: "jsstring option"

record StyleFrame =
  st_layout :: StyleLayout
  st_spacing :: StyleSpacing
  st_size :: StyleSize
  st_typography :: StyleTypography
  st_colors :: StyleColors
  st_clickable :: bool
  st_ruleSummaries :: "MatchedRuleSummary list option"

datatype EventKind =
    KindClick | KindChange | KindSubmit | KindInput | KindFocus | KindBlur | KindKey
  | KindPointer | KindOther

datatype BehaviorInferenceLevel = InferenceNone | InferencePropNameOnly

datatype BehaviorInferenceSource = FromPropName | FromRuntimeHook

record EventHandlerInfo =
  eh_propName :: jsstring
  eh_inferredKind :: EventKind
  eh_functionName :: "jsstring option"
  eh_declaredOnComponent :: "jsstring option"
  eh_source :: "SourceLocation option"
  eh_comment :: "jsstring option"
  eh_inferenceSource :: BehaviorInferenceSource

record BehaviorContext =
  bc_inferenceLevel :: BehaviorInferenceLevel
  bc_handlers :: "EventHandlerInfo list"

datatype DataSourceKind =
  DsReactQuery | DsSwr | DsRedux | DsTrpc | DsCustom | DsUnknown

record DataSourceHint =
  ds_kind :: DataSourceKind
  ds_identifier :: "jsstring option"
  ds_description :: "jsstring option"

datatype InferredFramework = NextApp | NextPages | Remix | ReactRouter | UnknownFramework

record FrameworkDetectionResult =
  fd_framework :: InferredFramework
  fd_routePatternGuess :: "jsstring option"
  fd_routeParamsGuess :: "(jsstring \<times> jsstring) list option"
  fd_pageComponent :: "SourceLocation option"
  fd_layoutComponents :: "SourceLocation list"

record AppContext =
  app_url :: jsstring
  app_pathname :: jsstring
  app_search :: jsstring
  app_hash :: jsstring
  app_framework :: InferredFramework
  app_routePatternGuess :: "jsstring option"
  app_routeParamsGuess :: "(jsstring \<times> jsstring) list option"
  app_pageComponent :: "SourceLocation option"
  app_layoutComponents :: "SourceLocation list"
  app_dataSources :: "DataSourceHint list"

datatype TestHintType = HintTest | HintStory | HintCommand

record TestHint =
  th_type :: TestHintType
  th_location :: SourceLocation
  th_description :: "jsstring option"

record TestsBlock =
  tb_hints :: "TestHint list"

datatype ReactBuildType = BuildDevelopment | BuildProduction | BuildUnknown

datatype ReactInspectorStatus =
  StatusOk | StatusNoHook | StatusInactive | StatusNoFiber | StatusError

record ReactDebugInfo =
  rd_buildType :: ReactBuildType
  rd_inspectorStatus :: ReactInspectorStatus
  rd_message :: "jsstring option"

record ElementContextV2 =
  ec_selection :: SelectionInfo
  ec_dom :: DomNeighborhood
  ec_react :: "ReactTreeSlice option"
  ec_reactDebug :: ReactDebugInfo
  ec_styling :: StyleFrame
  ec_behavior :: BehaviorContext
  ec_app :: AppContext
  ec_tests :: "TestsBlock option"

record GrabrSession =
  gs_id :: jsstring
  gs_createdAt :: jsstring
  gs_url :: jsstring
  gs_userInstruction :: "jsstring option"
  gs_summary :: "jsstring option"
  gs_elements :: "ElementContextV2 list"

record FrameworkDetectionInput =
  fi_reactSlice :: "ReactTreeSlice option"
  fi_url :: jsstring
  fi_pathname :: jsstring

record DataSourceDetectionInput =
  di_ownerProps :: "PropsSnapshot option"

section \<open>Framework and route heuristics\<close>

text \<open>
  The default framework strategy \<open>nextLikeFrameworkStrategy.detect\<close> with its helpers. A
  pathname comes from \<open>window.location.pathname\<close>, which is serialised in ASCII; a caller
  of \<open>detect\<close> can pass any string, and what is proved of the route pattern is proved for
  a pathname of ASCII characters, on which \<open>toLowerCase\<close> is the one of the language.
\<close>

definition inferFrameworkFromPath :: "jsstring \<Rightarrow> InferredFramework" where
  "inferFrameworkFromPath path =
     (if includesStr path (lit ''/app/'') then NextApp
      else if includesStr path (lit ''/pages/'') then NextPages
      else if includesStr path (lit ''react-router'') then ReactRouter
      else if includesStr path (lit ''remix'') then Remix
      else UnknownFramework)"

definition isLayoutLikeFromPath :: "jsstring \<Rightarrow> bool" where
  "isLayoutLikeFromPath path =
     (endsWith path (lit ''/layout.tsx'') \<or> endsWith path (lit ''/layout.jsx'') \<or>
      endsWith path (lit ''/_layout.tsx'') \<or> endsWith path (lit ''/_layout.jsx''))"

definition isPageLikeFromPath :: "jsstring \<Rightarrow> bool" where
  "isPageLikeFromPath path =
     (endsWith path (lit ''/page.tsx'') \<or> endsWith path (lit ''/page.jsx'') \<or>
      endsWith path (lit ''/index.tsx'') \<or> endsWith path (lit ''/index.jsx''))"

text \<open>\<open>/^\d+$/.test(seg)\<close>: one or more ASCII digits and nothing else.\<close>

definition isDigits :: "jsstring \<Rightarrow> bool" where
  "isDigits seg = (seg \<noteq> [] \<and> list_all (\<lambda>c. 0x30 \<le> c \<and> c \<le> 0x39) seg)"

text \<open>
  The loop over the stack of the slice: the state is the framework guessed so far, the
  layout components and the page component.
\<close>

fun scanFrames ::
  "ReactComponentFrame list \<Rightarrow> InferredFramework \<times> SourceLocation list \<times> SourceLocation option
    \<Rightarrow> InferredFramework \<times> SourceLocation list \<times> SourceLocation option" where
  "scanFrames [] st = st"
| "scanFrames (frame # frames) (framework, layoutComponents, pageComponent) =
     (case rf_source frame of
        None \<Rightarrow> scanFrames frames (framework, layoutComponents, pageComponent)
      | Some source \<Rightarrow>
          (let path = sl_fileName source;
               framework' =
                 (if framework = UnknownFramework then inferFrameworkFromPath path else framework);
               layoutComponents' =
                 (if isLayoutLikeFromPath path then layoutComponents @ [source]
                  else layoutComponents);
               pageComponent' =
                 (if pageComponent = None \<and> isPageLikeFromPath path then Some source
                  else pageComponent)
           in scanFrames frames (framework', layoutComponents', pageComponent')))"

text \<open>
  The body of \<open>segments.forEach((seg, idx) => ...)\<close> on the state
  \<open>(patternSegments, routeParamsGuess)\<close>, and the loop from index \<open>idx\<close> on.
  \<open>routeParamsGuess[key] = seg\<close> is \<open>AList.update\<close>: it replaces the value of a key
  present and adds an absent key last.
\<close>

definition routeSegmentStep ::
  "jsstring \<Rightarrow> nat \<Rightarrow> jsstring list \<times> (jsstring \<times> jsstring) list
    \<Rightarrow> jsstring list \<times> (jsstring \<times> jsstring) list" where
  "routeSegmentStep seg idx st =
     (case st of (patternSegments, routeParamsGuess) \<Rightarrow>
        if isDigits seg then
          (patternSegments @ [lit ''[id'' @ showNat idx @ lit '']''],
           AList.update (lit ''id'' @ showNat idx) seg routeParamsGuess)
        else if length seg > 2 \<and> seg = toLowerCase seg then
          (patternSegments @ [seg], routeParamsGuess)
        else
          (patternSegments @ [lit ''[param'' @ showNat idx @ lit '']''],
           AList.update (lit ''param'' @ showNat idx) seg routeParamsGuess))"

fun routeSegmentsLoop ::
  "jsstring list \<Rightarrow> nat \<Rightarrow> jsstring list \<times> (jsstring \<times> jsstring) list
    \<Rightarrow> jsstring list \<times> (jsstring \<times> jsstring) list" where
  "routeSegmentsLoop [] idx st = st"
| "routeSegmentsLoop (seg # segs) idx st =
     routeSegmentsLoop segs (idx + 1) (routeSegmentStep seg idx st)"

definition pathSegments :: "jsstring \<Rightarrow> jsstring list" where
  "pathSegments pathname = filter (\<lambda>s. length s > 0) (splitOn 0x2F pathname)"

definition nextLikeDetect :: "FrameworkDetectionInput \<Rightarrow> FrameworkDetectionResult option" where
  "nextLikeDetect input =
     (case fi_reactSlice input of
        None \<Rightarrow> None
      | Some reactSlice \<Rightarrow>
          (case scanFrames (rs_stack reactSlice) (UnknownFramework, [], None) of
             (framework, layoutComponents, pageComponent) \<Rightarrow>
               if framework = UnknownFramework \<and> pageComponent = None \<and> length layoutComponents = 0
               then None
               else
                 (let (patternSegments, routeParamsGuess) =
                        (if framework = NextApp \<or> framework = NextPages
                         then routeSegmentsLoop (pathSegments (fi_pathname input)) 0 ([], [])
                         else ([], []));
                      routePatternGuess =
                        (if framework = NextApp \<or> framework = NextPages
                         then Some (lit ''/'' @ joinWith (lit ''/'') patternSegments)
                         else None)
                  in Some \<lparr> fd_framework = framework,
                            fd_routePatternGuess = routePatternGuess,
                            fd_routeParamsGuess =
                              (if length routeParamsGuess > 0 then Some routeParamsGuess else None),
                            fd_pageComponent = pageComponent,
                            fd_layoutComponents = layoutComponents \<rparr>)))"

definition sampleFlags :: ComponentFlags where
  "sampleFlags = \<lparr> cf_isHost = False, cf_isComposite = True, cf_isSuspenseBoundary = None,
     cf_isErrorBoundary = None, cf_isServerComponent = Some True, cf_isLayoutLike = Some False \<rparr>"

definition sampleRouteInput :: FrameworkDetectionInput where
  "sampleRouteInput =
     \<lparr> fi_reactSlice = Some
         \<lparr> rs_stack =
             [\<lparr> rf_displayName = Some (lit ''Page''), rf_isHost = False,
                rf_source = Some \<lparr> sl_fileName = lit ''/src/app/page.tsx'', sl_lineNumber = None,
                  sl_columnNumber = None, sl_confidence = ConfidenceHigh, sl_origin = OriginBippy \<rparr>,
                rf_flags = sampleFlags \<rparr>],
           rs_ownerIndex = None, rs_ownerProps = None, rs_ownerState = None,
           rs_ownerContexts = None \<rparr>,
       fi_url = lit ''http://localhost/en/users/42/Profile'',
       fi_pathname = lit ''/en/users/42/Profile'' \<rparr>"



lemma showNat_nonempty: "showNat n \<noteq> []"
  by (subst showNat.simps) simp

lemma digit_word_inj:
  "m < 10 \<Longrightarrow> n < 10 \<Longrightarrow> (0x30 + of_nat m :: 16 word) = 0x30 + of_nat n \<Longrightarrow> m = n"
proof -
  assume m: "m < 10" and n: "n < 10" and e: "(0x30 + of_nat m :: 16 word) = 0x30 + of_nat n"
  from e have "(of_nat m :: 16 word) = of_nat n" by simp
  then have "take_bit 16 m = take_bit 16 n" by (simp add: word_of_nat_eq_iff)
  moreover have "take_bit 16 m = m" using m by (simp add: take_bit_nat_eq_self)
  moreover have "take_bit 16 n = n" using n by (simp add: take_bit_nat_eq_self)
  ultimately show "m = n" by simp
qed

lemma showNat_inj: "showNat m = showNat n \<Longrightarrow> m = n"
proof (induction m arbitrary: n rule: showNat.induct)
  case (1 m)
  show ?case
  proof (cases "m < 10")
    case True
    note m = True
    show ?thesis
    proof (cases "n < 10")
      case True
      with m "1.prems" show ?thesis
        by (simp add: showNat.simps [of m] showNat.simps [of n] digit_word_inj)
    next
      case False
      with m "1.prems" showNat_nonempty [of "n div 10"] show ?thesis
        by (simp add: showNat.simps [of m] showNat.simps [of n] Cons_eq_append_conv)
    qed
  next
    case False
    note m = False
    show ?thesis
    proof (cases "n < 10")
      case True
      with m "1.prems" showNat_nonempty [of "m div 10"] show ?thesis
        by (simp add: showNat.simps [of m] showNat.simps [of n] append_eq_Cons_conv)
    next
      case False
      with m "1.prems" have e: "showNat (m div 10) = showNat (n div 10)"
        and d: "(0x30 + of_nat (m mod 10) :: 16 word) = 0x30 + of_nat (n mod 10)"
        by (simp_all add: showNat.simps [of m] showNat.simps [of n])
      from "1.IH" [OF m e] have "m div 10 = n div 10" .
      moreover from d have "m mod 10 = n mod 10" by (intro digit_word_inj) simp_all
      ultimately show ?thesis by (metis div_mult_mod_eq)
    qed
  qed
qed

definition idKey :: "nat \<Rightarrow> jsstring" where
  "idKey idx = lit ''id'' @ showNat idx"

definition paramKey :: "nat \<Rightarrow> jsstring" where
  "paramKey idx = lit ''param'' @ showNat idx"

lemma key_inj [simp]:
  "idKey i = idKey j \<longleftrightarrow> i = j"
  "paramKey i = paramKey j \<longleftrightarrow> i = j"
  "idKey i \<noteq> paramKey j"
  "paramKey j \<noteq> idKey i"
  by (auto simp: idKey_def paramKey_def lit_def dest: showNat_inj)

text \<open>How the loop body classifies a segment; used to state the loop lemmas.\<close>

datatype SegmentClass = NumericSegment | LiteralSegment | GenericSegment

definition classifySegment :: "jsstring \<Rightarrow> SegmentClass" where
  "classifySegment seg =
     (if isDigits seg then NumericSegment
      else if length seg > 2 \<and> seg = toLowerCase seg then LiteralSegment
      else GenericSegment)"

lemma routeSegmentStep_fst:
  "fst (routeSegmentStep seg idx (ps, qs)) =
     ps @ [case classifySegment seg of
             NumericSegment \<Rightarrow> lit ''[id'' @ showNat idx @ lit '']''
           | LiteralSegment \<Rightarrow> seg
           | GenericSegment \<Rightarrow> lit ''[param'' @ showNat idx @ lit '']'']"
  by (simp add: routeSegmentStep_def classifySegment_def)

lemma routeSegmentStep_snd:
  "map_of (snd (routeSegmentStep seg idx (ps, qs))) =
     (case classifySegment seg of
        NumericSegment \<Rightarrow> (map_of qs)(idKey idx \<mapsto> seg)
      | LiteralSegment \<Rightarrow> map_of qs
      | GenericSegment \<Rightarrow> (map_of qs)(paramKey idx \<mapsto> seg))"
  by (simp add: routeSegmentStep_def classifySegment_def idKey_def paramKey_def AList.update_conv')

lemma loop_length:
  "length (fst (routeSegmentsLoop segs k st)) = length (fst st) + length segs"
proof (induction segs arbitrary: k st)
  case Nil
  show ?case by simp
next
  case (Cons seg segs)
  obtain ps qs where st: "st = (ps, qs)" by (cases st)
  show ?case by (simp add: Cons.IH st routeSegmentStep_fst)
qed

lemma loop_prefix:
  "i < length (fst st) \<Longrightarrow> fst (routeSegmentsLoop segs k st) ! i = fst st ! i"
proof (induction segs arbitrary: k st)
  case Nil
  show ?case by simp
next
  case (Cons seg segs)
  obtain ps qs where st: "st = (ps, qs)" by (cases st)
  show ?case using Cons.prems by (simp add: Cons.IH st routeSegmentStep_fst nth_append)
qed

lemma loop_nth:
  "i < length segs \<Longrightarrow>
     fst (routeSegmentsLoop segs k st) ! (length (fst st) + i) =
       (case classifySegment (segs ! i) of
          NumericSegment \<Rightarrow> lit ''[id'' @ showNat (k + i) @ lit '']''
        | LiteralSegment \<Rightarrow> segs ! i
        | GenericSegment \<Rightarrow> lit ''[param'' @ showNat (k + i) @ lit '']'')"
proof (induction segs arbitrary: k st i)
  case Nil
  then show ?case by simp
next
  case (Cons seg segs)
  obtain ps qs where st: "st = (ps, qs)" by (cases st)
  show ?case
  proof (cases i)
    case 0
    show ?thesis
      unfolding 0 by (simp add: st loop_prefix routeSegmentStep_fst cong: SegmentClass.case_cong)
  next
    case (Suc i')
    then have "i' < length segs" using Cons.prems by simp
    from Cons.IH [OF this, of "k + 1" "routeSegmentStep seg k st"] show ?thesis
      by (simp add: st Suc routeSegmentStep_fst cong: SegmentClass.case_cong)
  qed
qed

lemma loop_untouched:
  "(\<And>j. k \<le> j \<Longrightarrow> key \<noteq> idKey j \<and> key \<noteq> paramKey j) \<Longrightarrow>
     map_of (snd (routeSegmentsLoop segs k st)) key = map_of (snd st) key"
proof (induction segs arbitrary: k st)
  case Nil
  show ?case by simp
next
  case (Cons seg segs)
  obtain ps qs where st: "st = (ps, qs)" by (cases st)
  have "map_of (snd (routeSegmentsLoop segs (k + 1) (routeSegmentStep seg k st))) key =
        map_of (snd (routeSegmentStep seg k st)) key"
    by (rule Cons.IH) (simp add: Cons.prems)
  also have "\<dots> = map_of (snd st) key"
    using Cons.prems [of k]
    by (simp add: st routeSegmentStep_snd split: SegmentClass.split)
  finally show ?case by simp
qed

lemma loop_lookup:
  "i < length segs \<Longrightarrow>
     map_of (snd (routeSegmentsLoop segs k st)) (idKey (k + i)) =
       (if classifySegment (segs ! i) = NumericSegment then Some (segs ! i)
        else map_of (snd st) (idKey (k + i))) \<and>
     map_of (snd (routeSegmentsLoop segs k st)) (paramKey (k + i)) =
       (if classifySegment (segs ! i) = GenericSegment then Some (segs ! i)
        else map_of (snd st) (paramKey (k + i)))"
proof (induction segs arbitrary: k st i)
  case Nil
  then show ?case by simp
next
  case (Cons seg segs)
  obtain ps qs where st: "st = (ps, qs)" by (cases st)
  show ?case
  proof (cases i)
    case 0
    have a: "map_of (snd (routeSegmentsLoop segs (k + 1) (routeSegmentStep seg k st))) (idKey k) =
          map_of (snd (routeSegmentStep seg k st)) (idKey k)"
      by (rule loop_untouched) simp
    have b: "map_of (snd (routeSegmentsLoop segs (k + 1) (routeSegmentStep seg k st))) (paramKey k) =
          map_of (snd (routeSegmentStep seg k st)) (paramKey k)"
      by (rule loop_untouched) simp
    show ?thesis
      using a b by (simp add: 0 st routeSegmentStep_snd split: SegmentClass.split)
  next
    case (Suc i')
    then have "i' < length segs" using Cons.prems by simp
    from Cons.IH [OF this, of "k + 1" "routeSegmentStep seg k st"] show ?thesis
      by (simp add: st Suc routeSegmentStep_snd split: SegmentClass.split)
  qed
qed


lemma nextLikeDetect_next:
  assumes "nextLikeDetect input = Some r"
      and "fd_framework r = NextApp \<or> fd_framework r = NextPages"
  shows "fd_routePatternGuess r =
           Some (lit ''/'' @ joinWith (lit ''/'')
             (fst (routeSegmentsLoop (pathSegments (fi_pathname input)) 0 ([], []))))"
    and "fd_routeParamsGuess r =
           (if snd (routeSegmentsLoop (pathSegments (fi_pathname input)) 0 ([], [])) = [] then None
            else Some (snd (routeSegmentsLoop (pathSegments (fi_pathname input)) 0 ([], []))))"
  using assms
  by (auto simp: nextLikeDetect_def Let_def split: option.splits prod.splits if_splits)

definition shortSegmentInput :: FrameworkDetectionInput where
  "shortSegmentInput = sampleRouteInput \<lparr> fi_pathname := lit ''/en/users'' \<rparr>"


definition sampleRouteResult :: FrameworkDetectionResult where
  "sampleRouteResult =
     \<lparr> fd_framework = NextApp,
       fd_routePatternGuess = Some (lit ''/[param0]/users/[id2]/[param3]''),
       fd_routeParamsGuess = Some [(lit ''param0'', lit ''en''), (lit ''id2'', lit ''42''),
          (lit ''param3'', lit ''Profile'')],
       fd_pageComponent = Some \<lparr> sl_fileName = lit ''/src/app/page.tsx'', sl_lineNumber = None,
          sl_columnNumber = None, sl_confidence = ConfidenceHigh, sl_origin = OriginBippy \<rparr>,
       fd_layoutComponents = [] \<rparr>"
lemma sample_eval:
  "nextLikeDetect sampleRouteInput =
     Some \<lparr> fd_framework = NextApp,
            fd_routePatternGuess = Some (lit ''/[param0]/users/[id2]/[param3]''),
            fd_routeParamsGuess = Some [(lit ''param0'', lit ''en''), (lit ''id2'', lit ''42''),
               (lit ''param3'', lit ''Profile'')],
            fd_pageComponent = Some \<lparr> sl_fileName = lit ''/src/app/page.tsx'', sl_lineNumber = None,
                  sl_columnNumber = None, sl_confidence = ConfidenceHigh, sl_origin = OriginBippy \<rparr>,
            fd_layoutComponents = [] \<rparr>"
  by (simp add: nextLikeDetect_def sampleRouteInput_def lit_def inferFrameworkFromPath_def
      isLayoutLikeFromPath_def isPageLikeFromPath_def startsWith_def endsWith_def
      pathSegments_def routeSegmentStep_def isDigits_def toLowerCase_def showNat.simps)

text \<open>
  C5, as the code has it, for a pathname of ASCII characters: when the framework guess is
  next-app or next-pages, the route
  pattern is \<open>/\<close> followed by one pattern segment per non-empty pathname segment, joined
  by \<open>/\<close>. A segment of ASCII digits only becomes \<open>[id<index>]\<close> and is captured as the param
  \<open>id<index>\<close>; any other segment longer than 2 code units that equals its own lowercasing
  is kept literal and captures nothing; every other segment, so every segment of at most
  2 code units that is not numeric and every segment with an uppercase letter, becomes
  \<open>[param<index>]\<close> and is captured as the param \<open>param<index>\<close>. The params guess is
  \<open>null\<close> when nothing was captured.
\<close>

theorem nextLike_route_pattern:
  assumes "nextLikeDetect input = Some r"
      and "fd_framework r = NextApp \<or> fd_framework r = NextPages"
      and "isAscii (fi_pathname input)"
  shows "\<exists>pats params.
     fd_routePatternGuess r = Some (lit ''/'' @ joinWith (lit ''/'') pats) \<and>
     fd_routeParamsGuess r = (if params = [] then None else Some params) \<and>
     length pats = length (pathSegments (fi_pathname input)) \<and>
     (\<forall>i < length (pathSegments (fi_pathname input)).
        let seg = pathSegments (fi_pathname input) ! i in
          (isDigits seg \<longrightarrow>
             pats ! i = lit ''[id'' @ showNat i @ lit '']'' \<and>
             map_of params (lit ''id'' @ showNat i) = Some seg) \<and>
          (\<not> isDigits seg \<and> length seg > 2 \<and> seg = toLowerCase seg \<longrightarrow>
             pats ! i = seg \<and>
             map_of params (lit ''id'' @ showNat i) = None \<and>
             map_of params (lit ''param'' @ showNat i) = None) \<and>
          (\<not> isDigits seg \<and> \<not> (length seg > 2 \<and> seg = toLowerCase seg) \<longrightarrow>
             pats ! i = lit ''[param'' @ showNat i @ lit '']'' \<and>
             map_of params (lit ''param'' @ showNat i) = Some seg))"
proof -
  define segs where "segs = pathSegments (fi_pathname input)"
  define pats where "pats = fst (routeSegmentsLoop segs 0 ([], []))"
  define params where "params = snd (routeSegmentsLoop segs 0 ([], []))"
  have p: "fd_routePatternGuess r = Some (lit ''/'' @ joinWith (lit ''/'') pats)"
    using nextLikeDetect_next(1) [OF assms(1,2)] by (simp add: pats_def segs_def)
  have q: "fd_routeParamsGuess r = (if params = [] then None else Some params)"
    using nextLikeDetect_next(2) [OF assms(1,2)] by (simp add: params_def segs_def)
  have l: "length pats = length segs"
    by (simp add: pats_def loop_length)
  have each: "(isDigits (segs ! i) \<longrightarrow>
             pats ! i = lit ''[id'' @ showNat i @ lit '']'' \<and>
             map_of params (lit ''id'' @ showNat i) = Some (segs ! i)) \<and>
          (\<not> isDigits (segs ! i) \<and> length (segs ! i) > 2 \<and> segs ! i = toLowerCase (segs ! i) \<longrightarrow>
             pats ! i = segs ! i \<and>
             map_of params (lit ''id'' @ showNat i) = None \<and>
             map_of params (lit ''param'' @ showNat i) = None) \<and>
          (\<not> isDigits (segs ! i) \<and> \<not> (length (segs ! i) > 2 \<and> segs ! i = toLowerCase (segs ! i)) \<longrightarrow>
             pats ! i = lit ''[param'' @ showNat i @ lit '']'' \<and>
             map_of params (lit ''param'' @ showNat i) = Some (segs ! i))"
    if i: "i < length segs" for i
  proof -
    have n: "pats ! i =
       (case classifySegment (segs ! i) of
          NumericSegment \<Rightarrow> lit ''[id'' @ showNat i @ lit '']''
        | LiteralSegment \<Rightarrow> segs ! i
        | GenericSegment \<Rightarrow> lit ''[param'' @ showNat i @ lit '']'')"
      using loop_nth [OF i, of 0 "([], [])"] by (simp add: pats_def cong: SegmentClass.case_cong)
    have m: "map_of params (idKey i) =
               (if classifySegment (segs ! i) = NumericSegment then Some (segs ! i) else None)"
            "map_of params (paramKey i) =
               (if classifySegment (segs ! i) = GenericSegment then Some (segs ! i) else None)"
      using loop_lookup [OF i, of 0 "([], [])"] by (simp_all add: params_def)
    show ?thesis
      using n m by (auto simp: classifySegment_def idKey_def paramKey_def split: if_splits)
  qed
  show ?thesis
    apply (rule exI [of _ pats])
    apply (rule exI [of _ params])
    using p q l each by (simp add: segs_def Let_def)
qed

theorem nextLike_route_pattern_witness:
  "nextLikeDetect sampleRouteInput = Some sampleRouteResult \<and>
   fd_framework sampleRouteResult = NextApp \<and>
   isAscii (fi_pathname sampleRouteInput) \<and>
   fd_routePatternGuess sampleRouteResult = Some (lit ''/[param0]/users/[id2]/[param3]'') \<and>
   (\<exists>pats params.
     fd_routePatternGuess sampleRouteResult = Some (lit ''/'' @ joinWith (lit ''/'') pats) \<and>
     fd_routeParamsGuess sampleRouteResult = (if params = [] then None else Some params) \<and>
     length pats = length (pathSegments (fi_pathname sampleRouteInput)))"
proof -
  have e: "nextLikeDetect sampleRouteInput = Some sampleRouteResult"
    by (simp add: sample_eval sampleRouteResult_def)
  have f: "fd_framework sampleRouteResult = NextApp \<or> fd_framework sampleRouteResult = NextPages"
    by (simp add: sampleRouteResult_def)
  have g: "fd_routePatternGuess sampleRouteResult = Some (lit ''/[param0]/users/[id2]/[param3]'')"
    by (simp add: sampleRouteResult_def)
  have a: "isAscii (fi_pathname sampleRouteInput)"
    by (simp add: sampleRouteInput_def isAscii_def lit_def)
  from nextLike_route_pattern [OF e f a] obtain pats params where
    "fd_routePatternGuess sampleRouteResult = Some (lit ''/'' @ joinWith (lit ''/'') pats)"
    "fd_routeParamsGuess sampleRouteResult = (if params = [] then None else Some params)"
    "length pats = length (pathSegments (fi_pathname sampleRouteInput))"
    by blast
  then show ?thesis using e f g a by (auto simp: sampleRouteResult_def)
qed

text \<open>
  C5 as stated (short lowercase segments are kept literal) fails on the pathname
  \<open>/en/users\<close>: the segment \<open>en\<close>, two lowercase letters, becomes the placeholder \<open>[param0]\<close>.
\<close>

theorem short_segment_counterexample:
  "isAscii (fi_pathname shortSegmentInput) \<and> length (lit ''en'') \<le> 2 \<and> lit ''en'' = toLowerCase (lit ''en'') \<and> \<not> isDigits (lit ''en'') \<and>
   map_option fd_framework (nextLikeDetect shortSegmentInput) = Some NextApp \<and>
   map_option fd_routePatternGuess (nextLikeDetect shortSegmentInput)
     = Some (Some (lit ''/[param0]/users'')) \<and>
   map_option fd_routePatternGuess (nextLikeDetect shortSegmentInput)
     \<noteq> Some (Some (lit ''/en/users''))"
  by (simp add: nextLikeDetect_def shortSegmentInput_def sampleRouteInput_def lit_def inferFrameworkFromPath_def
      isLayoutLikeFromPath_def isPageLikeFromPath_def startsWith_def endsWith_def
      pathSegments_def routeSegmentStep_def isDigits_def toLowerCase_def showNat.simps
      isAscii_def)

section \<open>DOM summarizer\<close>

text \<open>
  The part of the DOM the code reads. Elements have identity (\<open>sibling === el\<close> compares
  references), so an element is a reference into a document, and the document gives the
  state of each element: its tag name, the reflected \<open>id\<close> and \<open>className\<close>, the tokens of
  \<open>classList\<close>, its attributes, \<open>textContent\<close>, its parent element and its element children
  in order, its bounding rectangle and computed style, and whether it is a button or an
  anchor element and connected to the document. \<open>className\<close> is a string on an HTML
  element; on an SVG element it is an \<open>SVGAnimatedString\<close>, an object without the methods
  of a string, which is \<open>None\<close> here.
\<close>

type_synonym noderef = nat

record DOMRect =
  rect_left :: real
  rect_top :: real
  rect_width :: real
  rect_height :: real

record DomElement =
  el_tagName :: jsstring
  el_id :: jsstring
  el_className :: "jsstring option"
  el_classList :: "jsstring list"
  el_attributes :: "(jsstring \<times> jsstring) list"
  el_textContent :: "jsstring option"
  el_parentElement :: "noderef option"
  el_children :: "noderef list"
  el_rect :: DOMRect
  el_computedStyle :: "(jsstring \<times> jsstring) list"
  el_isButton :: bool
  el_isAnchor :: bool
  el_isConnected :: bool

type_synonym document = "noderef \<Rightarrow> DomElement"

text \<open>
  \<open>getDataTestId\<close>: \<open>data-testid\<close>, or \<open>data-test-id\<close> when \<open>data-testid\<close> is absent, trimmed;
  \<open>null\<close> when the attribute is absent or blank.
\<close>

definition getAttribute :: "DomElement \<Rightarrow> jsstring \<Rightarrow> jsstring option" where
  "getAttribute e name = map_of (el_attributes e) name"

definition getDataTestId :: "DomElement \<Rightarrow> jsstring option" where
  "getDataTestId e =
     (case (case getAttribute e (lit ''data-testid'') of
              Some v \<Rightarrow> Some v
            | None \<Rightarrow> getAttribute e (lit ''data-test-id'')) of
        None \<Rightarrow> None
      | Some v \<Rightarrow> (let trimmed = trim v in if length trimmed = 0 then None else Some trimmed))"

text \<open>
  \<open>buildPreferredSelector(el)\<close>. \<open>nthOfTypeLoop\<close> is its \<open>while\<close> loop over the children of the
  parent, from \<open>firstElementChild\<close> along \<open>nextElementSibling\<close>. \<open>CSS.escape\<close> is the browser's;
  it is a parameter, and the claims hold for every escaping function.
\<close>

fun nthOfTypeLoop :: "document \<Rightarrow> noderef \<Rightarrow> noderef list \<Rightarrow> nat \<Rightarrow> nat" where
  "nthOfTypeLoop doc el [] index = index"
| "nthOfTypeLoop doc el (sibling # rest) index =
     (if sibling = el then index
      else nthOfTypeLoop doc el rest
             (if el_tagName (doc sibling) = el_tagName (doc el) then index + 1 else index))"

definition buildPreferredSelector :: "(jsstring \<Rightarrow> jsstring) \<Rightarrow> document \<Rightarrow> noderef \<Rightarrow> jsstring" where
  "buildPreferredSelector CSS_escape doc el =
     (let e = doc el; ident = el_id e in
      if length ident > 0 \<and> \<not> includesStr ident (lit '' '') then lit ''#'' @ CSS_escape ident
      else
        (case getDataTestId e of
           Some dataTestId \<Rightarrow> lit ''[data-testid='' @ [0x22] @ CSS_escape dataTestId @ [0x22] @ lit '']''
         | None \<Rightarrow>
             (let classes = filter (\<lambda>cls. length cls > 0) (el_classList e);
                  baseTag = toLowerCase (el_tagName e)
              in if length classes > 0
                 then baseTag @ lit ''.'' @ joinWith (lit ''.'') (map CSS_escape classes)
                 else
                   (case el_parentElement e of
                      None \<Rightarrow> baseTag
                    | Some parent \<Rightarrow>
                        baseTag @ lit '':nth-of-type('' @
                          showNat (nthOfTypeLoop doc el (el_children (doc parent)) 1) @ lit '')''))))"


definition bareElement :: "jsstring \<Rightarrow> noderef option \<Rightarrow> noderef list \<Rightarrow> DomElement" where
  "bareElement tagName parent children =
     \<lparr> el_tagName = tagName, el_id = [], el_className = Some [], el_classList = [],
       el_attributes = [], el_textContent = Some [], el_parentElement = parent,
       el_children = children,
       el_rect = \<lparr> rect_left = 0, rect_top = 0, rect_width = 0, rect_height = 0 \<rparr>,
       el_computedStyle = [], el_isButton = False, el_isAnchor = False, el_isConnected = True \<rparr>"

text \<open>
  A sample document: \<open>html\<close> (0) holds \<open>body\<close> (1), which holds \<open>ul\<close> (2), \<open>div#main\<close> (7),
  a \<open>span\<close> with a \<open>data-test-id\<close> (8) and \<open>em.a.b\<close> (9); the \<open>ul\<close> holds \<open>li\<close> (3), \<open>p\<close> (4),
  \<open>li\<close> (5) and \<open>li\<close> (6).
\<close>

definition sampleDocument :: document where
  "sampleDocument n =
     (if n = 0 then bareElement (lit ''HTML'') None [1]
      else if n = 1 then bareElement (lit ''BODY'') (Some 0) [2, 7, 8, 9]
      else if n = 2 then bareElement (lit ''UL'') (Some 1) [3, 4, 5, 6]
      else if n = 4 then bareElement (lit ''P'') (Some 2) []
      else if n = 7 then (bareElement (lit ''DIV'') (Some 1) []) \<lparr> el_id := lit ''main'' \<rparr>
      else if n = 8 then (bareElement (lit ''SPAN'') (Some 1) [])
             \<lparr> el_attributes := [(lit ''data-test-id'', lit '' save '')] \<rparr>
      else if n = 9 then (bareElement (lit ''EM'') (Some 1) [])
             \<lparr> el_className := Some (lit ''a b''), el_classList := [lit ''a'', lit ''b''] \<rparr>
      else bareElement (lit ''LI'') (Some 2) [])"





section \<open>Bounded-concurrency capture\<close>

text \<open>
  \<open>mapWithConcurrencyLimit(items, limit, mapper)\<close>. Scheduling is cooperative: a worker runs
  from one \<open>await\<close> to the next without interruption, and which pending mapper call settles
  next is not decided by the code. The model makes that choice an input, the schedule.
  The state of the pool is \<open>nextIndex\<close>, the \<open>results\<close> array (an index not yet written is
  \<open>None\<close>), the index each running worker has claimed and awaits, and the variables the
  mapper calls share. \<open>startWorkers\<close> is the synchronous start of
  \<open>Math.min(limit, items.length)\<close> workers, each claiming the next index.
  \<open>settleWorker\<close> is what happens when the awaited mapper call of the \<open>k\<close>-th running
  worker settles: the mapper's effects on the shared variables take place, the result is
  stored at the claimed index, and the worker claims the next index or returns.
  A mapper is a function of the shared state, the item and its index that gives its
  result and the new shared state; it does not reject. \<open>runWorkers\<close> settles one call per
  entry of the schedule, the entry choosing among the running workers.
  \<open>mapWithConcurrencyLimit\<close> is \<open>None\<close> while a worker still runs (the promise is pending).
\<close>

record ('b, 's) workerPool =
  wp_nextIndex :: nat
  wp_results :: "'b option list"
  wp_inflight :: "nat list"
  wp_shared :: 's

definition startWorkers :: "nat \<Rightarrow> nat \<Rightarrow> 's \<Rightarrow> ('b, 's) workerPool" where
  "startWorkers n limit s =
     (let workerCount = min limit n
      in \<lparr> wp_nextIndex = workerCount, wp_results = replicate n None,
           wp_inflight = [0..<workerCount], wp_shared = s \<rparr>)"

definition settleWorker ::
  "('s \<Rightarrow> 'a \<Rightarrow> nat \<Rightarrow> 'b \<times> 's) \<Rightarrow> 'a list \<Rightarrow> nat \<Rightarrow> ('b, 's) workerPool \<Rightarrow> ('b, 's) workerPool" where
  "settleWorker mapper items k p =
     (let currentIndex = wp_inflight p ! k;
          (r, s') = mapper (wp_shared p) (items ! currentIndex) currentIndex;
          results' = (wp_results p)[currentIndex := Some r]
      in if wp_nextIndex p < length items
         then p \<lparr> wp_results := results', wp_shared := s',
                  wp_inflight := (wp_inflight p)[k := wp_nextIndex p],
                  wp_nextIndex := wp_nextIndex p + 1 \<rparr>
         else p \<lparr> wp_results := results', wp_shared := s',
                  wp_inflight := take k (wp_inflight p) @ drop (Suc k) (wp_inflight p) \<rparr>)"

fun runWorkers ::
  "('s \<Rightarrow> 'a \<Rightarrow> nat \<Rightarrow> 'b \<times> 's) \<Rightarrow> 'a list \<Rightarrow> nat list \<Rightarrow> ('b, 's) workerPool \<Rightarrow> ('b, 's) workerPool" where
  "runWorkers mapper items [] p = p"
| "runWorkers mapper items (c # cs) p =
     (if wp_inflight p = [] then p
      else runWorkers mapper items cs
             (settleWorker mapper items (c mod length (wp_inflight p)) p))"

definition mapWithConcurrencyLimit ::
  "('s \<Rightarrow> 'a \<Rightarrow> nat \<Rightarrow> 'b \<times> 's) \<Rightarrow> 'a list \<Rightarrow> nat \<Rightarrow> nat list \<Rightarrow> 's
    \<Rightarrow> ('b option list \<times> 's) option" where
  "mapWithConcurrencyLimit mapper items limit sched s =
     (let p = runWorkers mapper items sched (startWorkers (length items) limit s)
      in if wp_inflight p = [] then Some (wp_results p, wp_shared p) else None)"

subsection \<open>The invariant of the pool\<close>

text \<open>
  For a mapper whose result \<open>g item index\<close> does not depend on the shared state, and a
  predicate \<open>J\<close> on the set of settled indices and the shared state that every mapper call
  preserves.
\<close>

definition poolInv ::
  "('a \<Rightarrow> nat \<Rightarrow> 'b) \<Rightarrow> 'a list \<Rightarrow> (nat set \<Rightarrow> 's \<Rightarrow> bool) \<Rightarrow> ('b, 's) workerPool \<Rightarrow> bool" where
  "poolInv g items J p \<longleftrightarrow>
     length (wp_results p) = length items \<and>
     wp_nextIndex p \<le> length items \<and>
     distinct (wp_inflight p) \<and>
     (\<forall>i \<in> set (wp_inflight p). i < wp_nextIndex p) \<and>
     (\<forall>i < length items.
        wp_results p ! i =
          (if i < wp_nextIndex p \<and> i \<notin> set (wp_inflight p) then Some (g (items ! i) i) else None)) \<and>
     (wp_nextIndex p < length items \<longrightarrow> wp_inflight p \<noteq> []) \<and>
     J ({..<wp_nextIndex p} - set (wp_inflight p)) (wp_shared p)"

lemma set_remove_nth:
  assumes "distinct xs" "k < length xs"
  shows "set (take k xs @ drop (Suc k) xs) = set xs - {xs ! k}"
    and "distinct (take k xs @ drop (Suc k) xs)"
proof -
  have xs: "xs = take k xs @ xs ! k # drop (Suc k) xs"
    using assms(2) by (rule id_take_nth_drop)
  have d: "distinct (take k xs @ xs ! k # drop (Suc k) xs)" using assms(1) xs by simp
  show "distinct (take k xs @ drop (Suc k) xs)" using d by auto
  have "set xs = set (take k xs @ xs ! k # drop (Suc k) xs)" using xs by simp
  then show "set (take k xs @ drop (Suc k) xs) = set xs - {xs ! k}" using d by auto
qed

lemma poolInv_start:
  assumes "J {} s" "1 \<le> limit"
  shows "poolInv g items J (startWorkers (length items) limit s)"
proof -
  have e: "{..<min limit (length items)} - {0..<min limit (length items)} = {}"
    by auto
  have ne: "min limit (length items) < length items \<Longrightarrow> [0..<min limit (length items)] \<noteq> []"
    using assms(2) by auto
  show ?thesis
    unfolding poolInv_def startWorkers_def Let_def
    using assms(1) ne by (simp add: e)
qed

lemma poolInv_settle:
  assumes inv: "poolInv g items J p"
      and k: "k < length (wp_inflight p)"
      and val: "\<And>s x i. fst (mapper s x i) = g x i"
      and step: "\<And>S s i. J S s \<Longrightarrow> i < length items \<Longrightarrow> i \<notin> S \<Longrightarrow>
                   J (insert i S) (snd (mapper s (items ! i) i))"
  shows "poolInv g items J (settleWorker mapper items k p)"
proof -
  define i where "i = wp_inflight p ! k"
  define n where "n = length items"
  define fl where "fl = wp_inflight p"
  define nx where "nx = wp_nextIndex p"
  have iin: "i \<in> set fl" using k by (simp add: i_def fl_def)
  have len: "length (wp_results p) = n" and next_le: "nx \<le> n"
    and dist: "distinct fl"
    and lt: "\<And>j. j \<in> set fl \<Longrightarrow> j < nx"
    and res: "\<And>j. j < n \<Longrightarrow> wp_results p ! j =
          (if j < nx \<and> j \<notin> set fl then Some (g (items ! j) j) else None)"
    and J: "J ({..<nx} - set fl) (wp_shared p)"
    using inv by (auto simp: poolInv_def n_def fl_def nx_def)
  have kf: "k < length fl" using k by (simp add: fl_def)
  have i_lt: "i < nx" using lt iin by simp
  then have i_n: "i < n" using next_le by simp
  have i_notin: "i \<notin> {..<nx} - set fl" using iin by simp
  have J': "J (insert i ({..<nx} - set fl)) (snd (mapper (wp_shared p) (items ! i) i))"
    using step [OF J _ i_notin] i_n by (simp add: n_def)
  obtain r s' where m: "mapper (wp_shared p) (items ! i) i = (r, s')"
    by (cases "mapper (wp_shared p) (items ! i) i")
  have r: "r = g (items ! i) i" using val [of "wp_shared p" "items ! i" i] m by simp
  have s': "s' = snd (mapper (wp_shared p) (items ! i) i)" using m by simp
  have res': "(wp_results p)[i := Some r] ! j =
      (if j < nx' \<and> j \<notin> set fl' then Some (g (items ! j) j) else None)"
    if j: "j < n" and a: "\<And>j. j < nx' \<and> j \<notin> set fl' \<longleftrightarrow> j = i \<or> (j < nx \<and> j \<notin> set fl)"
    for j nx' fl'
  proof (cases "j = i")
    case True
    then show ?thesis using a [of j] len i_n r by simp
  next
    case False
    then show ?thesis using a [of j] res [OF j] by simp
  qed
  show ?thesis
  proof (cases "nx < n")
    case True
    have notin: "nx \<notin> set fl" using lt by auto
    have set': "set (fl[k := nx]) = insert nx (set fl - {i})"
      using set_update_distinct [OF dist kf] by (simp add: i_def fl_def)
    have dist': "distinct (fl[k := nx])"
      using dist notin by (simp add: distinct_list_update)
    have mem: "j < nx + 1 \<and> j \<notin> set (fl[k := nx]) \<longleftrightarrow> j = i \<or> (j < nx \<and> j \<notin> set fl)" for j
      using i_lt iin by (auto simp: set')
    have settled: "{..<nx + 1} - set (fl[k := nx]) = insert i ({..<nx} - set fl)"
      using mem by auto
    have lt': "\<forall>j \<in> set (fl[k := nx]). j < nx + 1"
    proof
      fix j assume "j \<in> set (fl[k := nx])"
      then have "j = nx \<or> j \<in> set fl" by (auto simp: set')
      then show "j < nx + 1" using lt [of j] by auto
    qed
    have ne: "fl[k := nx] \<noteq> []" using kf by auto
    have eq: "settleWorker mapper items k p =
        p \<lparr> wp_results := (wp_results p)[i := Some r], wp_shared := s',
            wp_inflight := fl[k := nx], wp_nextIndex := nx + 1 \<rparr>"
      using True by (simp add: settleWorker_def i_def [symmetric] m n_def fl_def nx_def)
    have r': "\<forall>j < n. (wp_results p)[i := Some r] ! j =
      (if j < nx + 1 \<and> j \<notin> set (fl[k := nx]) then Some (g (items ! j) j) else None)"
      using res' [OF _ mem] by blast
    have Jn: "J ({..<nx + 1} - set (fl[k := nx])) s'"
      using J' by (simp only: settled s')
    show ?thesis
      unfolding eq poolInv_def
      using True len dist' lt' r' ne Jn
      by (simp add: n_def [symmetric])
  next
    case False
    then have nxn: "nx = n" using next_le by simp
    define fl' where "fl' = take k fl @ drop (Suc k) fl"
    have set': "set fl' = set fl - {i}"
      using set_remove_nth(1) [OF dist kf] by (simp add: i_def fl_def fl'_def)
    have dist': "distinct fl'"
      unfolding fl'_def by (rule set_remove_nth(2) [OF dist kf])
    have mem: "j < nx \<and> j \<notin> set fl' \<longleftrightarrow> j = i \<or> (j < nx \<and> j \<notin> set fl)" for j
      using i_lt iin by (auto simp: set')
    have settled: "{..<nx} - set fl' = insert i ({..<nx} - set fl)"
      using mem by auto
    have lt': "\<forall>j \<in> set fl'. j < nx"
    proof
      fix j assume "j \<in> set fl'"
      then have "j \<in> set fl" by (simp add: set')
      then show "j < nx" by (rule lt)
    qed
    have eq: "settleWorker mapper items k p =
        p \<lparr> wp_results := (wp_results p)[i := Some r], wp_shared := s', wp_inflight := fl' \<rparr>"
      using False by (simp add: settleWorker_def i_def [symmetric] m n_def fl_def nx_def fl'_def)
    have r': "\<forall>j < n. (wp_results p)[i := Some r] ! j =
      (if j < nx \<and> j \<notin> set fl' then Some (g (items ! j) j) else None)"
      using res' [OF _ mem] by blast
    have Jn: "J ({..<nx} - set fl') s'"
      using J' by (simp only: settled s')
    show ?thesis
      unfolding eq poolInv_def
      using nxn len dist' lt' r' Jn
      by (simp add: n_def [symmetric] nx_def [symmetric])
  qed
qed


lemma settleWorker_measure:
  assumes "poolInv g items J p" "k < length (wp_inflight p)"
  shows "(length items - wp_nextIndex (settleWorker mapper items k p))
           + length (wp_inflight (settleWorker mapper items k p)) + 1
         = (length items - wp_nextIndex p) + length (wp_inflight p)"
proof -
  obtain r s' where m: "mapper (wp_shared p) (items ! (wp_inflight p ! k)) (wp_inflight p ! k) = (r, s')"
    by (cases "mapper (wp_shared p) (items ! (wp_inflight p ! k)) (wp_inflight p ! k)")
  show ?thesis
    using assms(2) by (auto simp: settleWorker_def m Let_def)
qed

lemma runWorkers_finishes:
  assumes val: "\<And>s x i. fst (mapper s x i) = g x i"
      and step: "\<And>S s i. J S s \<Longrightarrow> i < length items \<Longrightarrow> i \<notin> S \<Longrightarrow>
                   J (insert i S) (snd (mapper s (items ! i) i))"
  shows "poolInv g items J p \<Longrightarrow>
         (length items - wp_nextIndex p) + length (wp_inflight p) \<le> length sched \<Longrightarrow>
         poolInv g items J (runWorkers mapper items sched p) \<and>
         wp_inflight (runWorkers mapper items sched p) = []"
proof (induction sched arbitrary: p)
  case Nil
  then show ?case by simp
next
  case (Cons c cs)
  show ?case
  proof (cases "wp_inflight p = []")
    case True
    then show ?thesis using Cons.prems(1) by simp
  next
    case False
    define k where "k = c mod length (wp_inflight p)"
    have k: "k < length (wp_inflight p)" using False by (simp add: k_def)
    have inv': "poolInv g items J (settleWorker mapper items k p)"
      by (rule poolInv_settle [OF Cons.prems(1) k val step])
    have "(length items - wp_nextIndex (settleWorker mapper items k p))
           + length (wp_inflight (settleWorker mapper items k p)) \<le> length cs"
      using settleWorker_measure [OF Cons.prems(1) k, of mapper] Cons.prems(2) by simp
    from Cons.IH [OF inv' this] show ?thesis
      using False by (simp add: k_def)
  qed
qed

lemma mapWithConcurrencyLimit_result:
  fixes mapper :: "'c \<Rightarrow> 'a \<Rightarrow> nat \<Rightarrow> 'b \<times> 'c"
  assumes val: "\<And>s x i. fst (mapper s x i) = g x i"
      and step: "\<And>S s i. J S s \<Longrightarrow> i < length items \<Longrightarrow> i \<notin> S \<Longrightarrow>
                   J (insert i S) (snd (mapper s (items ! i) i))"
      and J0: "J {} s"
      and limit: "1 \<le> limit"
      and sched: "length items \<le> length sched"
  shows "\<exists>s'. mapWithConcurrencyLimit mapper items limit sched s =
             Some (map (\<lambda>i. Some (g (items ! i) i)) [0..<length items], s') \<and>
           J {..<length items} s'"
proof -
  define p0 where "p0 = (startWorkers (length items) limit s :: ('b, 'c) workerPool)"
  define p where "p = runWorkers mapper items sched p0"
  have inv0: "poolInv g items J p0"
    unfolding p0_def using J0 limit by (rule poolInv_start [where J = J and s = s])
  have m0: "(length items - wp_nextIndex p0) + length (wp_inflight p0) \<le> length sched"
    using sched by (simp add: p0_def startWorkers_def Let_def)
  have fin: "poolInv g items J p" "wp_inflight p = []"
    using runWorkers_finishes [OF val step inv0 m0] by (simp_all add: p_def)
  have nx: "wp_nextIndex p = length items"
    using fin by (auto simp: poolInv_def)
  have len: "length (wp_results p) = length items"
    using fin(1) by (simp add: poolInv_def)
  have each: "\<forall>i < length items. wp_results p ! i = Some (g (items ! i) i)"
    using fin nx by (simp add: poolInv_def)
  have res: "wp_results p = map (\<lambda>i. Some (g (items ! i) i)) [0..<length items]"
    by (rule nth_equalityI) (use len each in simp_all)
  have J: "J {..<length items} (wp_shared p)"
    using fin nx by (simp add: poolInv_def)
  have "mapWithConcurrencyLimit mapper items limit sched s = Some (wp_results p, wp_shared p)"
    using fin(2) by (simp add: mapWithConcurrencyLimit_def p_def p0_def Let_def)
  then show ?thesis using res J by simp
qed


section \<open>Finalizing a selection\<close>

text \<open>
  \<open>GrabrController.finalizeSelection\<close>. A thrown value is an \<open>Error\<close> with its message or
  something else. The clock, the location, the random sources and the presence of
  \<open>document\<close> are the environment; \<open>capture el\<close> is how
  \<open>inspector.getElementContext(el)\<close> settles and \<open>sendContext session\<close> how the provider's
  call settles (\<open>None\<close> when it resolves). The progress callback and the toasts are
  recorded in order; console output is left out. \<open>CaptureCounters\<close> are the variables
  \<open>completed\<close> and \<open>failed\<close> the mapper calls share, with the progress reported so far.
  \<open>contextsOrNull.filter(c => c !== null)\<close> is read on an array without holes, which
  \<open>mapWithConcurrencyLimit_result\<close> shows it to be.
\<close>

datatype thrown = ErrorObject jsstring | OtherThrown

datatype SelectionFinalizeProgress =
    BuildingContext nat nat
  | Sending nat nat
  | Done nat nat
  | ErrorProgress nat nat jsstring

record CaptureCounters =
  cc_completed :: nat
  cc_failed :: nat
  cc_progress :: "SelectionFinalizeProgress list"

record FinalizeEnv =
  env_hasDocument :: bool
  env_now :: jsstring
  env_href :: jsstring
  env_randomUUID :: "jsstring option"
  env_randomHex :: jsstring

record Controller =
  ctl_currentSession :: "GrabrSession option"
  ctl_currentInstruction :: "jsstring option"
  ctl_overlayAttached :: bool

record FinalizeEffects =
  fe_progress :: "SelectionFinalizeProgress list"
  fe_sent :: "GrabrSession option"
  fe_toasts :: "(jsstring \<times> bool) list"

fun dedupeLoop :: "noderef list \<Rightarrow> noderef list \<Rightarrow> noderef set \<Rightarrow> noderef list" where
  "dedupeLoop [] out seen = out"
| "dedupeLoop (el # els) out seen =
     (if el \<in> seen then dedupeLoop els out seen
      else dedupeLoop els (out @ [el]) (insert el seen))"

definition dedupeElementsPreserveOrder :: "noderef list \<Rightarrow> noderef list" where
  "dedupeElementsPreserveOrder elements = dedupeLoop elements [] {}"

definition isElementConnectedToDocument :: "FinalizeEnv \<Rightarrow> document \<Rightarrow> noderef \<Rightarrow> bool" where
  "isElementConnectedToDocument env doc el =
     (if \<not> env_hasDocument env then False else el_isConnected (doc el))"

definition captureMapper ::
  "(noderef \<Rightarrow> thrown + ElementContextV2) \<Rightarrow> nat \<Rightarrow> CaptureCounters \<Rightarrow> noderef \<Rightarrow> nat
    \<Rightarrow> ElementContextV2 option \<times> CaptureCounters" where
  "captureMapper capture total' s el index =
     (case capture el of
        Inr ctx \<Rightarrow>
          (Some ctx,
           s \<lparr> cc_completed := cc_completed s + 1,
               cc_progress := cc_progress s @ [BuildingContext (cc_completed s + 1) total'] \<rparr>)
      | Inl error \<Rightarrow>
          (None,
           s \<lparr> cc_failed := cc_failed s + 1,
               cc_completed := cc_completed s + 1,
               cc_progress := cc_progress s @ [BuildingContext (cc_completed s + 1) total'] \<rparr>))"

text \<open>
  The end of \<open>finalizeSelection\<close>, from \<open>this.currentSession = session\<close> on: the session is
  stored, handed to the provider, and the outcome reported.
\<close>

definition deliverSession ::
  "(GrabrSession \<Rightarrow> thrown option) \<Rightarrow> Controller \<Rightarrow> GrabrSession \<Rightarrow> nat \<Rightarrow> nat
    \<Rightarrow> SelectionFinalizeProgress list \<Rightarrow> Controller \<times> FinalizeEffects" where
  "deliverSession sendContext ctl session failed total' progress =
     (let ctl' = ctl \<lparr> ctl_currentSession := Some session \<rparr>;
          progress' = progress @ [Sending total' total'];
          showToasts = (\<lambda>toasts. if ctl_overlayAttached ctl then toasts else []);
          contexts = gs_elements session
      in case sendContext session of
           None \<Rightarrow>
             (ctl',
              \<lparr> fe_progress = progress' @ [Done total' total'],
                fe_sent = Some session,
                fe_toasts = showToasts
                  ([(if length contexts = 1
                     then lit ''Copied context for 1 element.''
                     else lit ''Copied context for '' @ showNat (length contexts) @
                          lit '' elements.'', False)] @
                   (if failed > 0
                    then [(lit ''Warning: '' @ showNat failed @
                           lit '' element(s) failed to capture.'', True)]
                    else [])) \<rparr>)
         | Some error \<Rightarrow>
             (let message =
                    (case error of
                       ErrorObject m \<Rightarrow> m
                     | OtherThrown \<Rightarrow> lit ''Failed to send context.'')
              in (ctl',
                  \<lparr> fe_progress = progress' @ [ErrorProgress total' total' message],
                    fe_sent = Some session,
                    fe_toasts = showToasts [(message, True)] \<rparr>)))"

definition finalizeSelection ::
  "FinalizeEnv \<Rightarrow> document \<Rightarrow> (noderef \<Rightarrow> thrown + ElementContextV2) \<Rightarrow>
   (GrabrSession \<Rightarrow> thrown option) \<Rightarrow> nat list \<Rightarrow> Controller \<Rightarrow> noderef list
    \<Rightarrow> (Controller \<times> FinalizeEffects) option" where
  "finalizeSelection env doc capture sendContext sched ctl elements =
     (let connected =
            filter (isElementConnectedToDocument env doc) (dedupeElementsPreserveOrder elements)
      in if length connected = 0 then
           Some (ctl, \<lparr> fe_progress = [ErrorProgress 0 0 (lit ''No valid elements to capture.'')],
                        fe_sent = None, fe_toasts = [] \<rparr>)
         else
           (let createdAt = env_now env;
                url = env_href env;
                sessionId =
                  (case env_randomUUID env of
                     Some uuid \<Rightarrow> uuid
                   | None \<Rightarrow> createdAt @ lit ''-'' @ drop 2 (env_randomHex env));
                total' = length connected;
                counters = \<lparr> cc_completed = 0, cc_failed = 0,
                             cc_progress = [BuildingContext 0 total'] \<rparr>
            in case mapWithConcurrencyLimit (captureMapper capture total') connected 2 sched counters of
                 None \<Rightarrow> None
               | Some (contextsOrNull, counters') \<Rightarrow>
                   (let completed = cc_completed counters';
                        failed = cc_failed counters';
                        contexts =
                          List.map_filter (\<lambda>c. case c of Some r \<Rightarrow> r | None \<Rightarrow> None)
                            contextsOrNull
                    in if length contexts = 0 then
                         Some (ctl,
                           \<lparr> fe_progress = cc_progress counters' @
                               [ErrorProgress completed total'
                                  (lit ''Failed to capture context for all selected elements.'')],
                             fe_sent = None, fe_toasts = [] \<rparr>)
                       else
                         (let summary =
                                (if failed > 0
                                 then lit ''Session with '' @ showNat (length contexts) @
                                      lit '' element(s) captured; '' @ showNat failed @
                                      lit '' failed.''
                                 else lit ''Session with '' @ showNat (length contexts) @
                                      lit '' element(s) captured.'');
                              session =
                                \<lparr> gs_id = sessionId, gs_createdAt = createdAt, gs_url = url,
                                  gs_userInstruction = ctl_currentInstruction ctl,
                                  gs_summary = Some summary, gs_elements = contexts \<rparr>
                          in Some (deliverSession sendContext ctl session failed total'
                                     (cc_progress counters'))))))"

subsection \<open>Partial failure\<close>

text \<open>The contexts captured, in input order, and the number of failures.\<close>

definition captured :: "(noderef \<Rightarrow> thrown + ElementContextV2) \<Rightarrow> noderef list \<Rightarrow> ElementContextV2 list" where
  "captured capture els = List.map_filter (\<lambda>el. case capture el of Inr c \<Rightarrow> Some c | Inl e \<Rightarrow> None) els"

definition failures :: "(noderef \<Rightarrow> thrown + ElementContextV2) \<Rightarrow> noderef list \<Rightarrow> nat" where
  "failures capture els = length (filter (\<lambda>el. isl (capture el)) els)"

lemma dedupeLoop_distinct:
  "distinct els \<Longrightarrow> set els \<inter> seen = {} \<Longrightarrow> dedupeLoop els out seen = out @ els"
  by (induction els arbitrary: out seen) auto

lemma dedupe_distinct: "distinct els \<Longrightarrow> dedupeElementsPreserveOrder els = els"
  by (simp add: dedupeElementsPreserveOrder_def dedupeLoop_distinct)

definition countersInv ::
  "(noderef \<Rightarrow> thrown + ElementContextV2) \<Rightarrow> noderef list \<Rightarrow> nat set \<Rightarrow> CaptureCounters \<Rightarrow> bool" where
  "countersInv capture els S s \<longleftrightarrow>
     finite S \<and> cc_completed s = card S \<and>
     cc_failed s = card {i \<in> S. isl (capture (els ! i))} \<and>
     cc_progress s = map (\<lambda>k. BuildingContext k (length els)) [0..<Suc (card S)]"

lemma countersInv_step:
  assumes "countersInv capture els S s" "i \<notin> S"
  shows "countersInv capture els (insert i S) (snd (captureMapper capture (length els) s (els ! i) i))"
proof -
  have f: "finite S" using assms(1) by (simp add: countersInv_def)
  have c: "card (insert i S) = Suc (card S)" using f assms(2) by simp
  have split: "{j \<in> insert i S. isl (capture (els ! j))} =
      (if isl (capture (els ! i)) then insert i {j \<in> S. isl (capture (els ! j))}
       else {j \<in> S. isl (capture (els ! j))})"
    by auto
  have fin: "finite {j \<in> S. isl (capture (els ! j))}" using f by simp
  have notin: "i \<notin> {j \<in> S. isl (capture (els ! j))}" using assms(2) by simp
  have cf: "card {j \<in> insert i S. isl (capture (els ! j))} =
      (if isl (capture (els ! i)) then Suc (card {j \<in> S. isl (capture (els ! j))})
       else card {j \<in> S. isl (capture (els ! j))})"
  proof -
    have "card (insert i {j \<in> S. isl (capture (els ! j))}) = Suc (card {j \<in> S. isl (capture (els ! j))})"
      using fin notin by (rule card_insert_disjoint)
    then show ?thesis by (simp only: split if_distrib [of card])
  qed
  have inv: "cc_completed s = card S" "cc_failed s = card {j \<in> S. isl (capture (els ! j))}"
    "cc_progress s = map (\<lambda>k. BuildingContext k (length els)) [0..<Suc (card S)]"
    using assms(1) by (simp_all add: countersInv_def)
  have fin': "finite (insert i S)" using f by simp
  show ?thesis
  proof (cases "capture (els ! i)")
    case (Inl e)
    then have "isl (capture (els ! i))" by simp
    then have cf': "card {j \<in> insert i S. isl (capture (els ! j))} = Suc (cc_failed s)"
      using cf inv(2) by simp
    show ?thesis
      unfolding countersInv_def
      using fin' cf' c inv(1,3) Inl
      by (simp add: captureMapper_def del: upt_Suc) (simp add: upt_Suc_append)
  next
    case (Inr ctx)
    then have "\<not> isl (capture (els ! i))" by simp
    then have cf': "card {j \<in> insert i S. isl (capture (els ! j))} = cc_failed s"
      using cf inv(2) by simp
    show ?thesis
      unfolding countersInv_def
      using fin' cf' c inv(1,3) Inr
      by (simp add: captureMapper_def del: upt_Suc) (simp add: upt_Suc_append)
  qed
qed

lemma finalize_capture:
  assumes "length els \<le> length sched"
  shows "\<exists>s'. mapWithConcurrencyLimit (captureMapper capture (length els)) els 2 sched
             \<lparr> cc_completed = 0, cc_failed = 0, cc_progress = [BuildingContext 0 (length els)] \<rparr>
           = Some (map (\<lambda>el. Some (case capture el of Inr c \<Rightarrow> Some c | Inl e \<Rightarrow> None)) els, s') \<and>
         cc_completed s' = length els \<and> cc_failed s' = failures capture els \<and>
         cc_progress s' = map (\<lambda>k. BuildingContext k (length els)) [0..<Suc (length els)]"
proof -
  define g where "g = (\<lambda>el (i::nat). case capture el of Inr c \<Rightarrow> Some c | Inl (e::thrown) \<Rightarrow> None)"
  have val: "fst (captureMapper capture (length els) s x i) = g x i" for s x i
    by (simp add: captureMapper_def g_def split: sum.split)
  have step: "countersInv capture els (insert i S) (snd (captureMapper capture (length els) s (els ! i) i))"
    if "countersInv capture els S s" "i < length els" "i \<notin> S" for S s i
    using that(1,3) by (rule countersInv_step)
  have J0: "countersInv capture els {}
      \<lparr> cc_completed = 0, cc_failed = 0, cc_progress = [BuildingContext 0 (length els)] \<rparr>"
    by (simp add: countersInv_def)
  from mapWithConcurrencyLimit_result [of "captureMapper capture (length els)" g
      "countersInv capture els" els, OF val step J0 _ assms, of 2]
  obtain s' where r: "mapWithConcurrencyLimit (captureMapper capture (length els)) els 2 sched
             \<lparr> cc_completed = 0, cc_failed = 0, cc_progress = [BuildingContext 0 (length els)] \<rparr>
           = Some (map (\<lambda>i. Some (g (els ! i) i)) [0..<length els], s')"
    and J: "countersInv capture els {..<length els} s'"
    by auto
  have m: "map (\<lambda>i. Some (g (els ! i) i)) [0..<length els] =
           map (\<lambda>el. Some (case capture el of Inr c \<Rightarrow> Some c | Inl e \<Rightarrow> None)) els"
    by (rule nth_equalityI) (simp_all add: g_def)
  have "{i \<in> {..<length els}. isl (capture (els ! i))} = {i. i < length els \<and> isl (capture (els ! i))}"
    by auto
  then have f: "cc_failed s' = failures capture els"
    using J by (simp add: countersInv_def failures_def length_filter_conv_card)
  show ?thesis
    using r J f by (simp add: m countersInv_def)
qed


lemma captured_failures: "length (captured capture els) + failures capture els = length els"
  by (induction els) (auto simp: captured_def failures_def List.map_filter_simps split: sum.split)

lemma contexts_of_results:
  "List.map_filter (\<lambda>c. case c of Some r \<Rightarrow> r | None \<Rightarrow> None)
     (map (\<lambda>el. Some (case capture el of Inr c \<Rightarrow> Some c | Inl e \<Rightarrow> None)) els)
   = captured capture els"
  by (induction els) (auto simp: captured_def List.map_filter_simps split: sum.split)

definition sessionSummary :: "nat \<Rightarrow> nat \<Rightarrow> jsstring" where
  "sessionSummary count failed =
     (if failed > 0
      then lit ''Session with '' @ showNat count @ lit '' element(s) captured; '' @
           showNat failed @ lit '' failed.''
      else lit ''Session with '' @ showNat count @ lit '' element(s) captured.'')"

lemma finalizeSelection_session:
  assumes doc: "env_hasDocument env"
      and dist: "distinct els"
      and conn: "\<forall>el \<in> set els. el_isConnected (doc el)"
      and sched: "length els \<le> length sched"
      and some: "captured capture els \<noteq> []"
  shows "\<exists>ctl' eff session.
           finalizeSelection env doc capture sendContext sched ctl els = Some (ctl', eff) \<and>
           ctl_currentSession ctl' = Some session \<and> fe_sent eff = Some session \<and>
           gs_elements session = captured capture els \<and>
           gs_summary session =
             Some (sessionSummary (length (captured capture els)) (failures capture els))"
proof -
  have connected:
    "filter (isElementConnectedToDocument env doc) (dedupeElementsPreserveOrder els) = els"
    using doc conn by (simp add: dedupe_distinct [OF dist] isElementConnectedToDocument_def)
  have ne: "length els \<noteq> 0" using some by (auto simp: captured_def List.map_filter_simps)
  obtain s' where
    m: "mapWithConcurrencyLimit (captureMapper capture (length els)) els 2 sched
             \<lparr> cc_completed = 0, cc_failed = 0, cc_progress = [BuildingContext 0 (length els)] \<rparr>
           = Some (map (\<lambda>el. Some (case capture el of Inr c \<Rightarrow> Some c | Inl e \<Rightarrow> None)) els, s')"
    and f: "cc_failed s' = failures capture els"
    using finalize_capture [OF sched, of capture] by blast
  define session where "session =
     \<lparr> gs_id = (case env_randomUUID env of Some uuid \<Rightarrow> uuid
                 | None \<Rightarrow> env_now env @ lit ''-'' @ drop 2 (env_randomHex env)),
       gs_createdAt = env_now env, gs_url = env_href env,
       gs_userInstruction = ctl_currentInstruction ctl,
       gs_summary = Some (sessionSummary (length (captured capture els)) (failures capture els)),
       gs_elements = captured capture els \<rparr>"
  have len: "length (captured capture els) \<noteq> 0" using some by simp
  have d: "ctl_currentSession (fst (deliverSession sendContext ctl session failed n progress)) = Some session \<and>
           fe_sent (snd (deliverSession sendContext ctl session failed n progress)) = Some session"
    for failed n progress
    by (simp add: deliverSession_def Let_def split: option.split)
  have fin: "finalizeSelection env doc capture sendContext sched ctl els =
      Some (deliverSession sendContext ctl session (failures capture els) (length els) (cc_progress s'))"
    using ne len
    by (simp add: finalizeSelection_def connected m f contexts_of_results Let_def
        sessionSummary_def session_def)
  show ?thesis
    apply (rule exI [of _ "fst (deliverSession sendContext ctl session (failures capture els) (length els) (cc_progress s'))"])
    apply (rule exI [of _ "snd (deliverSession sendContext ctl session (failures capture els) (length els) (cc_progress s'))"])
    apply (rule exI [of _ session])
    using fin d by (simp add: session_def)
qed

text \<open>
  C1: finalizing a selection of 3 distinct connected elements whose capture throws for
  exactly 1 of them, under every schedule of the two workers in which all three captures
  settle, returns with a session constructed, stored and handed to the provider; the
  session holds exactly the 2 contexts captured, in input order, and its summary is
  \<open>Session with 2 element(s) captured; 1 failed.\<close>, which mentions \<open>1 failed\<close>.
\<close>

theorem finalizeSelection_partial_failure:
  assumes "env_hasDocument env"
      and "distinct [a, b, c]"
      and "el_isConnected (doc a) \<and> el_isConnected (doc b) \<and> el_isConnected (doc c)"
      and "failures capture [a, b, c] = 1"
      and "3 \<le> length sched"
  shows "\<exists>ctl' eff session.
           finalizeSelection env doc capture sendContext sched ctl [a, b, c] = Some (ctl', eff) \<and>
           ctl_currentSession ctl' = Some session \<and> fe_sent eff = Some session \<and>
           gs_elements session = captured capture [a, b, c] \<and>
           length (gs_elements session) = 2 \<and>
           gs_summary session = Some (lit ''Session with 2 element(s) captured; 1 failed.'') \<and>
           includesStr (lit ''Session with 2 element(s) captured; 1 failed.'') (lit ''1 failed'')"
proof -
  have l: "length (captured capture [a, b, c]) = 2"
    using captured_failures [of capture "[a, b, c]"] assms(4) by simp
  then have ne: "captured capture [a, b, c] \<noteq> []" by auto
  have s: "sessionSummary 2 1 = lit ''Session with 2 element(s) captured; 1 failed.''"
    by (simp add: sessionSummary_def showNat.simps lit_def)
  have i: "includesStr (lit ''Session with 2 element(s) captured; 1 failed.'') (lit ''1 failed'')"
    by (simp add: lit_def startsWith_def)
  have conn: "\<forall>el \<in> set [a, b, c]. el_isConnected (doc el)" using assms(3) by simp
  have sched: "length [a, b, c] \<le> length sched" using assms(5) by simp
  from finalizeSelection_session [OF assms(1,2) conn sched ne, of sendContext ctl]
  show ?thesis
    using l s i assms(4) by auto
qed


definition sampleContext :: ElementContextV2 where
  "sampleContext =
     \<lparr> ec_selection =
         \<lparr> sel_tag = lit ''div'',
           sel_boundingBox = \<lparr> bb_x = 0, bb_y = 0, bb_width = 10, bb_height = 10 \<rparr>,
           sel_identity = \<lparr> si_tag = lit ''div'', si_id = None, si_dataTestId = None,
             si_role = None, si_classes = [] \<rparr>,
           sel_componentDisplayName = None, sel_nearestSource = None,
           sel_isLikelyServerComponent = None \<rparr>,
       ec_dom =
         \<lparr> dom_snippet = lit ''<div />'', dom_parents = [],
           dom_siblings = \<lparr> sib_index = 0, sib_total = 1, sib_previous = None, sib_next = None \<rparr>,
           dom_children = \<lparr> ch_totalChildren = 0, ch_tagCounts = [], ch_samples = [] \<rparr>,
           dom_selectors = \<lparr> sels_preferred = lit ''div'', sels_all = [lit ''div''] \<rparr> \<rparr>,
       ec_react = None,
       ec_reactDebug = \<lparr> rd_buildType = BuildUnknown, rd_inspectorStatus = StatusNoHook,
         rd_message = None \<rparr>,
       ec_styling =
         \<lparr> st_layout = \<lparr> ly_display = None, ly_position = None, ly_flexDirection = None,
             ly_justifyContent = None, ly_alignItems = None, ly_gap = None,
             ly_gridTemplateColumns = None, ly_gridTemplateRows = None \<rparr>,
           st_spacing = \<lparr> sp_margin = None, sp_padding = None \<rparr>,
           st_size = \<lparr> sz_width = None, sz_height = None \<rparr>,
           st_typography = \<lparr> ty_fontFamily = None, ty_fontSize = None, ty_fontWeight = None,
             ty_lineHeight = None \<rparr>,
           st_colors = \<lparr> co_color = None, co_backgroundColor = None, co_borderColor = None \<rparr>,
           st_clickable = False, st_ruleSummaries = None \<rparr>,
       ec_behavior = \<lparr> bc_inferenceLevel = InferenceNone, bc_handlers = [] \<rparr>,
       ec_app =
         \<lparr> app_url = [], app_pathname = [], app_search = [], app_hash = [],
           app_framework = UnknownFramework, app_routePatternGuess = None,
           app_routeParamsGuess = None, app_pageComponent = None, app_layoutComponents = [],
           app_dataSources = [\<lparr> ds_kind = DsUnknown, ds_identifier = None, ds_description = None \<rparr>] \<rparr>,
       ec_tests = None \<rparr>"

definition sampleEnv :: FinalizeEnv where
  "sampleEnv = \<lparr> env_hasDocument = True, env_now = lit ''2025-01-01T00:00:00.000Z'',
     env_href = lit ''http://localhost:3000/'', env_randomUUID = None,
     env_randomHex = lit ''0.8f3a'' \<rparr>"

definition sampleCapture :: "noderef \<Rightarrow> thrown + ElementContextV2" where
  "sampleCapture el = (if el = 5 then Inl (ErrorObject (lit ''capture failed'')) else Inr sampleContext)"

definition sampleController :: Controller where
  "sampleController = \<lparr> ctl_currentSession = None, ctl_currentInstruction = None,
     ctl_overlayAttached = True \<rparr>"

theorem finalizeSelection_partial_failure_witness:
  "env_hasDocument sampleEnv \<and> distinct [3, 5, 6 :: noderef] \<and>
   el_isConnected (sampleDocument 3) \<and> el_isConnected (sampleDocument 5) \<and>
   el_isConnected (sampleDocument 6) \<and>
   failures sampleCapture [3, 5, 6] = 1 \<and> 3 \<le> length [1, 0, 0 :: nat] \<and>
   (\<exists>ctl' eff session.
      finalizeSelection sampleEnv sampleDocument sampleCapture (\<lambda>s. None) [1, 0, 0]
        sampleController [3, 5, 6] = Some (ctl', eff) \<and>
      ctl_currentSession ctl' = Some session \<and>
      gs_elements session = [sampleContext, sampleContext] \<and>
      gs_summary session = Some (lit ''Session with 2 element(s) captured; 1 failed.''))"
proof -
  have h1: "env_hasDocument sampleEnv" by (simp add: sampleEnv_def)
  have h2: "distinct [3, 5, 6 :: noderef]" by simp
  have h3: "el_isConnected (sampleDocument 3) \<and> el_isConnected (sampleDocument 5) \<and>
            el_isConnected (sampleDocument 6)"
    by (simp add: sampleDocument_def bareElement_def)
  have h4: "failures sampleCapture [3, 5, 6] = 1"
    by (simp add: failures_def sampleCapture_def)
  have h5: "3 \<le> length [1, 0, 0 :: nat]" by simp
  have c: "captured sampleCapture [3, 5, 6] = [sampleContext, sampleContext]"
    by (simp add: captured_def sampleCapture_def List.map_filter_simps)
  from finalizeSelection_partial_failure [OF h1 h2 h3 h4 h5, of "\<lambda>s. None" sampleController]
  show ?thesis using h1 h2 h3 h4 c by auto
qed

subsection \<open>Summaries of a node and its neighbourhood\<close>

text \<open>
  The summarizer functions behind \<open>buildDomNeighborhood\<close>, \<open>buildStyleFrame\<close> and
  \<open>buildSelectionInfo\<close>. They read the document only, and of them only
  \<open>serializeElementSnippet\<close> can throw.
  \<open>window.location\<close> and \<open>window.getComputedStyle\<close> may be absent; the computed style of
  an element is the list of its properties. The object \<open>tagCounts\<close> is the list of its
  entries; a child whose tag name is that of a property of \<open>Object.prototype\<close>
  (\<open>constructor\<close>, \<open>__proto__\<close>), for which \<open>tagCounts[tag]\<close> reads the inherited property,
  is not modelled.
\<close>

definition MAX_TEXT_SNIPPET :: int where "MAX_TEXT_SNIPPET = 80"
definition MAX_PARENT_DEPTH :: nat where "MAX_PARENT_DEPTH = 4"
definition MAX_CHILD_SAMPLES :: nat where "MAX_CHILD_SAMPLES = 5"

definition summarizeTextContent :: "DomElement \<Rightarrow> jsstring option" where
  "summarizeTextContent node =
     (case el_textContent node of
        None \<Rightarrow> None
      | Some txt \<Rightarrow>
          (let summarized = truncateText txt MAX_TEXT_SNIPPET
           in if length summarized = 0 then None else Some summarized))"

definition summarizeDomNode :: "DomElement \<Rightarrow> DomNodeSummary" where
  "summarizeDomNode e =
     \<lparr> dn_tag = toLowerCase (el_tagName e),
       dn_id = (if length (el_id e) > 0 then Some (el_id e) else None),
       dn_dataTestId = getDataTestId e,
       dn_classes = el_classList e,
       dn_textSnippet = summarizeTextContent e \<rparr>"

fun indexOfFrom :: "'a list \<Rightarrow> 'a \<Rightarrow> int \<Rightarrow> int" where
  "indexOfFrom [] x i = - 1"
| "indexOfFrom (y # ys) x i = (if y = x then i else indexOfFrom ys x (i + 1))"

definition summarizeSiblings :: "document \<Rightarrow> noderef \<Rightarrow> SiblingSummary" where
  "summarizeSiblings doc el =
     (case el_parentElement (doc el) of
        None \<Rightarrow> \<lparr> sib_index = 0, sib_total = 1, sib_previous = None, sib_next = None \<rparr>
      | Some parent \<Rightarrow>
          (let siblings = el_children (doc parent);
               total' = length siblings;
               index = indexOfFrom siblings el 0;
               previous =
                 (if index > 0 then Some (summarizeDomNode (doc (siblings ! nat (index - 1))))
                  else None);
               next =
                 (if index \<ge> 0 \<and> index < int total' - 1
                  then Some (summarizeDomNode (doc (siblings ! nat (index + 1))))
                  else None)
           in \<lparr> sib_index = index, sib_total = total', sib_previous = previous, sib_next = next \<rparr>))"

fun countTags :: "document \<Rightarrow> noderef list \<Rightarrow> (jsstring \<times> nat) list \<Rightarrow> (jsstring \<times> nat) list" where
  "countTags doc [] tagCounts = tagCounts"
| "countTags doc (child # children) tagCounts =
     (let tagName = toLowerCase (el_tagName (doc child));
          prevCount = (case map_of tagCounts tagName of Some n \<Rightarrow> n | None \<Rightarrow> 0)
      in countTags doc children (AList.update tagName (prevCount + 1) tagCounts))"

definition summarizeChildren :: "document \<Rightarrow> noderef \<Rightarrow> ChildSummary" where
  "summarizeChildren doc el =
     (let children = el_children (doc el)
      in \<lparr> ch_totalChildren = length children,
           ch_tagCounts = countTags doc children [],
           ch_samples = map (\<lambda>c. summarizeDomNode (doc c)) (take MAX_CHILD_SAMPLES children) \<rparr>)"

text \<open>
  \<open>serializeElementSnippet\<close> calls \<open>el.className.trim()\<close> outside any \<open>try\<close>: where \<open>className\<close>
  is not a string the call throws a \<open>TypeError\<close>, and so does \<open>buildDomNeighborhood\<close>, whose
  first statement it is.
\<close>

definition serializeElementSnippet :: "DomElement \<Rightarrow> thrown + jsstring" where
  "serializeElementSnippet e =
     (let tagName = toLowerCase (el_tagName e);
          attrs1 = (if el_id e \<noteq> [] then [lit ''id='' @ [0x22] @ el_id e @ [0x22]] else [])
      in case el_className e of
           None \<Rightarrow> Inl (ErrorObject (lit ''el.className.trim is not a function''))
         | Some cls \<Rightarrow>
             (let className = trim cls;
                  attrs2 =
                    (if length className > 0
                     then attrs1 @ [lit ''class='' @ [0x22] @ truncateText className 40 @ [0x22]]
                     else attrs1);
                  attrs =
                    (case getDataTestId e of
                       Some dataTestId \<Rightarrow>
                         attrs2 @ [lit ''data-testid='' @ [0x22] @ dataTestId @ [0x22]]
                     | None \<Rightarrow> attrs2);
                  attrString =
                    (if length attrs > 0 then lit '' '' @ joinWith (lit '' '') attrs else []);
                  txt = summarizeTextContent e
              in Inr (lit ''<'' @ tagName @ attrString @ lit ''>'' @
                      (case txt of Some t \<Rightarrow> t | None \<Rightarrow> []) @
                      lit ''</'' @ tagName @ lit ''>'')))"

function ancestorPathLoop ::
  "(jsstring \<Rightarrow> jsstring) \<Rightarrow> document \<Rightarrow> noderef option \<Rightarrow> nat \<Rightarrow> nat \<Rightarrow> jsstring list
    \<Rightarrow> jsstring list" where
  "ancestorPathLoop CSS_escape doc current depth maxDepth segments =
     (case current of
        None \<Rightarrow> segments
      | Some c \<Rightarrow>
          if depth < maxDepth
          then ancestorPathLoop CSS_escape doc (el_parentElement (doc c)) (depth + 1) maxDepth
                 (buildPreferredSelector CSS_escape doc c # segments)
          else segments)"
  by pat_completeness auto
termination
  by (relation "measure (\<lambda>(e, d, c, depth, maxDepth, s). maxDepth - depth)") auto

declare ancestorPathLoop.simps [simp del]

definition buildAncestorSelectorPath ::
  "(jsstring \<Rightarrow> jsstring) \<Rightarrow> document \<Rightarrow> noderef \<Rightarrow> nat \<Rightarrow> jsstring" where
  "buildAncestorSelectorPath CSS_escape doc el maxDepth =
     joinWith (lit '' > '') (ancestorPathLoop CSS_escape doc (Some el) 0 maxDepth [])"

function parentsLoop ::
  "document \<Rightarrow> noderef option \<Rightarrow> nat \<Rightarrow> DomNodeSummary list \<Rightarrow> DomNodeSummary list" where
  "parentsLoop doc currentParent depth parents =
     (case currentParent of
        None \<Rightarrow> parents
      | Some p \<Rightarrow>
          if depth < MAX_PARENT_DEPTH
          then parentsLoop doc (el_parentElement (doc p)) (depth + 1)
                 (parents @ [summarizeDomNode (doc p)])
          else parents)"
  by pat_completeness auto
termination
  by (relation "measure (\<lambda>(d, c, depth, s). MAX_PARENT_DEPTH - depth)") auto

declare parentsLoop.simps [simp del]

definition buildDomNeighborhood ::
  "(jsstring \<Rightarrow> jsstring) \<Rightarrow> document \<Rightarrow> noderef \<Rightarrow> thrown + DomNeighborhood" where
  "buildDomNeighborhood CSS_escape doc el =
     (case serializeElementSnippet (doc el) of
        Inl e \<Rightarrow> Inl e
      | Inr snippet \<Rightarrow>
          (let preferred = buildPreferredSelector CSS_escape doc el;
               path = buildAncestorSelectorPath CSS_escape doc el (MAX_PARENT_DEPTH + 1)
           in Inr \<lparr> dom_snippet = snippet,
                    dom_parents = parentsLoop doc (el_parentElement (doc el)) 0 [],
                    dom_siblings = summarizeSiblings doc el,
                    dom_children = summarizeChildren doc el,
                    dom_selectors =
                      \<lparr> sels_preferred = preferred, sels_all = [preferred, path] \<rparr> \<rparr>))"

record Location =
  loc_href :: jsstring
  loc_pathname :: jsstring
  loc_search :: jsstring
  loc_hash :: jsstring

record WindowEnv =
  win_location :: "Location option"
  win_hasGetComputedStyle :: bool

text \<open>\<open>Math.round\<close>: the nearest integer, a half rounding up.\<close>

definition mathRound :: "real \<Rightarrow> int" where
  "mathRound x = \<lfloor>x + 1 / 2\<rfloor>"

definition showInt :: "int \<Rightarrow> jsstring" where
  "showInt z = (if z < 0 then lit ''-'' @ showNat (nat (- z)) else showNat (nat z))"

definition boxSides ::
  "jsstring option \<Rightarrow> jsstring option \<Rightarrow> jsstring option \<Rightarrow> jsstring option \<Rightarrow> jsstring option" where
  "boxSides top' right' bottom' left' =
     (if top' = None \<and> right' = None \<and> bottom' = None \<and> left' = None then None
      else Some (joinWith (lit '' '')
             (map (\<lambda>side. case side of Some v \<Rightarrow> v | None \<Rightarrow> lit ''0'')
                [top', right', bottom', left'])))"

definition buildStyleFrame :: "WindowEnv \<Rightarrow> document \<Rightarrow> noderef \<Rightarrow> StyleFrame" where
  "buildStyleFrame win doc el =
     (let e = doc el;
          rect = el_rect e;
          computed = (if win_hasGetComputedStyle win then Some (el_computedStyle e) else None);
          clickable =
            ((case computed of Some cs \<Rightarrow> map_of cs (lit ''cursor'') = Some (lit ''pointer'') | None \<Rightarrow> False) \<or>
             el_isButton e \<or> el_isAnchor e \<or>
             getAttribute e (lit ''role'') = Some (lit ''button'') \<or>
             getAttribute e (lit ''role'') = Some (lit ''link''));
          get = (\<lambda>prop.
            case computed of
              None \<Rightarrow> None
            | Some cs \<Rightarrow>
                (case map_of cs prop of
                   None \<Rightarrow> None
                 | Some v \<Rightarrow> (let trimmed = trim v in if length trimmed = 0 then None else Some trimmed)))
      in \<lparr> st_layout =
             \<lparr> ly_display = get (lit ''display''), ly_position = get (lit ''position''),
               ly_flexDirection = get (lit ''flexDirection''),
               ly_justifyContent = get (lit ''justifyContent''),
               ly_alignItems = get (lit ''alignItems''), ly_gap = get (lit ''gap''),
               ly_gridTemplateColumns = get (lit ''gridTemplateColumns''),
               ly_gridTemplateRows = get (lit ''gridTemplateRows'') \<rparr>,
           st_spacing =
             \<lparr> sp_margin = boxSides (get (lit ''marginTop'')) (get (lit ''marginRight''))
                 (get (lit ''marginBottom'')) (get (lit ''marginLeft'')),
               sp_padding = boxSides (get (lit ''paddingTop'')) (get (lit ''paddingRight''))
                 (get (lit ''paddingBottom'')) (get (lit ''paddingLeft'')) \<rparr>,
           st_size =
             \<lparr> sz_width = (if rect_width rect > 0
                            then Some (showInt (mathRound (rect_width rect)) @ lit ''px'') else None),
               sz_height = (if rect_height rect > 0
                            then Some (showInt (mathRound (rect_height rect)) @ lit ''px'') else None) \<rparr>,
           st_typography =
             \<lparr> ty_fontFamily = get (lit ''fontFamily''), ty_fontSize = get (lit ''fontSize''),
               ty_fontWeight = get (lit ''fontWeight''), ty_lineHeight = get (lit ''lineHeight'') \<rparr>,
           st_colors =
             \<lparr> co_color = get (lit ''color''), co_backgroundColor = get (lit ''backgroundColor''),
               co_borderColor = get (lit ''borderColor'') \<rparr>,
           st_clickable = clickable,
           st_ruleSummaries = Some [] \<rparr>)"

definition buildSelectionInfo :: "document \<Rightarrow> noderef \<Rightarrow> ReactTreeSlice option \<Rightarrow> SelectionInfo" where
  "buildSelectionInfo doc el reactSlice =
     (let e = doc el;
          rect = el_rect e;
          first = (case reactSlice of
                     None \<Rightarrow> None
                   | Some rslice \<Rightarrow> (case rs_stack rslice of [] \<Rightarrow> None | frame # frames \<Rightarrow> Some frame))
      in \<lparr> sel_tag = toLowerCase (el_tagName e),
           sel_boundingBox = \<lparr> bb_x = rect_left rect, bb_y = rect_top rect,
             bb_width = rect_width rect, bb_height = rect_height rect \<rparr>,
           sel_identity =
             \<lparr> si_tag = toLowerCase (el_tagName e),
               si_id = (if length (el_id e) > 0 then Some (el_id e) else None),
               si_dataTestId = getDataTestId e,
               si_role = getAttribute e (lit ''role''),
               si_classes = el_classList e \<rparr>,
           sel_componentDisplayName =
             (case first of Some frame \<Rightarrow> rf_displayName frame | None \<Rightarrow> None),
           sel_nearestSource = (case first of Some frame \<Rightarrow> rf_source frame | None \<Rightarrow> None),
           sel_isLikelyServerComponent =
             (case first of Some frame \<Rightarrow> cf_isServerComponent (rf_flags frame) | None \<Rightarrow> None) \<rparr>)"


section \<open>Extraction engine\<close>

text \<open>
  The introspection library is imported, not part of the repository: its functions are the
  fields of \<open>Bippy\<close>. A call either returns or throws, so each gives a \<open>thrown + result\<close>
  (\<open>getSource\<close> returns a promise; its field says how the promise settles). A traversal
  function gives the list of what it passes to its callback, in order:
  \<open>traverseProps\<close> the names and next values, \<open>traverseState\<close> and \<open>traverseContexts\<close> the
  next values; the callbacks of this code never stop a traversal. A fiber is a reference.
  The source code calls these functions inside \<open>try\<close> blocks in some places and outside them
  in others, and the model follows it call by call: a \<open>case\<close> that maps \<open>Inl e\<close> to a value
  is a \<open>catch\<close>, one that maps it to \<open>Inl e\<close> lets the exception propagate.
  A strategy of the configuration is its \<open>id\<close> and its \<open>detect\<close> function, which may throw.
\<close>

type_synonym fiber = nat

record SourceLike =
  src_fileName :: "jsstring option"
  src_lineNumber :: "real option"
  src_columnNumber :: "real option"

record Bippy =
  bp_renderers :: "nat list"
  bp_detectReactBuildType :: "nat \<Rightarrow> thrown + jsstring"
  bp_hasRDTHook :: "thrown + bool"
  bp_isInstrumentationActive :: "thrown + bool"
  bp_getFiberFromHostInstance :: "noderef \<Rightarrow> thrown + fiber option"
  bp_getLatestFiber :: "fiber \<Rightarrow> thrown + fiber"
  bp_getFiberStack :: "fiber \<Rightarrow> thrown + fiber list"
  bp_getSource :: "fiber \<Rightarrow> thrown + SourceLike option"
  bp_getDisplayName :: "fiber \<Rightarrow> thrown + jsstring option"
  bp_isHostFiber :: "fiber \<Rightarrow> thrown + bool"
  bp_isCompositeFiber :: "fiber \<Rightarrow> thrown + bool"
  bp_fiberTag :: "fiber \<Rightarrow> real option"
  bp_traverseProps :: "fiber \<Rightarrow> thrown + (jsstring \<times> jsval) list"
  bp_traverseState :: "fiber \<Rightarrow> thrown + jsval list"
  bp_traverseContexts :: "fiber \<Rightarrow> thrown + jsval list"

record FrameworkDetectionStrategy =
  fs_id :: jsstring
  fs_detect :: "FrameworkDetectionInput \<Rightarrow> thrown + FrameworkDetectionResult option"

record DataSourceDetectionStrategy =
  dss_id :: jsstring
  dss_detect :: "DataSourceDetectionInput \<Rightarrow> thrown + DataSourceHint list"

record GrabrHeuristics =
  gh_frameworkStrategies :: "FrameworkDetectionStrategy list"
  gh_dataSourceStrategies :: "DataSourceDetectionStrategy list"

record GrabrRuntimeConfig =
  cfg_reactInspectorMode :: jsstring
  cfg_maxReactStackFrames :: real
  cfg_heuristics :: GrabrHeuristics

definition nextLikeFrameworkStrategy :: FrameworkDetectionStrategy where
  "nextLikeFrameworkStrategy =
     \<lparr> fs_id = lit ''next-like'', fs_detect = (\<lambda>input. Inr (nextLikeDetect input)) \<rparr>"

definition genericFrameworkStrategy :: FrameworkDetectionStrategy where
  "genericFrameworkStrategy =
     \<lparr> fs_id = lit ''generic'',
       fs_detect = (\<lambda>input. Inr (Some
         \<lparr> fd_framework = UnknownFramework, fd_routePatternGuess = None,
           fd_routeParamsGuess = None, fd_pageComponent = None, fd_layoutComponents = [] \<rparr>)) \<rparr>"

definition basicDataSourceDetect :: "DataSourceDetectionInput \<Rightarrow> DataSourceHint list" where
  "basicDataSourceDetect input =
     (let propNames = (case di_ownerProps input of
                         Some ownerProps \<Rightarrow> map ph_name (ps_highlighted ownerProps)
                       | None \<Rightarrow> []);
          lowerNames = map toLowerCase propNames;
          hasData = (lit ''data'' \<in> set lowerNames);
          hasIsLoading = (lit ''isloading'' \<in> set lowerNames \<or> lit ''loading'' \<in> set lowerNames);
          hasError = (lit ''error'' \<in> set lowerNames);
          hints1 =
            (if hasData \<and> hasIsLoading \<and> hasError
             then [\<lparr> ds_kind = DsReactQuery, ds_identifier = None,
                     ds_description = Some (lit ''Props suggest React Query-like async data (data/loading/error).'') \<rparr>]
             else []);
          hints2 =
            (if list_ex (\<lambda>p. includesStr p (lit ''swr'')) lowerNames
             then hints1 @ [\<lparr> ds_kind = DsSwr, ds_identifier = None,
                     ds_description = Some (lit ''Props mention SWR, likely SWR-based data.'') \<rparr>]
             else hints1);
          hints =
            (if list_ex (\<lambda>p. includesStr p (lit ''selector'')) lowerNames
             then hints2 @ [\<lparr> ds_kind = DsRedux, ds_identifier = None,
                     ds_description = Some (lit ''Selector-like props hint at Redux selectors.'') \<rparr>]
             else hints2)
      in if length hints = 0
         then [\<lparr> ds_kind = DsUnknown, ds_identifier = None, ds_description = None \<rparr>]
         else hints)"

definition basicDataSourceStrategy :: DataSourceDetectionStrategy where
  "basicDataSourceStrategy =
     \<lparr> dss_id = lit ''basic-data-props'', dss_detect = (\<lambda>input. Inr (basicDataSourceDetect input)) \<rparr>"

definition defaultHeuristics :: GrabrHeuristics where
  "defaultHeuristics =
     \<lparr> gh_frameworkStrategies = [nextLikeFrameworkStrategy, genericFrameworkStrategy],
       gh_dataSourceStrategies = [basicDataSourceStrategy] \<rparr>"

definition defaultRuntimeConfig :: GrabrRuntimeConfig where
  "defaultRuntimeConfig =
     \<lparr> cfg_reactInspectorMode = lit ''best-effort'', cfg_maxReactStackFrames = 8,
       cfg_heuristics = defaultHeuristics \<rparr>"

text \<open>
  \<open>Partial<GrabrRuntimeConfig>\<close>: every property may be missing. The inspector mode is a
  string and the frame limit a number, whatever the declared types say, since a caller
  written in JavaScript can pass any.
\<close>

record PartialHeuristics =
  pgh_frameworkStrategies :: "FrameworkDetectionStrategy list option"
  pgh_dataSourceStrategies :: "DataSourceDetectionStrategy list option"

record PartialConfig =
  pc_reactInspectorMode :: "jsstring option"
  pc_maxReactStackFrames :: "real option"
  pc_heuristics :: "PartialHeuristics option"

definition mergeRuntimeConfig :: "PartialConfig option \<Rightarrow> GrabrRuntimeConfig" where
  "mergeRuntimeConfig partial =
     (case partial of
        None \<Rightarrow> defaultRuntimeConfig
      | Some p \<Rightarrow>
          \<lparr> cfg_reactInspectorMode =
              (case pc_reactInspectorMode p of
                 Some m \<Rightarrow> m
               | None \<Rightarrow> cfg_reactInspectorMode defaultRuntimeConfig),
            cfg_maxReactStackFrames =
              (case pc_maxReactStackFrames p of
                 Some n \<Rightarrow> n
               | None \<Rightarrow> cfg_maxReactStackFrames defaultRuntimeConfig),
            cfg_heuristics =
              \<lparr> gh_frameworkStrategies =
                  (case (case pc_heuristics p of
                           Some h \<Rightarrow> pgh_frameworkStrategies h
                         | None \<Rightarrow> None) of
                     Some fs \<Rightarrow> fs
                   | None \<Rightarrow> gh_frameworkStrategies defaultHeuristics),
                gh_dataSourceStrategies =
                  (case (case pc_heuristics p of
                           Some h \<Rightarrow> pgh_dataSourceStrategies h
                         | None \<Rightarrow> None) of
                     Some ds \<Rightarrow> ds
                   | None \<Rightarrow> gh_dataSourceStrategies defaultHeuristics) \<rparr> \<rparr>)"

definition toSourceLocation :: "SourceLike option \<Rightarrow> ReactBuildType \<Rightarrow> SourceLocation option" where
  "toSourceLocation source buildType =
     (case source of
        None \<Rightarrow> None
      | Some src \<Rightarrow>
          (case src_fileName src of
             None \<Rightarrow> None
           | Some fileName \<Rightarrow>
               if fileName = [] then None
               else Some
                 \<lparr> sl_fileName = fileName,
                   sl_lineNumber = src_lineNumber src,
                   sl_columnNumber = src_columnNumber src,
                   sl_confidence =
                     (if buildType = BuildDevelopment then ConfidenceHigh
                      else if buildType = BuildProduction then ConfidenceLow
                      else ConfidenceMedium),
                   sl_origin = OriginBippy \<rparr>))"

definition classifyPropHighlight :: "jsstring \<Rightarrow> sval option \<Rightarrow> HighlightReason option" where
  "classifyPropHighlight name v =
     (let lower = toLowerCase name
      in if lower = lit ''label'' \<or> lower = lit ''title'' \<or> lower = lit ''placeholder'' \<or>
            lower = lit ''text'' \<or> lower = lit ''children'' then Some ReasonText
         else if lower = lit ''variant'' \<or> lower = lit ''size'' \<or> lower = lit ''intent'' \<or>
            lower = lit ''tone'' \<or> lower = lit ''color'' \<or> lower = lit ''kind'' then Some ReasonDesign
         else if lower = lit ''data-testid'' \<or> lower = lit ''testid'' then Some ReasonTestId
         else if lower = lit ''aria-label'' then Some ReasonAriaLabel
         else if v = None then None
         else Some ReasonOther)"

definition inferEventKindFromPropName :: "jsstring \<Rightarrow> EventKind" where
  "inferEventKindFromPropName name =
     (let lower = toLowerCase name
      in if lower = lit ''onclick'' then KindClick
         else if lower = lit ''onchange'' then KindChange
         else if lower = lit ''onsubmit'' then KindSubmit
         else if lower = lit ''oninput'' then KindInput
         else if lower = lit ''onfocus'' then KindFocus
         else if lower = lit ''onblur'' then KindBlur
         else if startsWith lower (lit ''onkey'') then KindKey
         else if startsWith lower (lit ''onpointer'') \<or> startsWith lower (lit ''onmouse'')
         then KindPointer
         else KindOther)"

fun eventKindName :: "EventKind \<Rightarrow> jsstring" where
  "eventKindName KindClick = lit ''click''"
| "eventKindName KindChange = lit ''change''"
| "eventKindName KindSubmit = lit ''submit''"
| "eventKindName KindInput = lit ''input''"
| "eventKindName KindFocus = lit ''focus''"
| "eventKindName KindBlur = lit ''blur''"
| "eventKindName KindKey = lit ''key''"
| "eventKindName KindPointer = lit ''pointer''"
| "eventKindName KindOther = lit ''other''"

definition detectReactBuildTypeSafe :: "Bippy \<Rightarrow> ReactBuildType" where
  "detectReactBuildTypeSafe bp =
     (case bp_renderers bp of
        [] \<Rightarrow> BuildUnknown
      | renderer # others \<Rightarrow>
          (case bp_detectReactBuildType bp renderer of
             Inl e \<Rightarrow> BuildUnknown
           | Inr result \<Rightarrow>
               if result = lit ''development'' then BuildDevelopment
               else if result = lit ''production'' then BuildProduction
               else BuildUnknown))"

definition getReactDebugInfoForElement :: "Bippy \<Rightarrow> noderef \<Rightarrow> thrown + ReactDebugInfo" where
  "getReactDebugInfoForElement bp element =
     (let buildType = detectReactBuildTypeSafe bp
      in case bp_hasRDTHook bp of
           Inl e \<Rightarrow> Inl e
         | Inr hasHook \<Rightarrow>
             if \<not> hasHook then
               Inr \<lparr> rd_buildType = buildType, rd_inspectorStatus = StatusNoHook,
                     rd_message = Some (lit ''React DevTools hook is not installed. Import 'bippy' before React to enable React metadata.'') \<rparr>
             else
               (case bp_isInstrumentationActive bp of
                  Inl e \<Rightarrow> Inl e
                | Inr active \<Rightarrow>
                    if \<not> active then
                      Inr \<lparr> rd_buildType = buildType, rd_inspectorStatus = StatusInactive,
                            rd_message = Some (lit ''React instrumentation is not active yet. Ensure 'bippy' is imported before React renders.'') \<rparr>
                    else
                      (case bp_getFiberFromHostInstance bp element of
                         Inl e \<Rightarrow>
                           Inr \<lparr> rd_buildType = buildType, rd_inspectorStatus = StatusError,
                                 rd_message = Some (lit ''Failed to access React fiber for this element. Instrumentation may be incompatible.'') \<rparr>
                       | Inr None \<Rightarrow>
                           Inr \<lparr> rd_buildType = buildType, rd_inspectorStatus = StatusNoFiber,
                                 rd_message = Some (lit ''No React fiber associated with this element (non-React DOM).'') \<rparr>
                       | Inr (Some hostFiber) \<Rightarrow>
                           Inr \<lparr> rd_buildType = buildType, rd_inspectorStatus = StatusOk,
                                 rd_message = None \<rparr>)))"

fun mapE :: "('a \<Rightarrow> 'e + 'b) \<Rightarrow> 'a list \<Rightarrow> 'e + 'b list" where
  "mapE f [] = Inr []"
| "mapE f (x # xs) =
     (case f x of
        Inl e \<Rightarrow> Inl e
      | Inr y \<Rightarrow> (case mapE f xs of Inl e \<Rightarrow> Inl e | Inr ys \<Rightarrow> Inr (y # ys)))"

definition buildFrame :: "Bippy \<Rightarrow> fiber \<times> SourceLocation option \<Rightarrow> thrown + ReactComponentFrame" where
  "buildFrame bp fs =
     (case fs of (fiber, source) \<Rightarrow>
        (case bp_getDisplayName bp fiber of
           Inl e \<Rightarrow> Inl e
         | Inr displayName \<Rightarrow>
             (case bp_isHostFiber bp fiber of
                Inl e \<Rightarrow> Inl e
              | Inr isHost \<Rightarrow>
                  (case bp_isCompositeFiber bp fiber of
                     Inl e \<Rightarrow> Inl e
                   | Inr isComposite \<Rightarrow>
                       (let fileName = (case source of Some s \<Rightarrow> sl_fileName s | None \<Rightarrow> [])
                        in Inr
                          \<lparr> rf_displayName = displayName, rf_isHost = isHost, rf_source = source,
                            rf_flags =
                              \<lparr> cf_isHost = isHost, cf_isComposite = isComposite,
                                cf_isSuspenseBoundary =
                                  (if bp_fiberTag bp fiber \<noteq> None \<and> length fileName > 0 \<and>
                                      includesStr fileName (lit ''Suspense'')
                                   then Some True else None),
                                cf_isErrorBoundary =
                                  (case displayName of
                                     Some n \<Rightarrow> Some (includesStr n (lit ''ErrorBoundary''))
                                   | None \<Rightarrow> None),
                                cf_isServerComponent =
                                  (if includesStr fileName (lit ''.server.'') \<or>
                                      includesStr fileName (lit ''/app/'')
                                   then Some True else None),
                                cf_isLayoutLike = Some (isLayoutLikeFromPath fileName) \<rparr> \<rparr>)))))"

fun findOwnerIndex :: "Bippy \<Rightarrow> fiber list \<Rightarrow> nat \<Rightarrow> thrown + nat option" where
  "findOwnerIndex bp [] i = Inr None"
| "findOwnerIndex bp (fiber # rest) i =
     (case bp_isCompositeFiber bp fiber of
        Inl e \<Rightarrow> Inl e
      | Inr isComposite \<Rightarrow> if isComposite then Inr (Some i) else findOwnerIndex bp rest (i + 1))"

definition snapshotProps :: "Bippy \<Rightarrow> fiber \<Rightarrow> thrown + PropsSnapshot" where
  "snapshotProps bp fiber =
     (case bp_traverseProps bp fiber of
        Inl e \<Rightarrow> Inl e
      | Inr props \<Rightarrow>
          (let highlighted =
                 List.map_filter
                   (\<lambda>(name, next).
                      let serial = toSerializableValue next 0
                      in map_option
                           (\<lambda>reason. \<lparr> ph_name = name, ph_value = serial, ph_reason = reason \<rparr>)
                           (classifyPropHighlight name serial))
                   props;
               limitedHighlighted =
                 (if length highlighted > 12 then take 12 highlighted else highlighted)
           in Inr \<lparr> ps_totalProps = length props, ps_highlighted = limitedHighlighted \<rparr>))"

definition snapshotState :: "Bippy \<Rightarrow> fiber \<Rightarrow> thrown + StateSnapshot" where
  "snapshotState bp fiber =
     (case bp_traverseState bp fiber of
        Inl e \<Rightarrow> Inl e
      | Inr states \<Rightarrow>
          (let entries =
                 map (\<lambda>(index, next). \<lparr> sse_hookIndex = index, sse_value = toSerializableValue next 0 \<rparr>)
                   (zip [0..<length states] states)
           in Inr \<lparr> ss_totalHooks = length states,
                    ss_entries = (if length entries > 12 then take 12 entries else entries) \<rparr>))"

definition snapshotContexts :: "Bippy \<Rightarrow> fiber \<Rightarrow> thrown + ContextSnapshot" where
  "snapshotContexts bp fiber =
     (case bp_traverseContexts bp fiber of
        Inl e \<Rightarrow> Inl e
      | Inr contexts \<Rightarrow>
          (let entries =
                 map (\<lambda>(index, next). \<lparr> ce_index = index, ce_value = toSerializableValue next 0 \<rparr>)
                   (zip [0..<length contexts] contexts)
           in Inr \<lparr> cs_totalContexts = length contexts,
                    cs_entries = (if length entries > 12 then take 12 entries else entries) \<rparr>))"

text \<open>\<open>ToIntegerOrInfinity\<close> on a finite number: truncation towards zero.\<close>

definition toInteger :: "real \<Rightarrow> int" where
  "toInteger x = (if x < 0 then \<lceil>x\<rceil> else \<lfloor>x\<rfloor>)"

definition buildReactTreeSlice ::
  "Bippy \<Rightarrow> noderef \<Rightarrow> GrabrRuntimeConfig \<Rightarrow> ReactDebugInfo \<Rightarrow> thrown + ReactTreeSlice option" where
  "buildReactTreeSlice bp element config debugInfo =
     (if cfg_reactInspectorMode config = lit ''off'' then Inr None
      else if rd_inspectorStatus debugInfo \<noteq> StatusOk then Inr None
      else
        (case bp_getFiberFromHostInstance bp element of
           Inl e \<Rightarrow> Inr None
         | Inr None \<Rightarrow> Inr None
         | Inr (Some hostFiber) \<Rightarrow>
             (case bp_getLatestFiber bp hostFiber of
                Inl e \<Rightarrow> Inl e
              | Inr latest \<Rightarrow>
                  (case bp_getFiberStack bp latest of
                     Inl e \<Rightarrow> Inl e
                   | Inr stackFibers \<Rightarrow>
                       if length stackFibers = 0 then Inr None
                       else
                         (let maxFrames = cfg_maxReactStackFrames config;
                              takenFibers = slice0 stackFibers (toInteger maxFrames);
                              sources =
                                map (\<lambda>fiber.
                                       case bp_getSource bp fiber of
                                         Inl e \<Rightarrow> None
                                       | Inr location \<Rightarrow>
                                           toSourceLocation location (rd_buildType debugInfo))
                                  takenFibers
                          in case mapE (buildFrame bp) (zip takenFibers sources) of
                               Inl e \<Rightarrow> Inl e
                             | Inr stack \<Rightarrow>
                                 (case findOwnerIndex bp takenFibers 0 of
                                    Inl e \<Rightarrow> Inl e
                                  | Inr None \<Rightarrow>
                                      Inr (Some \<lparr> rs_stack = stack, rs_ownerIndex = None,
                                        rs_ownerProps = None, rs_ownerState = None,
                                        rs_ownerContexts = None \<rparr>)
                                  | Inr (Some ownerIndex) \<Rightarrow>
                                      if \<not> ownerIndex < length takenFibers then
                                        Inr (Some \<lparr> rs_stack = stack, rs_ownerIndex = None,
                                          rs_ownerProps = None, rs_ownerState = None,
                                          rs_ownerContexts = None \<rparr>)
                                      else
                                      (let ownerFiber = takenFibers ! ownerIndex
                                       in case snapshotProps bp ownerFiber of
                                            Inl e \<Rightarrow> Inl e
                                          | Inr ownerProps \<Rightarrow>
                                              (case snapshotState bp ownerFiber of
                                                 Inl e \<Rightarrow> Inl e
                                               | Inr ownerState \<Rightarrow>
                                                   (case snapshotContexts bp ownerFiber of
                                                      Inl e \<Rightarrow> Inl e
                                                    | Inr ownerContexts \<Rightarrow>
                                                        Inr (Some
                                                          \<lparr> rs_stack = stack,
                                                            rs_ownerIndex = Some ownerIndex,
                                                            rs_ownerProps = Some ownerProps,
                                                            rs_ownerState = Some ownerState,
                                                            rs_ownerContexts = Some ownerContexts \<rparr>))))))))))"


fun recordHandlers ::
  "(jsstring \<times> jsval) list \<Rightarrow> jsstring option \<Rightarrow> SourceLocation option
    \<Rightarrow> EventHandlerInfo list \<times> jsstring list \<Rightarrow> EventHandlerInfo list \<times> jsstring list" where
  "recordHandlers [] declaredOnComponent source st = st"
| "recordHandlers ((name, next) # rest) declaredOnComponent source (handlers, seenNames) =
     (if \<not> startsWith name (lit ''on'') then
        recordHandlers rest declaredOnComponent source (handlers, seenNames)
      else if name \<in> set seenNames then
        recordHandlers rest declaredOnComponent source (handlers, seenNames)
      else
        (case next of
           JFunction fname \<Rightarrow>
             (let fnName = (if length fname > 0 then Some fname else None);
                  kind = inferEventKindFromPropName name;
                  comment = lit ''Handler '' @ name @ lit '' likely handles '' @ eventKindName kind @
                            lit '' events on this element.''
              in recordHandlers rest declaredOnComponent source
                   (handlers @
                      [\<lparr> eh_propName = name, eh_inferredKind = kind, eh_functionName = fnName,
                         eh_declaredOnComponent = declaredOnComponent, eh_source = source,
                         eh_comment = Some comment, eh_inferenceSource = FromPropName \<rparr>],
                    seenNames @ [name]))
         | _ \<Rightarrow> recordHandlers rest declaredOnComponent source (handlers, seenNames)))"

definition nthOpt :: "'a list \<Rightarrow> nat \<Rightarrow> 'a option" where
  "nthOpt xs i = (if i < length xs then Some (xs ! i) else None)"

definition buildBehaviorContext ::
  "Bippy \<Rightarrow> noderef \<Rightarrow> ReactTreeSlice option \<Rightarrow> thrown + BehaviorContext" where
  "buildBehaviorContext bp element reactSlice =
     (let hostFiber = (case bp_getFiberFromHostInstance bp element of
                         Inl e \<Rightarrow> None
                       | Inr f \<Rightarrow> f);
          finish = (\<lambda>handlers.
            Inr \<lparr> bc_inferenceLevel =
                    (if length handlers = 0 then InferenceNone else InferencePropNameOnly),
                  bc_handlers = handlers \<rparr>)
      in case hostFiber of
           None \<Rightarrow> finish []
         | Some host \<Rightarrow>
             (case bp_getLatestFiber bp host of
                Inl e \<Rightarrow> Inl e
              | Inr latest \<Rightarrow>
                  (case bp_getFiberStack bp latest of
                     Inl e \<Rightarrow> Inl e
                   | Inr stackFibers \<Rightarrow>
                       (let first = (case reactSlice of
                                       None \<Rightarrow> None
                                     | Some rslice \<Rightarrow> nthOpt (rs_stack rslice) 0);
                            source = (case first of Some frame \<Rightarrow> rf_source frame | None \<Rightarrow> None);
                            componentName =
                              (case first of Some frame \<Rightarrow> rf_displayName frame | None \<Rightarrow> None)
                        in case bp_traverseProps bp host of
                             Inl e \<Rightarrow> Inl e
                           | Inr hostProps \<Rightarrow>
                               (let st = recordHandlers hostProps componentName source ([], [])
                                in case (case reactSlice of
                                           None \<Rightarrow> None
                                         | Some rslice \<Rightarrow>
                                             map_option (Pair rslice) (rs_ownerIndex rslice)) of
                                     None \<Rightarrow> finish (fst st)
                                   | Some (rslice, ownerIndex) \<Rightarrow>
                                       (let ownerFrame = nthOpt (rs_stack rslice) ownerIndex;
                                            ownerSource =
                                              (case ownerFrame of
                                                 Some frame \<Rightarrow> rf_source frame
                                               | None \<Rightarrow> None);
                                            ownerName =
                                              (case ownerFrame of
                                                 Some frame \<Rightarrow> rf_displayName frame
                                               | None \<Rightarrow> None)
                                        in case nthOpt stackFibers ownerIndex of
                                             None \<Rightarrow> finish (fst st)
                                           | Some ownerCompositeFiber \<Rightarrow>
                                               (case bp_traverseProps bp ownerCompositeFiber of
                                                  Inl e \<Rightarrow> Inl e
                                                | Inr ownerProps \<Rightarrow>
                                                    finish (fst (recordHandlers ownerProps
                                                      ownerName ownerSource st)))))))))"

definition buildAppContext ::
  "WindowEnv \<Rightarrow> ReactTreeSlice option \<Rightarrow> GrabrRuntimeConfig \<Rightarrow> thrown + AppContext" where
  "buildAppContext win reactSlice config =
     (let url = (case win_location win of Some l \<Rightarrow> loc_href l | None \<Rightarrow> []);
          pathname = (case win_location win of Some l \<Rightarrow> loc_pathname l | None \<Rightarrow> []);
          search = (case win_location win of Some l \<Rightarrow> loc_search l | None \<Rightarrow> []);
          hash = (case win_location win of Some l \<Rightarrow> loc_hash l | None \<Rightarrow> [])
      in case mapE (\<lambda>strategy. fs_detect strategy
                      \<lparr> fi_reactSlice = reactSlice, fi_url = url, fi_pathname = pathname \<rparr>)
                (gh_frameworkStrategies (cfg_heuristics config)) of
           Inl e \<Rightarrow> Inl e
         | Inr results \<Rightarrow>
             (let frameworkResult =
                    (case List.find (\<lambda>result. result \<noteq> None) results of
                       Some (Some result) \<Rightarrow> result
                     | _ \<Rightarrow> \<lparr> fd_framework = UnknownFramework, fd_routePatternGuess = None,
                              fd_routeParamsGuess = None, fd_pageComponent = None,
                              fd_layoutComponents = [] \<rparr>);
                  input = \<lparr> di_ownerProps =
                             (case reactSlice of
                                Some rslice \<Rightarrow> rs_ownerProps rslice
                              | None \<Rightarrow> None) \<rparr>
              in case mapE (\<lambda>strategy. dss_detect strategy input)
                        (gh_dataSourceStrategies (cfg_heuristics config)) of
                   Inl e \<Rightarrow> Inl e
                 | Inr hintLists \<Rightarrow>
                     (let collected = concat hintLists;
                          dataSources =
                            (if length collected > 0 then collected
                             else [\<lparr> ds_kind = DsUnknown, ds_identifier = None,
                                     ds_description = None \<rparr>])
                      in Inr \<lparr> app_url = url, app_pathname = pathname, app_search = search,
                               app_hash = hash,
                               app_framework = fd_framework frameworkResult,
                               app_routePatternGuess = fd_routePatternGuess frameworkResult,
                               app_routeParamsGuess = fd_routeParamsGuess frameworkResult,
                               app_pageComponent = fd_pageComponent frameworkResult,
                               app_layoutComponents = fd_layoutComponents frameworkResult,
                               app_dataSources = dataSources \<rparr>)))"

text \<open>
  \<open>DefaultInspectorEngine\<close> holds its configuration; \<open>Browser\<close> collects what
  \<open>getElementContext\<close> reads from its surroundings. \<open>createInspectorEngine\<close> and
  \<open>createGrabrClient\<close> give a \<open>thrown + result\<close>, as any call may throw.
  \<open>String(value)\<close> on a number in the error message is the parameter \<open>numberToString\<close>.
\<close>

record InspectorEngine =
  ie_config :: GrabrRuntimeConfig

record Browser =
  br_window :: WindowEnv
  br_bippy :: Bippy
  br_document :: document
  br_CSS_escape :: "jsstring \<Rightarrow> jsstring"

definition getElementContext ::
  "Browser \<Rightarrow> InspectorEngine \<Rightarrow> noderef \<Rightarrow> thrown + ElementContextV2" where
  "getElementContext br engine selectedElement =
     (let config = ie_config engine; bp = br_bippy br; doc = br_document br
      in case getReactDebugInfoForElement bp selectedElement of
           Inl e \<Rightarrow> Inl e
         | Inr reactDebug \<Rightarrow>
             (case (if cfg_reactInspectorMode config = lit ''off'' then Inr None
                    else buildReactTreeSlice bp selectedElement config reactDebug) of
                Inl e \<Rightarrow> Inl e
              | Inr reactSlice \<Rightarrow>
                  (let selection = buildSelectionInfo doc selectedElement reactSlice
                   in case buildDomNeighborhood (br_CSS_escape br) doc selectedElement of
                        Inl e \<Rightarrow> Inl e
                      | Inr dom' \<Rightarrow>
                          (let styling = buildStyleFrame (br_window br) doc selectedElement
                           in case buildBehaviorContext bp selectedElement reactSlice of
                                Inl e \<Rightarrow> Inl e
                              | Inr behavior \<Rightarrow>
                                  (case buildAppContext (br_window br) reactSlice config of
                                     Inl e \<Rightarrow> Inl e
                                   | Inr app \<Rightarrow>
                                       Inr \<lparr> ec_selection = selection, ec_dom = dom',
                                             ec_react = reactSlice, ec_reactDebug = reactDebug,
                                             ec_styling = styling, ec_behavior = behavior,
                                             ec_app = app, ec_tests = None \<rparr>)))))"

definition createInspectorEngine :: "PartialConfig option \<Rightarrow> thrown + InspectorEngine" where
  "createInspectorEngine partialConfig =
     (let config = mergeRuntimeConfig partialConfig in Inr \<lparr> ie_config = config \<rparr>)"

definition isFiniteIntegerInRange :: "real \<Rightarrow> real \<Rightarrow> real \<Rightarrow> bool" where
  "isFiniteIntegerInRange x lo hi = (real_of_int \<lfloor>x\<rfloor> = x \<and> x \<ge> lo \<and> x \<le> hi)"

definition validateRuntimeConfigOrThrow ::
  "(real \<Rightarrow> jsstring) \<Rightarrow> GrabrRuntimeConfig \<Rightarrow> thrown + unit" where
  "validateRuntimeConfigOrThrow numberToString config =
     (if cfg_reactInspectorMode config \<noteq> lit ''best-effort'' \<and>
         cfg_reactInspectorMode config \<noteq> lit ''required'' \<and>
         cfg_reactInspectorMode config \<noteq> lit ''off''
      then Inl (ErrorObject
             (lit ''Invalid config.reactInspectorMode: expected '' @ [0x22] @ lit ''best-effort'' @
              [0x22] @ lit '' | '' @ [0x22] @ lit ''required'' @ [0x22] @ lit '' | '' @ [0x22] @
              lit ''off'' @ [0x22] @ lit '', got '' @ cfg_reactInspectorMode config))
      else if \<not> isFiniteIntegerInRange (cfg_maxReactStackFrames config) 1 64
      then Inl (ErrorObject
             (lit ''Invalid config.maxReactStackFrames: expected integer in range [1, 64], got '' @
              numberToString (cfg_maxReactStackFrames config)))
      else Inr ())"

record GrabrClient =
  gc_config :: GrabrRuntimeConfig
  gc_inspector :: InspectorEngine
  gc_controller :: Controller

definition createGrabrClient ::
  "(real \<Rightarrow> jsstring) \<Rightarrow> bool \<Rightarrow> PartialConfig option \<Rightarrow> thrown + GrabrClient" where
  "createGrabrClient numberToString inBrowser partialConfig =
     (if \<not> inBrowser
      then Inl (ErrorObject (lit ''createGrabrClient must be called in a browser environment.''))
      else
        (let config = mergeRuntimeConfig partialConfig
         in case validateRuntimeConfigOrThrow numberToString config of
              Inl e \<Rightarrow> Inl e
            | Inr u \<Rightarrow>
                (case createInspectorEngine (Some
                        \<lparr> pc_reactInspectorMode = Some (cfg_reactInspectorMode config),
                          pc_maxReactStackFrames = Some (cfg_maxReactStackFrames config),
                          pc_heuristics = Some
                            \<lparr> pgh_frameworkStrategies =
                                Some (gh_frameworkStrategies (cfg_heuristics config)),
                              pgh_dataSourceStrategies =
                                Some (gh_dataSourceStrategies (cfg_heuristics config)) \<rparr> \<rparr>) of
                   Inl e \<Rightarrow> Inl e
                 | Inr inspector \<Rightarrow>
                     Inr \<lparr> gc_config = config, gc_inspector = inspector,
                           gc_controller = \<lparr> ctl_currentSession = None,
                             ctl_currentInstruction = None, ctl_overlayAttached = True \<rparr> \<rparr>)))"

section \<open>Facet degradation in the extraction engine\<close>

text \<open>
  The introspection calls that \<open>getElementContext\<close> makes outside any \<open>try\<close>:
  \<open>hasRDTHook\<close>, \<open>isInstrumentationActive\<close>, \<open>getLatestFiber\<close>, \<open>getFiberStack\<close>,
  \<open>getDisplayName\<close>, \<open>isHostFiber\<close>, \<open>isCompositeFiber\<close>, the three traversals, and
  \<open>detect\<close> of every configured strategy. \<open>unguardedCallsReturn bp config\<close> says that each
  of them returns. The calls inside a \<open>try\<close> are \<open>getFiberFromHostInstance\<close>, \<open>getSource\<close>
  and \<open>detectReactBuildType\<close>, on which it says nothing.
\<close>

definition unguardedCallsReturn :: "Bippy \<Rightarrow> GrabrRuntimeConfig \<Rightarrow> bool" where
  "unguardedCallsReturn bp config \<longleftrightarrow>
     (\<exists>r. bp_hasRDTHook bp = Inr r) \<and>
     (\<exists>r. bp_isInstrumentationActive bp = Inr r) \<and>
     (\<forall>f. \<exists>r. bp_getLatestFiber bp f = Inr r) \<and>
     (\<forall>f. \<exists>r. bp_getFiberStack bp f = Inr r) \<and>
     (\<forall>f. \<exists>r. bp_getDisplayName bp f = Inr r) \<and>
     (\<forall>f. \<exists>r. bp_isHostFiber bp f = Inr r) \<and>
     (\<forall>f. \<exists>r. bp_isCompositeFiber bp f = Inr r) \<and>
     (\<forall>f. \<exists>r. bp_traverseProps bp f = Inr r) \<and>
     (\<forall>f. \<exists>r. bp_traverseState bp f = Inr r) \<and>
     (\<forall>f. \<exists>r. bp_traverseContexts bp f = Inr r) \<and>
     (\<forall>strategy \<in> set (gh_frameworkStrategies (cfg_heuristics config)).
        \<forall>input. \<exists>r. fs_detect strategy input = Inr r) \<and>
     (\<forall>strategy \<in> set (gh_dataSourceStrategies (cfg_heuristics config)).
        \<forall>input. \<exists>r. dss_detect strategy input = Inr r)"

lemma unguardedD:
  assumes "unguardedCallsReturn bp config"
  shows "\<exists>r. bp_hasRDTHook bp = Inr r"
    and "\<exists>r. bp_isInstrumentationActive bp = Inr r"
    and "\<And>f. \<exists>r. bp_getLatestFiber bp f = Inr r"
    and "\<And>f. \<exists>r. bp_getFiberStack bp f = Inr r"
    and "\<And>f. \<exists>r. bp_getDisplayName bp f = Inr r"
    and "\<And>f. \<exists>r. bp_isHostFiber bp f = Inr r"
    and "\<And>f. \<exists>r. bp_isCompositeFiber bp f = Inr r"
    and "\<And>f. \<exists>r. bp_traverseProps bp f = Inr r"
    and "\<And>f. \<exists>r. bp_traverseState bp f = Inr r"
    and "\<And>f. \<exists>r. bp_traverseContexts bp f = Inr r"
    and "\<And>strategy input. strategy \<in> set (gh_frameworkStrategies (cfg_heuristics config)) \<Longrightarrow>
           \<exists>r. fs_detect strategy input = Inr r"
    and "\<And>strategy input. strategy \<in> set (gh_dataSourceStrategies (cfg_heuristics config)) \<Longrightarrow>
           \<exists>r. dss_detect strategy input = Inr r"
  using assms unfolding unguardedCallsReturn_def by blast+

lemma mapE_ok:
  "(\<And>x. x \<in> set xs \<Longrightarrow> \<exists>y. f x = Inr y \<and> P x y) \<Longrightarrow>
     \<exists>ys. mapE f xs = Inr ys \<and> list_all2 P xs ys"
proof (induction xs)
  case Nil
  show ?case by simp
next
  case (Cons x xs)
  obtain y where y: "f x = Inr y" "P x y" using Cons.prems [of x] by auto
  obtain ys where ys: "mapE f xs = Inr ys" "list_all2 P xs ys"
    using Cons.IH Cons.prems by auto
  show ?case using y ys by simp
qed

lemma buildFrame_ok:
  assumes "unguardedCallsReturn bp config"
  shows "\<exists>frame. buildFrame bp (fiber, source) = Inr frame \<and> rf_source frame = source"
proof -
  obtain d where d: "bp_getDisplayName bp fiber = Inr d"
    using unguardedD(5) [OF assms] by blast
  obtain h where h: "bp_isHostFiber bp fiber = Inr h"
    using unguardedD(6) [OF assms] by blast
  obtain c where c: "bp_isCompositeFiber bp fiber = Inr c"
    using unguardedD(7) [OF assms] by blast
  show ?thesis by (simp add: buildFrame_def d h c Let_def)
qed

lemma findOwnerIndex_ok:
  assumes "unguardedCallsReturn bp config"
  shows "\<exists>r. findOwnerIndex bp fibers i = Inr r"
proof (induction fibers arbitrary: i)
  case Nil
  show ?case by simp
next
  case (Cons fiber rest)
  obtain c where c: "bp_isCompositeFiber bp fiber = Inr c"
    using unguardedD(7) [OF assms] by blast
  show ?case using Cons.IH [of "i + 1"] by (simp add: c)
qed

lemma snapshots_ok:
  assumes "unguardedCallsReturn bp config"
  shows "\<exists>r. snapshotProps bp fiber = Inr r"
    and "\<exists>r. snapshotState bp fiber = Inr r"
    and "\<exists>r. snapshotContexts bp fiber = Inr r"
proof -
  obtain p where p: "bp_traverseProps bp fiber = Inr p"
    using unguardedD(8) [OF assms] by blast
  obtain st where st: "bp_traverseState bp fiber = Inr st"
    using unguardedD(9) [OF assms] by blast
  obtain c where c: "bp_traverseContexts bp fiber = Inr c"
    using unguardedD(10) [OF assms] by blast
  show "\<exists>r. snapshotProps bp fiber = Inr r" by (simp add: snapshotProps_def p Let_def)
  show "\<exists>r. snapshotState bp fiber = Inr r" by (simp add: snapshotState_def st Let_def)
  show "\<exists>r. snapshotContexts bp fiber = Inr r" by (simp add: snapshotContexts_def c Let_def)
qed


lemma list_all2_right_mem:
  "list_all2 P xs ys \<Longrightarrow> y \<in> set ys \<Longrightarrow> \<exists>x \<in> set xs. P x y"
  by (induction rule: list_all2_induct) auto

lemma slice_unfold:
  assumes on: "cfg_reactInspectorMode config \<noteq> lit ''off''"
    and ok: "rd_inspectorStatus debugInfo = StatusOk"
    and host: "bp_getFiberFromHostInstance bp element = Inr (Some hostFiber)"
    and latest: "bp_getLatestFiber bp hostFiber = Inr latest"
    and stackFibers: "bp_getFiberStack bp latest = Inr stackFibers"
    and nonempty: "length stackFibers \<noteq> 0"
    and stack: "mapE (buildFrame bp)
        (zip (slice0 stackFibers (toInteger (cfg_maxReactStackFrames config)))
           (map (\<lambda>fiber. case bp_getSource bp fiber of Inl e \<Rightarrow> None
                         | Inr location \<Rightarrow> toSourceLocation location (rd_buildType debugInfo))
              (slice0 stackFibers (toInteger (cfg_maxReactStackFrames config))))) = Inr stack"
    and owner: "findOwnerIndex bp (slice0 stackFibers (toInteger (cfg_maxReactStackFrames config))) 0 = Inr owner"
  shows "buildReactTreeSlice bp element config debugInfo =
           (case owner of
              None \<Rightarrow> Inr (Some \<lparr> rs_stack = stack, rs_ownerIndex = None, rs_ownerProps = None,
                            rs_ownerState = None, rs_ownerContexts = None \<rparr>)
            | Some ownerIndex \<Rightarrow>
                if \<not> ownerIndex < length (slice0 stackFibers (toInteger (cfg_maxReactStackFrames config))) then
                  Inr (Some \<lparr> rs_stack = stack, rs_ownerIndex = None, rs_ownerProps = None,
                            rs_ownerState = None, rs_ownerContexts = None \<rparr>)
                else
                  (case snapshotProps bp (slice0 stackFibers (toInteger (cfg_maxReactStackFrames config)) ! ownerIndex) of
                     Inl e \<Rightarrow> Inl e
                   | Inr ownerProps \<Rightarrow>
                       (case snapshotState bp (slice0 stackFibers (toInteger (cfg_maxReactStackFrames config)) ! ownerIndex) of
                          Inl e \<Rightarrow> Inl e
                        | Inr ownerState \<Rightarrow>
                            (case snapshotContexts bp (slice0 stackFibers (toInteger (cfg_maxReactStackFrames config)) ! ownerIndex) of
                               Inl e \<Rightarrow> Inl e
                             | Inr ownerContexts \<Rightarrow>
                                 Inr (Some \<lparr> rs_stack = stack, rs_ownerIndex = Some ownerIndex,
                                   rs_ownerProps = Some ownerProps, rs_ownerState = Some ownerState,
                                   rs_ownerContexts = Some ownerContexts \<rparr>)))))"
  unfolding buildReactTreeSlice_def Let_def
  using nonempty
  by (simp only: on ok host latest stackFibers stack owner if_False simp_thms sum.case option.case)


lemma buildReactTreeSlice_ok:
  assumes U: "unguardedCallsReturn bp config"
  shows "\<exists>r. buildReactTreeSlice bp element config debugInfo = Inr r \<and>
           (isl (bp_getFiberFromHostInstance bp element) \<longrightarrow> r = None) \<and>
           ((\<forall>f. isl (bp_getSource bp f)) \<longrightarrow>
              (\<forall>rslice. r = Some rslice \<longrightarrow> (\<forall>frame \<in> set (rs_stack rslice). rf_source frame = None)))"
proof (cases "cfg_reactInspectorMode config = lit ''off'' \<or> rd_inspectorStatus debugInfo \<noteq> StatusOk")
  case True
  then show ?thesis by (auto simp: buildReactTreeSlice_def)
next
  case False
  then have on: "cfg_reactInspectorMode config \<noteq> lit ''off''"
    and ok: "rd_inspectorStatus debugInfo = StatusOk" by simp_all
  show ?thesis
  proof (cases "bp_getFiberFromHostInstance bp element")
    case (Inl e)
    then show ?thesis using on ok by (simp add: buildReactTreeSlice_def)
  next
    case (Inr hf)
    note host = Inr
    show ?thesis
    proof (cases hf)
      case None
      then show ?thesis using on ok host by (simp add: buildReactTreeSlice_def)
    next
      case (Some hostFiber)
      have host': "bp_getFiberFromHostInstance bp element = Inr (Some hostFiber)"
        using host Some by simp
      obtain latest where latest: "bp_getLatestFiber bp hostFiber = Inr latest"
        using unguardedD(3) [OF U] by blast
      obtain stackFibers where stackFibers: "bp_getFiberStack bp latest = Inr stackFibers"
        using unguardedD(4) [OF U] by blast
      show ?thesis
      proof (cases "length stackFibers = 0")
        case True
        then show ?thesis
          using on ok host' latest stackFibers by (simp add: buildReactTreeSlice_def)
      next
        case False
        define takenFibers where
          "takenFibers = slice0 stackFibers (toInteger (cfg_maxReactStackFrames config))"
        define sources where
          "sources = map (\<lambda>fiber. case bp_getSource bp fiber of Inl e \<Rightarrow> None
                         | Inr location \<Rightarrow> toSourceLocation location (rd_buildType debugInfo))
                       takenFibers"
        have "\<exists>stack. mapE (buildFrame bp) (zip takenFibers sources) = Inr stack \<and>
                list_all2 (\<lambda>x frame. rf_source frame = snd x) (zip takenFibers sources) stack"
        proof (rule mapE_ok)
          fix x assume "x \<in> set (zip takenFibers sources)"
          obtain fiber source where x: "x = (fiber, source)" by (cases x)
          show "\<exists>y. buildFrame bp x = Inr y \<and> rf_source y = snd x"
            using buildFrame_ok [OF U, of fiber source] by (simp add: x)
        qed
        then obtain stack where stack: "mapE (buildFrame bp) (zip takenFibers sources) = Inr stack"
          and rel: "list_all2 (\<lambda>x frame. rf_source frame = snd x) (zip takenFibers sources) stack"
          by blast
        have nosrc: "rf_source frame = None"
          if none: "\<forall>f. isl (bp_getSource bp f)" and mem: "frame \<in> set stack" for frame
        proof -
          obtain x where x: "x \<in> set (zip takenFibers sources)" "rf_source frame = snd x"
            using list_all2_right_mem [OF rel mem] by blast
          obtain a b where ab: "x = (a, b)" by (cases x)
          have "snd x \<in> set sources" using x(1) set_zip_rightD [of a b takenFibers sources] by (simp add: ab)
          then obtain fiber where "snd x = (case bp_getSource bp fiber of Inl e \<Rightarrow> None
                         | Inr location \<Rightarrow> toSourceLocation location (rd_buildType debugInfo))"
            unfolding sources_def by auto
          moreover have "isl (bp_getSource bp fiber)" using none by simp
          ultimately have "snd x = None" by (cases "bp_getSource bp fiber") simp_all
          then show "rf_source frame = None" using x(2) by simp
        qed
        obtain owner where owner: "findOwnerIndex bp takenFibers 0 = Inr owner"
          using findOwnerIndex_ok [OF U] by blast
        note unfold = slice_unfold [OF on ok host' latest stackFibers False
            stack [unfolded sources_def takenFibers_def] owner [unfolded takenFibers_def]]
        have "\<exists>rslice. buildReactTreeSlice bp element config debugInfo = Inr (Some rslice) \<and>
                rs_stack rslice = stack"
        proof (cases owner)
          case None
          then show ?thesis by (simp add: unfold)
        next
          case (Some ownerIndex)
          obtain p where p: "snapshotProps bp (takenFibers ! ownerIndex) = Inr p"
            using snapshots_ok(1) [OF U] by blast
          obtain st where st: "snapshotState bp (takenFibers ! ownerIndex) = Inr st"
            using snapshots_ok(2) [OF U] by blast
          obtain c where c: "snapshotContexts bp (takenFibers ! ownerIndex) = Inr c"
            using snapshots_ok(3) [OF U] by blast
          show ?thesis
            using p st c unfolding takenFibers_def by (simp add: unfold Some)
        qed
        then obtain rslice where
          rslice: "buildReactTreeSlice bp element config debugInfo = Inr (Some rslice)"
            "rs_stack rslice = stack" by blast
        show ?thesis
          using rslice nosrc host' by auto
      qed
    qed
  qed
qed


lemma detectReactBuildTypeSafe_unknown:
  assumes "\<forall>renderer. isl (bp_detectReactBuildType bp renderer)"
  shows "detectReactBuildTypeSafe bp = BuildUnknown"
proof (cases "bp_renderers bp")
  case Nil
  then show ?thesis by (simp add: detectReactBuildTypeSafe_def)
next
  case (Cons renderer others)
  have "isl (bp_detectReactBuildType bp renderer)" using assms by simp
  then obtain e where "bp_detectReactBuildType bp renderer = Inl e"
    by (cases "bp_detectReactBuildType bp renderer") simp_all
  then show ?thesis using Cons by (simp add: detectReactBuildTypeSafe_def)
qed

lemma getReactDebugInfoForElement_ok:
  assumes U: "unguardedCallsReturn bp config"
  shows "\<exists>d. getReactDebugInfoForElement bp element = Inr d \<and>
           rd_buildType d = detectReactBuildTypeSafe bp \<and>
           (isl (bp_getFiberFromHostInstance bp element) \<longrightarrow>
              rd_inspectorStatus d \<in> {StatusNoHook, StatusInactive, StatusError})"
proof -
  obtain hasHook where hasHook: "bp_hasRDTHook bp = Inr hasHook"
    using unguardedD(1) [OF U] by blast
  obtain active where active: "bp_isInstrumentationActive bp = Inr active"
    using unguardedD(2) [OF U] by blast
  show ?thesis
    by (cases "bp_getFiberFromHostInstance bp element")
       (simp_all add: getReactDebugInfoForElement_def Let_def hasHook active
          split: option.splits)
qed

lemma buildBehaviorContext_ok:
  assumes U: "unguardedCallsReturn bp config"
  shows "\<exists>b. buildBehaviorContext bp element reactSlice = Inr b \<and>
           (isl (bp_getFiberFromHostInstance bp element) \<longrightarrow>
              bc_handlers b = [] \<and> bc_inferenceLevel b = InferenceNone)"
proof -
  have tp: "bp_traverseProps bp f \<noteq> Inl e" for f e
    using unguardedD(8) [OF U, of f] by auto
  show ?thesis
  proof (cases "bp_getFiberFromHostInstance bp element")
    case (Inl e)
    then show ?thesis by (simp add: buildBehaviorContext_def)
  next
    case (Inr hf)
    note host = Inr
    show ?thesis
    proof (cases hf)
      case None
      then show ?thesis using host by (simp add: buildBehaviorContext_def)
    next
      case (Some hostFiber)
      obtain latest where latest: "bp_getLatestFiber bp hostFiber = Inr latest"
        using unguardedD(3) [OF U] by blast
      obtain stackFibers where stackFibers: "bp_getFiberStack bp latest = Inr stackFibers"
        using unguardedD(4) [OF U] by blast
      show ?thesis
        using host Some latest stackFibers
        by (simp add: buildBehaviorContext_def Let_def tp split: option.splits sum.splits prod.splits)
    qed
  qed
qed

lemma buildAppContext_ok:
  assumes U: "unguardedCallsReturn bp config"
  shows "\<exists>app. buildAppContext win reactSlice config = Inr app"
proof -
  define input where "input = \<lparr> fi_reactSlice = reactSlice,
      fi_url = (case win_location win of Some l \<Rightarrow> loc_href l | None \<Rightarrow> []),
      fi_pathname = (case win_location win of Some l \<Rightarrow> loc_pathname l | None \<Rightarrow> []) \<rparr>"
  have "\<exists>ys. mapE (\<lambda>strategy. fs_detect strategy input)
              (gh_frameworkStrategies (cfg_heuristics config)) = Inr ys \<and>
          list_all2 (\<lambda>x y. True) (gh_frameworkStrategies (cfg_heuristics config)) ys"
    by (rule mapE_ok) (use unguardedD(11) [OF U] in auto)
  then obtain results where results: "mapE (\<lambda>strategy. fs_detect strategy input)
              (gh_frameworkStrategies (cfg_heuristics config)) = Inr results" by blast
  define dinput where "dinput = \<lparr> di_ownerProps =
         (case reactSlice of Some rslice \<Rightarrow> rs_ownerProps rslice | None \<Rightarrow> None) \<rparr>"
  have "\<exists>ys. mapE (\<lambda>strategy. dss_detect strategy dinput)
              (gh_dataSourceStrategies (cfg_heuristics config)) = Inr ys \<and>
          list_all2 (\<lambda>x y. True) (gh_dataSourceStrategies (cfg_heuristics config)) ys"
    by (rule mapE_ok) (use unguardedD(12) [OF U] in auto)
  then obtain hintLists where hintLists: "mapE (\<lambda>strategy. dss_detect strategy dinput)
              (gh_dataSourceStrategies (cfg_heuristics config)) = Inr hintLists" by blast
  show ?thesis
    using results hintLists unfolding input_def dinput_def
    by (simp add: buildAppContext_def Let_def)
qed

lemma serializeElementSnippet_ok:
  "el_className e \<noteq> None \<Longrightarrow> \<exists>snippet. serializeElementSnippet e = Inr snippet"
  by (auto simp add: serializeElementSnippet_def Let_def)

lemma buildDomNeighborhood_ok:
  assumes "el_className (doc el) \<noteq> None"
  shows "\<exists>dom. buildDomNeighborhood CSS_escape doc el = Inr dom"
proof -
  obtain snippet where "serializeElementSnippet (doc el) = Inr snippet"
    using serializeElementSnippet_ok [OF assms] by blast
  then show ?thesis by (simp add: buildDomNeighborhood_def Let_def)
qed

lemma getElementContext_total:
  assumes U: "unguardedCallsReturn (br_bippy br) (ie_config engine)"
      and C: "el_className (br_document br el) \<noteq> None"
  shows "\<exists>ctx. getElementContext br engine el = Inr ctx \<and>
     ec_selection ctx = buildSelectionInfo (br_document br) el (ec_react ctx) \<and>
     buildDomNeighborhood (br_CSS_escape br) (br_document br) el = Inr (ec_dom ctx) \<and>
     ec_styling ctx = buildStyleFrame (br_window br) (br_document br) el \<and>
     (isl (bp_getFiberFromHostInstance (br_bippy br) el) \<longrightarrow>
        ec_react ctx = None \<and> bc_handlers (ec_behavior ctx) = [] \<and>
        bc_inferenceLevel (ec_behavior ctx) = InferenceNone \<and>
        rd_inspectorStatus (ec_reactDebug ctx) \<in> {StatusNoHook, StatusInactive, StatusError}) \<and>
     ((\<forall>renderer. isl (bp_detectReactBuildType (br_bippy br) renderer)) \<longrightarrow>
        rd_buildType (ec_reactDebug ctx) = BuildUnknown) \<and>
     ((\<forall>f. isl (bp_getSource (br_bippy br) f)) \<longrightarrow>
        (\<forall>rslice. ec_react ctx = Some rslice \<longrightarrow>
           (\<forall>frame \<in> set (rs_stack rslice). rf_source frame = None)))"
proof -
  define bp where "bp = br_bippy br"
  define config where "config = ie_config engine"
  have U': "unguardedCallsReturn bp config" using U by (simp add: bp_def config_def)
  obtain d where d: "getReactDebugInfoForElement bp el = Inr d"
    and dBuild: "rd_buildType d = detectReactBuildTypeSafe bp"
    and dStatus: "isl (bp_getFiberFromHostInstance bp el) \<longrightarrow>
              rd_inspectorStatus d \<in> {StatusNoHook, StatusInactive, StatusError}"
    using getReactDebugInfoForElement_ok [OF U'] by blast
  obtain r where r: "buildReactTreeSlice bp el config d = Inr r"
    and rNone: "isl (bp_getFiberFromHostInstance bp el) \<longrightarrow> r = None"
    and rSrc: "(\<forall>f. isl (bp_getSource bp f)) \<longrightarrow>
              (\<forall>rslice. r = Some rslice \<longrightarrow> (\<forall>frame \<in> set (rs_stack rslice). rf_source frame = None))"
    using buildReactTreeSlice_ok [OF U'] by blast
  define reactSlice where
    "reactSlice = (if cfg_reactInspectorMode config = lit ''off'' then None else r)"
  have slice: "(if cfg_reactInspectorMode config = lit ''off'' then Inr None
                    else buildReactTreeSlice bp el config d) = Inr reactSlice"
    using r by (simp add: reactSlice_def)
  obtain b where b: "buildBehaviorContext bp el reactSlice = Inr b"
    and bNone: "isl (bp_getFiberFromHostInstance bp el) \<longrightarrow>
              bc_handlers b = [] \<and> bc_inferenceLevel b = InferenceNone"
    using buildBehaviorContext_ok [OF U'] by blast
  obtain app where app: "buildAppContext (br_window br) reactSlice config = Inr app"
    using buildAppContext_ok [OF U'] by blast
  obtain dom where dom: "buildDomNeighborhood (br_CSS_escape br) (br_document br) el = Inr dom"
    using buildDomNeighborhood_ok [where doc = "br_document br" and el = el] C by blast
  have res: "getElementContext br engine el =
      Inr \<lparr> ec_selection = buildSelectionInfo (br_document br) el reactSlice,
            ec_dom = dom,
            ec_react = reactSlice, ec_reactDebug = d,
            ec_styling = buildStyleFrame (br_window br) (br_document br) el,
            ec_behavior = b, ec_app = app, ec_tests = None \<rparr>"
    unfolding getElementContext_def Let_def bp_def [symmetric] config_def [symmetric]
    by (simp only: d slice dom b app sum.case)
  have build: "(\<forall>renderer. isl (bp_detectReactBuildType bp renderer)) \<longrightarrow>
        rd_buildType d = BuildUnknown"
    using dBuild detectReactBuildTypeSafe_unknown [of bp] by simp
  have src: "(\<forall>f. isl (bp_getSource bp f)) \<longrightarrow>
              (\<forall>rslice. reactSlice = Some rslice \<longrightarrow>
                 (\<forall>frame \<in> set (rs_stack rslice). rf_source frame = None))"
    using rSrc by (simp add: reactSlice_def)
  have none: "isl (bp_getFiberFromHostInstance bp el) \<longrightarrow> reactSlice = None"
    using rNone by (simp add: reactSlice_def)
  show ?thesis
    unfolding res bp_def [symmetric]
    using dStatus bNone build src none dom by simp
qed



text \<open>
  A browser around a given introspection library, on the sample document, and four
  libraries: one whose calls all return, one whose three guarded calls throw, and two in
  which one unguarded call throws.
\<close>

definition quietBippy :: Bippy where
  "quietBippy =
     \<lparr> bp_renderers = [0],
       bp_detectReactBuildType = (\<lambda>renderer. Inr (lit ''development'')),
       bp_hasRDTHook = Inr True,
       bp_isInstrumentationActive = Inr True,
       bp_getFiberFromHostInstance = (\<lambda>element. Inr (Some 0)),
       bp_getLatestFiber = (\<lambda>f. Inr f),
       bp_getFiberStack = (\<lambda>f. Inr [f]),
       bp_getSource = (\<lambda>f. Inr None),
       bp_getDisplayName = (\<lambda>f. Inr (Some (lit ''button''))),
       bp_isHostFiber = (\<lambda>f. Inr True),
       bp_isCompositeFiber = (\<lambda>f. Inr False),
       bp_fiberTag = (\<lambda>f. Some 5),
       bp_traverseProps = (\<lambda>f. Inr []),
       bp_traverseState = (\<lambda>f. Inr []),
       bp_traverseContexts = (\<lambda>f. Inr []) \<rparr>"




definition sampleBrowser :: "Bippy \<Rightarrow> Browser" where
  "sampleBrowser bp =
     \<lparr> br_window = \<lparr> win_location = None, win_hasGetComputedStyle = True \<rparr>,
       br_bippy = bp, br_document = sampleDocument, br_CSS_escape = (\<lambda>s. s) \<rparr>"

definition invalidConfig :: PartialConfig where
  "invalidConfig =
     \<lparr> pc_reactInspectorMode = Some (lit ''bogus''), pc_maxReactStackFrames = Some 0,
       pc_heuristics = None \<rparr>"



text \<open>
  The sample document with element 3 an SVG element: \<open>trim\<close> is called on its \<open>className\<close>
  and throws, with every introspection call returning.
\<close>

definition svgDocument :: document where
  "svgDocument = sampleDocument (3 := (sampleDocument 3) \<lparr> el_className := None \<rparr>)"

lemma getElementContext_svg:
  "getElementContext ((sampleBrowser quietBippy) \<lparr> br_document := svgDocument \<rparr>)
     \<lparr> ie_config = defaultRuntimeConfig \<rparr> 3
     = Inl (ErrorObject (lit ''el.className.trim is not a function''))"
proof -
  have "buildDomNeighborhood (\<lambda>s. s) svgDocument 3
          = Inl (ErrorObject (lit ''el.className.trim is not a function''))"
    by (simp add: buildDomNeighborhood_def serializeElementSnippet_def svgDocument_def Let_def)
  then show ?thesis
    by (simp add: getElementContext_def sampleBrowser_def quietBippy_def
        getReactDebugInfoForElement_def buildReactTreeSlice_def defaultRuntimeConfig_def lit_def
        Let_def slice0_def toInteger_def buildFrame_def)
qed


section \<open>Where the configuration is validated\<close>

lemma validateRuntimeConfigOrThrow_ok:
  "(\<exists>u. validateRuntimeConfigOrThrow numberToString config = Inr u) \<longleftrightarrow>
     cfg_reactInspectorMode config \<in> {lit ''best-effort'', lit ''required'', lit ''off''} \<and>
     isFiniteIntegerInRange (cfg_maxReactStackFrames config) 1 64"
  by (auto simp add: validateRuntimeConfigOrThrow_def)

lemma createGrabrClient_ok:
  "(\<exists>client. createGrabrClient numberToString inBrowser partialConfig = Inr client) \<longleftrightarrow>
     inBrowser \<and> (\<exists>u. validateRuntimeConfigOrThrow numberToString
                         (mergeRuntimeConfig partialConfig) = Inr u)"
  by (cases "validateRuntimeConfigOrThrow numberToString (mergeRuntimeConfig partialConfig)")
     (simp_all add: createGrabrClient_def createInspectorEngine_def Let_def)

text \<open>
  C9: \<open>createInspectorEngine\<close> returns an engine on the merged configuration whatever the
  configuration is, and \<open>getElementContext\<close> of that engine returns a context, for an
  element whose \<open>className\<close> is a string, whenever the unguarded introspection calls
  return: neither checks the inspector mode or the frame limit. \<open>createGrabrClient\<close> returns a client exactly when it runs in a browser, the
  merged mode is one of the three literals and the merged frame limit is an integer in
  \<open>[1, 64]\<close>.
\<close>

theorem createInspectorEngine_no_validation:
  "createInspectorEngine partialConfig = Inr \<lparr> ie_config = mergeRuntimeConfig partialConfig \<rparr> \<and>
   (unguardedCallsReturn (br_bippy br) (mergeRuntimeConfig partialConfig) \<and>
    el_className (br_document br el) \<noteq> None \<longrightarrow>
      (\<exists>ctx. getElementContext br \<lparr> ie_config = mergeRuntimeConfig partialConfig \<rparr> el = Inr ctx)) \<and>
   ((\<exists>client. createGrabrClient numberToString inBrowser partialConfig = Inr client) \<longleftrightarrow>
      inBrowser \<and>
      cfg_reactInspectorMode (mergeRuntimeConfig partialConfig)
        \<in> {lit ''best-effort'', lit ''required'', lit ''off''} \<and>
      isFiniteIntegerInRange (cfg_maxReactStackFrames (mergeRuntimeConfig partialConfig)) 1 64)"
proof -
  have engine: "createInspectorEngine partialConfig =
      Inr \<lparr> ie_config = mergeRuntimeConfig partialConfig \<rparr>"
    by (simp add: createInspectorEngine_def)
  have ctx: "\<exists>ctx. getElementContext br \<lparr> ie_config = mergeRuntimeConfig partialConfig \<rparr> el = Inr ctx"
    if "unguardedCallsReturn (br_bippy br) (mergeRuntimeConfig partialConfig)"
      and "el_className (br_document br el) \<noteq> None"
    using getElementContext_total [of br "\<lparr> ie_config = mergeRuntimeConfig partialConfig \<rparr>" el] that
    by auto
  have client: "(\<exists>client. createGrabrClient numberToString inBrowser partialConfig = Inr client) \<longleftrightarrow>
      inBrowser \<and>
      cfg_reactInspectorMode (mergeRuntimeConfig partialConfig)
        \<in> {lit ''best-effort'', lit ''required'', lit ''off''} \<and>
      isFiniteIntegerInRange (cfg_maxReactStackFrames (mergeRuntimeConfig partialConfig)) 1 64"
    using createGrabrClient_ok [of numberToString inBrowser partialConfig]
      validateRuntimeConfigOrThrow_ok [of numberToString "mergeRuntimeConfig partialConfig"]
    by blast
  show ?thesis
    using engine ctx client by blast
qed

theorem createInspectorEngine_no_validation_witness:
  "cfg_maxReactStackFrames (mergeRuntimeConfig (Some invalidConfig)) = 0 \<and>
   cfg_reactInspectorMode (mergeRuntimeConfig (Some invalidConfig)) = lit ''bogus'' \<and>
   createInspectorEngine (Some invalidConfig)
     = Inr \<lparr> ie_config = mergeRuntimeConfig (Some invalidConfig) \<rparr> \<and>
   unguardedCallsReturn quietBippy (mergeRuntimeConfig (Some invalidConfig)) \<and>
   el_className (sampleDocument 3) \<noteq> None \<and>
   (\<exists>ctx. getElementContext (sampleBrowser quietBippy)
            \<lparr> ie_config = mergeRuntimeConfig (Some invalidConfig) \<rparr> 3 = Inr ctx) \<and>
   \<not> (\<exists>client. createGrabrClient (\<lambda>x. showInt \<lfloor>x\<rfloor>) True (Some invalidConfig) = Inr client)"
proof -
  have m: "cfg_maxReactStackFrames (mergeRuntimeConfig (Some invalidConfig)) = 0"
          "cfg_reactInspectorMode (mergeRuntimeConfig (Some invalidConfig)) = lit ''bogus''"
    by (simp_all add: mergeRuntimeConfig_def invalidConfig_def)
  have U: "unguardedCallsReturn quietBippy (mergeRuntimeConfig (Some invalidConfig))"
    by (auto simp add: unguardedCallsReturn_def quietBippy_def mergeRuntimeConfig_def
        invalidConfig_def defaultHeuristics_def nextLikeFrameworkStrategy_def
        genericFrameworkStrategy_def basicDataSourceStrategy_def)
  have U': "unguardedCallsReturn (br_bippy (sampleBrowser quietBippy))
              (mergeRuntimeConfig (Some invalidConfig))"
    using U by (simp add: sampleBrowser_def)
  have r: "\<not> isFiniteIntegerInRange (cfg_maxReactStackFrames (mergeRuntimeConfig (Some invalidConfig))) 1 64"
    by (simp add: m isFiniteIntegerInRange_def)
  have c: "el_className (sampleDocument 3) \<noteq> None"
    by (simp add: sampleDocument_def bareElement_def)
  have c': "el_className (br_document (sampleBrowser quietBippy) 3) \<noteq> None"
    using c by (simp add: sampleBrowser_def)
  from createInspectorEngine_no_validation
         [of "Some invalidConfig" "sampleBrowser quietBippy" 3 "\<lambda>x. showInt \<lfloor>x\<rfloor>" True]
  show ?thesis using m U U' r c c' by blast
qed

section \<open>Prompt rendering\<close>

subsection \<open>Checksum\<close>

text \<open>
  \<open>promptChecksum(input)\<close>. The loop keeps \<open>hash\<close> a 32-bit integer: \<open>(hash << 5) - hash +
  charCode\<close> is exact as a number and \<open>hash |= 0\<close> takes it modulo \<open>2^32\<close>, which is the
  arithmetic of \<open>32 word\<close>. \<open>hash >>> 0\<close> reads the word unsigned, \<open>Math.abs\<close> leaves it, and
  \<open>toString(16)\<close> writes it in lower-case hexadecimal digits without leading zeros.
\<close>

definition hexDigit :: "nat \<Rightarrow> 16 word" where
  "hexDigit d = (if d < 10 then 0x30 + of_nat d else 0x57 + of_nat d)"

function toHexString :: "nat \<Rightarrow> jsstring" where
  "toHexString n =
     (if n < 16 then [hexDigit n]
      else toHexString (n div 16) @ [hexDigit (n mod 16)])"
  by pat_completeness auto
termination
  by (relation "measure id") auto

declare toHexString.simps [simp del]

fun checksumLoop :: "jsstring \<Rightarrow> 32 word \<Rightarrow> 32 word" where
  "checksumLoop [] hash = hash"
| "checksumLoop (c # cs) hash = checksumLoop cs (push_bit 5 hash - hash + ucast c)"

definition promptChecksum :: "jsstring \<Rightarrow> jsstring" where
  "promptChecksum input = toHexString (unat (checksumLoop input 0))"

subsection \<open>Values handed to \<open>JSON.stringify\<close>\<close>

text \<open>
  The values that the renderer serializes are plain data: \<open>null\<close>, strings, numbers,
  booleans, arrays and objects with their properties in order; \<open>JsonUndefined\<close> is what the
  replacer returns for a dropped value. \<open>stringifyValue\<close> is \<open>JSON.stringify\<close> on such a
  value, \<open>None\<close> being \<open>undefined\<close>: a property whose value is \<open>undefined\<close> is left out of
  its object, an \<open>undefined\<close> array element is written \<open>null\<close>. The two printers of the
  language that it needs, of a number and of a quoted string, are the fields of
  \<open>JsonPrinter\<close>.
\<close>

datatype json =
    JsonNull
  | JsonUndefined
  | JsonStr jsstring
  | JsonNum real
  | JsonBool bool
  | JsonArr "json list"
  | JsonObj "(jsstring \<times> json) list"

record JsonPrinter =
  jp_numberToString :: "real \<Rightarrow> jsstring"
  jp_quoteJSONString :: "jsstring \<Rightarrow> jsstring"

fun stringifyValue :: "JsonPrinter \<Rightarrow> json \<Rightarrow> jsstring option" where
  "stringifyValue P JsonNull = Some (lit ''null'')"
| "stringifyValue P JsonUndefined = None"
| "stringifyValue P (JsonStr s) = Some (jp_quoteJSONString P s)"
| "stringifyValue P (JsonNum n) = Some (jp_numberToString P n)"
| "stringifyValue P (JsonBool b) = Some (if b then lit ''true'' else lit ''false'')"
| "stringifyValue P (JsonArr xs) =
     Some (lit ''['' @
           joinWith (lit '','')
             (map (\<lambda>x. case stringifyValue P x of None \<Rightarrow> lit ''null'' | Some s \<Rightarrow> s) xs) @
           lit '']'')"
| "stringifyValue P (JsonObj es) =
     Some (lit ''{'' @
           joinWith (lit '','')
             (concat (map (\<lambda>(k, x). case stringifyValue P x of
                                         None \<Rightarrow> []
                                       | Some s \<Rightarrow> [jp_quoteJSONString P k @ lit '':'' @ s]) es)) @
           lit ''}'')"

text \<open>
  The replacer of \<open>stringifyForPrompt\<close> is called on every property and element of the
  value, the value itself included: it turns \<open>null\<close> into \<open>undefined\<close> when \<open>dropNull\<close> holds
  and returns anything else as it is.
\<close>

fun replaceForPrompt :: "bool \<Rightarrow> json \<Rightarrow> json" where
  "replaceForPrompt dropNull JsonNull = (if dropNull then JsonUndefined else JsonNull)"
| "replaceForPrompt dropNull (JsonArr xs) = JsonArr (map (replaceForPrompt dropNull) xs)"
| "replaceForPrompt dropNull (JsonObj es) =
     JsonObj (map (\<lambda>(k, x). (k, replaceForPrompt dropNull x)) es)"
| "replaceForPrompt dropNull JsonUndefined = JsonUndefined"
| "replaceForPrompt dropNull (JsonStr s) = JsonStr s"
| "replaceForPrompt dropNull (JsonNum n) = JsonNum n"
| "replaceForPrompt dropNull (JsonBool b) = JsonBool b"

definition stringifyForPrompt :: "JsonPrinter \<Rightarrow> json \<Rightarrow> bool \<Rightarrow> jsstring option" where
  "stringifyForPrompt P v dropNull = stringifyValue P (replaceForPrompt dropNull v)"

record LineOptions =
  lo_dropNull :: "bool option"
  lo_allowEmpty :: "bool option"

definition maybeAddLine ::
  "JsonPrinter \<Rightarrow> jsstring list \<Rightarrow> jsstring \<Rightarrow> json \<Rightarrow> LineOptions option \<Rightarrow> jsstring list" where
  "maybeAddLine P lines key v options =
     (let dropNull = (case options of
                        None \<Rightarrow> True
                      | Some opts \<Rightarrow> (case lo_dropNull opts of Some d \<Rightarrow> d | None \<Rightarrow> True));
          allowEmpty = (case options of
                          None \<Rightarrow> False
                        | Some opts \<Rightarrow> (case lo_allowEmpty opts of Some a \<Rightarrow> a | None \<Rightarrow> False))
      in if (v = JsonNull \<or> v = JsonUndefined) \<and> dropNull then lines
         else
           (let serialized = stringifyForPrompt P v dropNull
            in if \<not> allowEmpty \<and>
                  (serialized = Some (lit ''{}'') \<or> serialized = Some (lit ''[]''))
               then lines
               else lines @
                      [key @ lit ''='' @
                       (case serialized of Some s \<Rightarrow> s | None \<Rightarrow> lit ''undefined'')]))"

subsection \<open>The context as \<open>JSON.stringify\<close> reads it\<close>

text \<open>
  Each record of the schema as the object it models, its properties in the order of its
  interface, which is the order in which the builders of the engine write them. The two
  optional properties, \<open>ruleSummaries\<close> and \<open>tests\<close>, are absent from the object when unset.
\<close>

definition jsonOpt :: "('a \<Rightarrow> json) \<Rightarrow> 'a option \<Rightarrow> json" where
  "jsonOpt f x = (case x of None \<Rightarrow> JsonNull | Some y \<Rightarrow> f y)"

fun jsonOfSerializable :: "sval \<Rightarrow> json" where
  "jsonOfSerializable (SStr s) = JsonStr s"
| "jsonOfSerializable (SNum n) = JsonNum n"
| "jsonOfSerializable (SBool b) = JsonBool b"
| "jsonOfSerializable (SArr xs) = JsonArr (map jsonOfSerializable xs)"
| "jsonOfSerializable (SObj es) = JsonObj (map (\<lambda>(k, x). (k, jsonOfSerializable x)) es)"

fun sourceConfidenceName :: "SourceConfidence \<Rightarrow> jsstring" where
  "sourceConfidenceName ConfidenceNone = lit ''none''"
| "sourceConfidenceName ConfidenceLow = lit ''low''"
| "sourceConfidenceName ConfidenceMedium = lit ''medium''"
| "sourceConfidenceName ConfidenceHigh = lit ''high''"

fun sourceOriginName :: "SourceOrigin \<Rightarrow> jsstring" where
  "sourceOriginName OriginBippy = lit ''bippy''"
| "sourceOriginName OriginSourcemap = lit ''sourcemap''"
| "sourceOriginName OriginInline = lit ''inline''"
| "sourceOriginName OriginUnknown = lit ''unknown''"

fun highlightReasonName :: "HighlightReason \<Rightarrow> jsstring" where
  "highlightReasonName ReasonText = lit ''text''"
| "highlightReasonName ReasonDesign = lit ''design''"
| "highlightReasonName ReasonChildren = lit ''children''"
| "highlightReasonName ReasonTestId = lit ''test-id''"
| "highlightReasonName ReasonAriaLabel = lit ''aria-label''"
| "highlightReasonName ReasonOther = lit ''other''"

fun ruleOriginName :: "RuleOrigin \<Rightarrow> jsstring" where
  "ruleOriginName RuleAuthor = lit ''author''"
| "ruleOriginName RuleUserAgent = lit ''user-agent''"
| "ruleOriginName RuleInline = lit ''inline''"
| "ruleOriginName RuleUnknown = lit ''unknown''"

fun inferenceLevelName :: "BehaviorInferenceLevel \<Rightarrow> jsstring" where
  "inferenceLevelName InferenceNone = lit ''none''"
| "inferenceLevelName InferencePropNameOnly = lit ''prop-name-only''"

fun inferenceSourceName :: "BehaviorInferenceSource \<Rightarrow> jsstring" where
  "inferenceSourceName FromPropName = lit ''prop-name''"
| "inferenceSourceName FromRuntimeHook = lit ''runtime-hook''"

fun dataSourceKindName :: "DataSourceKind \<Rightarrow> jsstring" where
  "dataSourceKindName DsReactQuery = lit ''react-query''"
| "dataSourceKindName DsSwr = lit ''swr''"
| "dataSourceKindName DsRedux = lit ''redux''"
| "dataSourceKindName DsTrpc = lit ''trpc''"
| "dataSourceKindName DsCustom = lit ''custom''"
| "dataSourceKindName DsUnknown = lit ''unknown''"

fun frameworkName :: "InferredFramework \<Rightarrow> jsstring" where
  "frameworkName NextApp = lit ''next-app''"
| "frameworkName NextPages = lit ''next-pages''"
| "frameworkName Remix = lit ''remix''"
| "frameworkName ReactRouter = lit ''react-router''"
| "frameworkName UnknownFramework = lit ''unknown''"

fun testHintTypeName :: "TestHintType \<Rightarrow> jsstring" where
  "testHintTypeName HintTest = lit ''test''"
| "testHintTypeName HintStory = lit ''story''"
| "testHintTypeName HintCommand = lit ''command''"

fun buildTypeName :: "ReactBuildType \<Rightarrow> jsstring" where
  "buildTypeName BuildDevelopment = lit ''development''"
| "buildTypeName BuildProduction = lit ''production''"
| "buildTypeName BuildUnknown = lit ''unknown''"

fun inspectorStatusName :: "ReactInspectorStatus \<Rightarrow> jsstring" where
  "inspectorStatusName StatusOk = lit ''ok''"
| "inspectorStatusName StatusNoHook = lit ''no-hook''"
| "inspectorStatusName StatusInactive = lit ''inactive''"
| "inspectorStatusName StatusNoFiber = lit ''no-fiber''"
| "inspectorStatusName StatusError = lit ''error''"

definition jsonOfSourceLocation :: "SourceLocation \<Rightarrow> json" where
  "jsonOfSourceLocation r =
     JsonObj
       [(lit ''fileName'', JsonStr (sl_fileName r)),
        (lit ''lineNumber'', jsonOpt JsonNum (sl_lineNumber r)),
        (lit ''columnNumber'', jsonOpt JsonNum (sl_columnNumber r)),
        (lit ''confidence'', JsonStr (sourceConfidenceName (sl_confidence r))),
        (lit ''origin'', JsonStr (sourceOriginName (sl_origin r)))]"

definition jsonOfBoundingBox :: "BoundingBox \<Rightarrow> json" where
  "jsonOfBoundingBox r =
     JsonObj
       [(lit ''x'', JsonNum (bb_x r)),
        (lit ''y'', JsonNum (bb_y r)),
        (lit ''width'', JsonNum (bb_width r)),
        (lit ''height'', JsonNum (bb_height r))]"

definition jsonOfSelectionIdentity :: "SelectionIdentity \<Rightarrow> json" where
  "jsonOfSelectionIdentity r =
     JsonObj
       [(lit ''tag'', JsonStr (si_tag r)),
        (lit ''id'', jsonOpt JsonStr (si_id r)),
        (lit ''dataTestId'', jsonOpt JsonStr (si_dataTestId r)),
        (lit ''role'', jsonOpt JsonStr (si_role r)),
        (lit ''classes'', JsonArr (map JsonStr (si_classes r)))]"

definition jsonOfSelectionInfo :: "SelectionInfo \<Rightarrow> json" where
  "jsonOfSelectionInfo r =
     JsonObj
       [(lit ''tag'', JsonStr (sel_tag r)),
        (lit ''boundingBox'', jsonOfBoundingBox (sel_boundingBox r)),
        (lit ''identity'', jsonOfSelectionIdentity (sel_identity r)),
        (lit ''componentDisplayName'', jsonOpt JsonStr (sel_componentDisplayName r)),
        (lit ''nearestSource'', jsonOpt jsonOfSourceLocation (sel_nearestSource r)),
        (lit ''isLikelyServerComponent'', jsonOpt JsonBool (sel_isLikelyServerComponent r))]"

definition jsonOfDomNodeSummary :: "DomNodeSummary \<Rightarrow> json" where
  "jsonOfDomNodeSummary r =
     JsonObj
       [(lit ''tag'', JsonStr (dn_tag r)),
        (lit ''id'', jsonOpt JsonStr (dn_id r)),
        (lit ''dataTestId'', jsonOpt JsonStr (dn_dataTestId r)),
        (lit ''classes'', JsonArr (map JsonStr (dn_classes r))),
        (lit ''textSnippet'', jsonOpt JsonStr (dn_textSnippet r))]"

definition jsonOfSiblingSummary :: "SiblingSummary \<Rightarrow> json" where
  "jsonOfSiblingSummary r =
     JsonObj
       [(lit ''index'', JsonNum (real_of_int (sib_index r))),
        (lit ''total'', JsonNum (real (sib_total r))),
        (lit ''previous'', jsonOpt jsonOfDomNodeSummary (sib_previous r)),
        (lit ''next'', jsonOpt jsonOfDomNodeSummary (sib_next r))]"

definition jsonOfChildSummary :: "ChildSummary \<Rightarrow> json" where
  "jsonOfChildSummary r =
     JsonObj
       [(lit ''totalChildren'', JsonNum (real (ch_totalChildren r))),
        (lit ''tagCounts'', JsonObj (map (\<lambda>(tag, n). (tag, JsonNum (real n))) (ch_tagCounts r))),
        (lit ''samples'', JsonArr (map jsonOfDomNodeSummary (ch_samples r)))]"

definition jsonOfSelectors :: "Selectors \<Rightarrow> json" where
  "jsonOfSelectors r =
     JsonObj
       [(lit ''preferred'', JsonStr (sels_preferred r)),
        (lit ''all'', JsonArr (map JsonStr (sels_all r)))]"

definition jsonOfDomNeighborhood :: "DomNeighborhood \<Rightarrow> json" where
  "jsonOfDomNeighborhood r =
     JsonObj
       [(lit ''snippet'', JsonStr (dom_snippet r)),
        (lit ''parents'', JsonArr (map jsonOfDomNodeSummary (dom_parents r))),
        (lit ''siblings'', jsonOfSiblingSummary (dom_siblings r)),
        (lit ''children'', jsonOfChildSummary (dom_children r)),
        (lit ''selectors'', jsonOfSelectors (dom_selectors r))]"

definition jsonOfComponentFlags :: "ComponentFlags \<Rightarrow> json" where
  "jsonOfComponentFlags r =
     JsonObj
       [(lit ''isHost'', JsonBool (cf_isHost r)),
        (lit ''isComposite'', JsonBool (cf_isComposite r)),
        (lit ''isSuspenseBoundary'', jsonOpt JsonBool (cf_isSuspenseBoundary r)),
        (lit ''isErrorBoundary'', jsonOpt JsonBool (cf_isErrorBoundary r)),
        (lit ''isServerComponent'', jsonOpt JsonBool (cf_isServerComponent r)),
        (lit ''isLayoutLike'', jsonOpt JsonBool (cf_isLayoutLike r))]"

definition jsonOfPropHighlight :: "PropHighlight \<Rightarrow> json" where
  "jsonOfPropHighlight r =
     JsonObj
       [(lit ''name'', JsonStr (ph_name r)),
        (lit ''value'', jsonOpt jsonOfSerializable (ph_value r)),
        (lit ''reason'', JsonStr (highlightReasonName (ph_reason r)))]"

definition jsonOfPropsSnapshot :: "PropsSnapshot \<Rightarrow> json" where
  "jsonOfPropsSnapshot r =
     JsonObj
       [(lit ''totalProps'', JsonNum (real (ps_totalProps r))),
        (lit ''highlighted'', JsonArr (map jsonOfPropHighlight (ps_highlighted r)))]"

definition jsonOfStateSnapshotEntry :: "StateSnapshotEntry \<Rightarrow> json" where
  "jsonOfStateSnapshotEntry r =
     JsonObj
       [(lit ''hookIndex'', JsonNum (real (sse_hookIndex r))),
        (lit ''value'', jsonOpt jsonOfSerializable (sse_value r))]"

definition jsonOfStateSnapshot :: "StateSnapshot \<Rightarrow> json" where
  "jsonOfStateSnapshot r =
     JsonObj
       [(lit ''totalHooks'', JsonNum (real (ss_totalHooks r))),
        (lit ''entries'', JsonArr (map jsonOfStateSnapshotEntry (ss_entries r)))]"

definition jsonOfContextEntry :: "ContextEntry \<Rightarrow> json" where
  "jsonOfContextEntry r =
     JsonObj
       [(lit ''index'', JsonNum (real (ce_index r))),
        (lit ''value'', jsonOpt jsonOfSerializable (ce_value r))]"

definition jsonOfContextSnapshot :: "ContextSnapshot \<Rightarrow> json" where
  "jsonOfContextSnapshot r =
     JsonObj
       [(lit ''totalContexts'', JsonNum (real (cs_totalContexts r))),
        (lit ''entries'', JsonArr (map jsonOfContextEntry (cs_entries r)))]"

definition jsonOfReactComponentFrame :: "ReactComponentFrame \<Rightarrow> json" where
  "jsonOfReactComponentFrame r =
     JsonObj
       [(lit ''displayName'', jsonOpt JsonStr (rf_displayName r)),
        (lit ''isHost'', JsonBool (rf_isHost r)),
        (lit ''source'', jsonOpt jsonOfSourceLocation (rf_source r)),
        (lit ''flags'', jsonOfComponentFlags (rf_flags r))]"

definition jsonOfReactTreeSlice :: "ReactTreeSlice \<Rightarrow> json" where
  "jsonOfReactTreeSlice r =
     JsonObj
       [(lit ''stack'', JsonArr (map jsonOfReactComponentFrame (rs_stack r))),
        (lit ''ownerIndex'', jsonOpt (\<lambda>n. JsonNum (real n)) (rs_ownerIndex r)),
        (lit ''ownerProps'', jsonOpt jsonOfPropsSnapshot (rs_ownerProps r)),
        (lit ''ownerState'', jsonOpt jsonOfStateSnapshot (rs_ownerState r)),
        (lit ''ownerContexts'', jsonOpt jsonOfContextSnapshot (rs_ownerContexts r))]"

definition jsonOfMatchedRuleSummary :: "MatchedRuleSummary \<Rightarrow> json" where
  "jsonOfMatchedRuleSummary r =
     JsonObj
       [(lit ''selector'', JsonStr (mr_selector r)),
        (lit ''origin'', JsonStr (ruleOriginName (mr_origin r))),
        (lit ''specificity'', JsonStr (mr_specificity r)),
        (lit ''importantCount'', JsonNum (real (mr_importantCount r)))]"

definition jsonOfStyleLayout :: "StyleLayout \<Rightarrow> json" where
  "jsonOfStyleLayout r =
     JsonObj
       [(lit ''display'', jsonOpt JsonStr (ly_display r)),
        (lit ''position'', jsonOpt JsonStr (ly_position r)),
        (lit ''flexDirection'', jsonOpt JsonStr (ly_flexDirection r)),
        (lit ''justifyContent'', jsonOpt JsonStr (ly_justifyContent r)),
        (lit ''alignItems'', jsonOpt JsonStr (ly_alignItems r)),
        (lit ''gap'', jsonOpt JsonStr (ly_gap r)),
        (lit ''gridTemplateColumns'', jsonOpt JsonStr (ly_gridTemplateColumns r)),
        (lit ''gridTemplateRows'', jsonOpt JsonStr (ly_gridTemplateRows r))]"

definition jsonOfStyleSpacing :: "StyleSpacing \<Rightarrow> json" where
  "jsonOfStyleSpacing r =
     JsonObj
       [(lit ''margin'', jsonOpt JsonStr (sp_margin r)),
        (lit ''padding'', jsonOpt JsonStr (sp_padding r))]"

definition jsonOfStyleSize :: "StyleSize \<Rightarrow> json" where
  "jsonOfStyleSize r =
     JsonObj
       [(lit ''width'', jsonOpt JsonStr (sz_width r)),
        (lit ''height'', jsonOpt JsonStr (sz_height r))]"

definition jsonOfStyleTypography :: "StyleTypography \<Rightarrow> json" where
  "jsonOfStyleTypography r =
     JsonObj
       [(lit ''fontFamily'', jsonOpt JsonStr (ty_fontFamily r)),
        (lit ''fontSize'', jsonOpt JsonStr (ty_fontSize r)),
        (lit ''fontWeight'', jsonOpt JsonStr (ty_fontWeight r)),
        (lit ''lineHeight'', jsonOpt JsonStr (ty_lineHeight r))]"

definition jsonOfStyleColors :: "StyleColors \<Rightarrow> json" where
  "jsonOfStyleColors r =
     JsonObj
       [(lit ''color'', jsonOpt JsonStr (co_color r)),
        (lit ''backgroundColor'', jsonOpt JsonStr (co_backgroundColor r)),
        (lit ''borderColor'', jsonOpt JsonStr (co_borderColor r))]"

definition jsonOfStyleFrame :: "StyleFrame \<Rightarrow> json" where
  "jsonOfStyleFrame r =
     JsonObj
       ([(lit ''layout'', jsonOfStyleLayout (st_layout r)),
        (lit ''spacing'', jsonOfStyleSpacing (st_spacing r)),
        (lit ''size'', jsonOfStyleSize (st_size r)),
        (lit ''typography'', jsonOfStyleTypography (st_typography r)),
        (lit ''colors'', jsonOfStyleColors (st_colors r)),
        (lit ''clickable'', JsonBool (st_clickable r))] @
        (case st_ruleSummaries r of None \<Rightarrow> [] | Some x \<Rightarrow> [(lit ''ruleSummaries'', JsonArr (map jsonOfMatchedRuleSummary (x)))]))"

definition jsonOfEventHandlerInfo :: "EventHandlerInfo \<Rightarrow> json" where
  "jsonOfEventHandlerInfo r =
     JsonObj
       [(lit ''propName'', JsonStr (eh_propName r)),
        (lit ''inferredKind'', JsonStr (eventKindName (eh_inferredKind r))),
        (lit ''functionName'', jsonOpt JsonStr (eh_functionName r)),
        (lit ''declaredOnComponent'', jsonOpt JsonStr (eh_declaredOnComponent r)),
        (lit ''source'', jsonOpt jsonOfSourceLocation (eh_source r)),
        (lit ''comment'', jsonOpt JsonStr (eh_comment r)),
        (lit ''inferenceSource'', JsonStr (inferenceSourceName (eh_inferenceSource r)))]"

definition jsonOfBehaviorContext :: "BehaviorContext \<Rightarrow> json" where
  "jsonOfBehaviorContext r =
     JsonObj
       [(lit ''inferenceLevel'', JsonStr (inferenceLevelName (bc_inferenceLevel r))),
        (lit ''handlers'', JsonArr (map jsonOfEventHandlerInfo (bc_handlers r)))]"

definition jsonOfDataSourceHint :: "DataSourceHint \<Rightarrow> json" where
  "jsonOfDataSourceHint r =
     JsonObj
       [(lit ''kind'', JsonStr (dataSourceKindName (ds_kind r))),
        (lit ''identifier'', jsonOpt JsonStr (ds_identifier r)),
        (lit ''description'', jsonOpt JsonStr (ds_description r))]"

definition jsonOfAppContext :: "AppContext \<Rightarrow> json" where
  "jsonOfAppContext r =
     JsonObj
       [(lit ''url'', JsonStr (app_url r)),
        (lit ''pathname'', JsonStr (app_pathname r)),
        (lit ''search'', JsonStr (app_search r)),
        (lit ''hash'', JsonStr (app_hash r)),
        (lit ''framework'', JsonStr (frameworkName (app_framework r))),
        (lit ''routePatternGuess'', jsonOpt JsonStr (app_routePatternGuess r)),
        (lit ''routeParamsGuess'', jsonOpt (\<lambda>params. JsonObj (map (\<lambda>(name, v). (name, JsonStr v)) params)) (app_routeParamsGuess r)),
        (lit ''pageComponent'', jsonOpt jsonOfSourceLocation (app_pageComponent r)),
        (lit ''layoutComponents'', JsonArr (map jsonOfSourceLocation (app_layoutComponents r))),
        (lit ''dataSources'', JsonArr (map jsonOfDataSourceHint (app_dataSources r)))]"

definition jsonOfTestHint :: "TestHint \<Rightarrow> json" where
  "jsonOfTestHint r =
     JsonObj
       [(lit ''type'', JsonStr (testHintTypeName (th_type r))),
        (lit ''location'', jsonOfSourceLocation (th_location r)),
        (lit ''description'', jsonOpt JsonStr (th_description r))]"

definition jsonOfTestsBlock :: "TestsBlock \<Rightarrow> json" where
  "jsonOfTestsBlock r =
     JsonObj
       [(lit ''hints'', JsonArr (map jsonOfTestHint (tb_hints r)))]"

definition jsonOfReactDebugInfo :: "ReactDebugInfo \<Rightarrow> json" where
  "jsonOfReactDebugInfo r =
     JsonObj
       [(lit ''buildType'', JsonStr (buildTypeName (rd_buildType r))),
        (lit ''inspectorStatus'', JsonStr (inspectorStatusName (rd_inspectorStatus r))),
        (lit ''message'', jsonOpt JsonStr (rd_message r))]"

definition jsonOfElementContext :: "ElementContextV2 \<Rightarrow> json" where
  "jsonOfElementContext ctx =
     JsonObj
       ([(lit ''version'', JsonNum 2),
         (lit ''selection'', jsonOfSelectionInfo (ec_selection ctx)),
         (lit ''dom'', jsonOfDomNeighborhood (ec_dom ctx)),
         (lit ''react'', jsonOpt jsonOfReactTreeSlice (ec_react ctx)),
         (lit ''reactDebug'', jsonOfReactDebugInfo (ec_reactDebug ctx)),
         (lit ''styling'', jsonOfStyleFrame (ec_styling ctx)),
         (lit ''behavior'', jsonOfBehaviorContext (ec_behavior ctx)),
         (lit ''app'', jsonOfAppContext (ec_app ctx))] @
        (case ec_tests ctx of None \<Rightarrow> [] | Some t \<Rightarrow> [(lit ''tests'', jsonOfTestsBlock t)]))"

subsection \<open>Formatters\<close>

definition formatSourceForPrompt :: "SourceLocation option \<Rightarrow> json" where
  "formatSourceForPrompt source =
     (case source of
        None \<Rightarrow> JsonNull
      | Some src \<Rightarrow>
          JsonObj
            ([(lit ''file'', JsonStr (sl_fileName src)),
              (lit ''confidence'', JsonStr (sourceConfidenceName (sl_confidence src))),
              (lit ''origin'', JsonStr (sourceOriginName (sl_origin src)))] @
             (case sl_lineNumber src of None \<Rightarrow> [] | Some n \<Rightarrow> [(lit ''line'', JsonNum n)]) @
             (case sl_columnNumber src of None \<Rightarrow> [] | Some n \<Rightarrow> [(lit ''col'', JsonNum n)])))"

definition deriveSelectionId :: "ElementContextV2 \<Rightarrow> jsstring" where
  "deriveSelectionId ctx =
     (let s = ec_selection ctx;
          parts =
            [case si_id (sel_identity s) of Some i \<Rightarrow> i | None \<Rightarrow> [],
             case si_dataTestId (sel_identity s) of Some t \<Rightarrow> t | None \<Rightarrow> [],
             sel_tag s,
             case sel_componentDisplayName s of Some n \<Rightarrow> n | None \<Rightarrow> [],
             case sel_nearestSource s of Some src \<Rightarrow> sl_fileName src | None \<Rightarrow> [],
             showInt (mathRound (bb_x (sel_boundingBox s))),
             showInt (mathRound (bb_y (sel_boundingBox s)))]
      in lit ''sel_'' @ promptChecksum (joinWith (lit ''|'') parts))"

definition formatReactStack :: "ReactTreeSlice \<Rightarrow> json" where
  "formatReactStack react =
     JsonArr
       (map (\<lambda>(frame, idx).
               JsonObj
                 ([(lit ''idx'', JsonNum (real idx)),
                   (lit ''displayName'',
                      JsonStr (case rf_displayName frame of Some n \<Rightarrow> n | None \<Rightarrow> lit ''<host>'')),
                   (lit ''isHost'', JsonBool (rf_isHost frame)),
                   (lit ''source'', formatSourceForPrompt (rf_source frame)),
                   (lit ''flags'', jsonOfComponentFlags (rf_flags frame))] @
                  (if rs_ownerIndex react = Some idx then [(lit ''owner'', JsonBool True)] else [])))
          (zip (rs_stack react) [0..<length (rs_stack react)]))"

definition formatPropsSnapshot :: "PropsSnapshot option \<Rightarrow> json" where
  "formatPropsSnapshot snapshot =
     (case snapshot of
        None \<Rightarrow> JsonNull
      | Some snap \<Rightarrow>
          JsonObj
            [(lit ''total'', JsonNum (real (ps_totalProps snap))),
             (lit ''highlighted'',
                JsonArr (map (\<lambda>h. JsonObj
                                [(lit ''name'', JsonStr (ph_name h)),
                                 (lit ''reason'', JsonStr (highlightReasonName (ph_reason h))),
                                 (lit ''value'', jsonOpt jsonOfSerializable (ph_value h))])
                           (ps_highlighted snap)))])"

definition formatStateSnapshot :: "StateSnapshot option \<Rightarrow> json" where
  "formatStateSnapshot snapshot =
     (case snapshot of
        None \<Rightarrow> JsonNull
      | Some snap \<Rightarrow>
          JsonObj
            [(lit ''total'', JsonNum (real (ss_totalHooks snap))),
             (lit ''entries'', JsonArr (map jsonOfStateSnapshotEntry (ss_entries snap)))])"

definition formatContextSnapshot :: "ContextSnapshot option \<Rightarrow> json" where
  "formatContextSnapshot snapshot =
     (case snapshot of
        None \<Rightarrow> JsonNull
      | Some snap \<Rightarrow>
          JsonObj
            [(lit ''total'', JsonNum (real (cs_totalContexts snap))),
             (lit ''entries'', JsonArr (map jsonOfContextEntry (cs_entries snap)))])"

definition formatBehaviorHandlers :: "EventHandlerInfo list \<Rightarrow> json" where
  "formatBehaviorHandlers handlers =
     JsonArr
       (map (\<lambda>h. JsonObj
               [(lit ''prop'', JsonStr (eh_propName h)),
                (lit ''kind'', JsonStr (eventKindName (eh_inferredKind h))),
                (lit ''fn'',
                   JsonStr (case eh_functionName h of Some n \<Rightarrow> n | None \<Rightarrow> lit ''anonymous'')),
                (lit ''component'',
                   JsonStr (case eh_declaredOnComponent h of Some n \<Rightarrow> n | None \<Rightarrow> lit ''unknown'')),
                (lit ''source'', formatSourceForPrompt (eh_source h)),
                (lit ''inference'', JsonStr (inferenceSourceName (eh_inferenceSource h)))])
          handlers)"

subsection \<open>The renderer\<close>

text \<open>
  \<open>renderElementContextPrompt\<close> pushes lines onto an array of its own and joins them with a
  line feed; the array is passed along here. \<open>pushSection name body lines\<close> is one call of
  the local \<open>section\<close>: the opening marker, the lines of \<open>body\<close>, the closing marker.
  \<open>lineOptions d a\<close> is the options object, an omitted property being \<open>None\<close>. The checksum
  is taken of \<open>stringifyForPrompt(context, false)\<close>; were that \<open>undefined\<close>, reading its
  \<open>length\<close> would throw. \<open>reactDebug\<close> is a mandatory property of the context, so the
  default that the renderer holds for a missing one is never taken.
\<close>

definition lineOptions :: "bool option \<Rightarrow> bool option \<Rightarrow> LineOptions option" where
  "lineOptions d a = Some \<lparr> lo_dropNull = d, lo_allowEmpty = a \<rparr>"

definition pushSection ::
  "jsstring \<Rightarrow> (jsstring list \<Rightarrow> jsstring list) \<Rightarrow> jsstring list \<Rightarrow> jsstring list" where
  "pushSection name body lines =
     body (lines @ [lit ''[section:'' @ name @ lit '']'']) @ [lit ''[end:'' @ name @ lit '']'']"

definition openingTag :: "jsstring \<Rightarrow> jsstring \<Rightarrow> jsstring" where
  "openingTag selectionId checksum =
     lit ''<ai_grab_selection v='' @ [0x22] @ lit ''2'' @ [0x22] @ lit '' sel_id='' @ [0x22] @
     selectionId @ [0x22] @ lit '' checksum='' @ [0x22] @ checksum @ [0x22] @ lit ''>''"

definition closingTag :: "jsstring \<Rightarrow> jsstring \<Rightarrow> jsstring" where
  "closingTag selectionId checksum =
     lit ''<ai_grab_selection_end sel_id='' @ [0x22] @ selectionId @ [0x22] @
     lit '' checksum='' @ [0x22] @ checksum @ [0x22] @ lit ''/>''"

definition metaSection ::
  "JsonPrinter \<Rightarrow> ElementContextV2 \<Rightarrow> jsstring \<Rightarrow> jsstring \<Rightarrow> jsstring list \<Rightarrow> jsstring list" where
  "metaSection P ctx selectionId checksum lines =
     (let reactDebug = ec_reactDebug ctx;
          lines = maybeAddLine P lines (lit ''version'') (JsonNum 2) (lineOptions (Some False) None);
          lines = maybeAddLine P lines (lit ''sel_id'') (JsonStr selectionId)
                    (lineOptions (Some False) None);
          lines = maybeAddLine P lines (lit ''checksum'') (JsonStr checksum)
                    (lineOptions (Some False) None);
          lines = maybeAddLine P lines (lit ''react_available'') (JsonBool (ec_react ctx \<noteq> None)) None;
          lines = maybeAddLine P lines (lit ''react_inspector_status'')
                    (JsonStr (inspectorStatusName (rd_inspectorStatus reactDebug))) None;
          lines = maybeAddLine P lines (lit ''react_build'')
                    (JsonStr (buildTypeName (rd_buildType reactDebug))) None;
          lines = maybeAddLine P lines (lit ''react_message'') (jsonOpt JsonStr (rd_message reactDebug))
                    (lineOptions (Some True) None);
          lines = maybeAddLine P lines (lit ''source_hint_present'')
                    (JsonBool (sel_nearestSource (ec_selection ctx) \<noteq> None)) None;
          lines = maybeAddLine P lines (lit ''tests_present'')
                    (JsonBool (case ec_tests ctx of
                                 None \<Rightarrow> False
                               | Some t \<Rightarrow> length (tb_hints t) > 0)) None
      in lines)"

definition selectionSection :: "JsonPrinter \<Rightarrow> ElementContextV2 \<Rightarrow> jsstring list \<Rightarrow> jsstring list" where
  "selectionSection P ctx lines =
     (let s = ec_selection ctx;
          lines = maybeAddLine P lines (lit ''tag'') (JsonStr (sel_tag s)) (lineOptions (Some False) None);
          lines = maybeAddLine P lines (lit ''bounding_box'')
                    (JsonObj
                       [(lit ''x'', JsonNum (real_of_int (mathRound (bb_x (sel_boundingBox s))))),
                        (lit ''y'', JsonNum (real_of_int (mathRound (bb_y (sel_boundingBox s))))),
                        (lit ''w'', JsonNum (real_of_int (mathRound (bb_width (sel_boundingBox s))))),
                        (lit ''h'', JsonNum (real_of_int (mathRound (bb_height (sel_boundingBox s)))))])
                    (lineOptions (Some False) None);
          lines = maybeAddLine P lines (lit ''identity'')
                    (JsonObj
                       [(lit ''id'', jsonOpt JsonStr (si_id (sel_identity s))),
                        (lit ''dataTestId'', jsonOpt JsonStr (si_dataTestId (sel_identity s))),
                        (lit ''role'', jsonOpt JsonStr (si_role (sel_identity s))),
                        (lit ''classes'', JsonArr (map JsonStr (si_classes (sel_identity s))))])
                    (lineOptions (Some False) None);
          lines = maybeAddLine P lines (lit ''component'')
                    (jsonOpt JsonStr (sel_componentDisplayName s)) (lineOptions (Some True) None);
          lines = maybeAddLine P lines (lit ''nearest_source'')
                    (formatSourceForPrompt (sel_nearestSource s)) None;
          lines = maybeAddLine P lines (lit ''is_server_component'')
                    (jsonOpt JsonBool (sel_isLikelyServerComponent s)) None
      in lines)"

definition domSection :: "JsonPrinter \<Rightarrow> ElementContextV2 \<Rightarrow> jsstring list \<Rightarrow> jsstring list" where
  "domSection P ctx lines =
     (let dom = ec_dom ctx;
          lines = maybeAddLine P lines (lit ''snippet'') (JsonStr (dom_snippet dom))
                    (lineOptions (Some False) None);
          lines = maybeAddLine P lines (lit ''parents'')
                    (JsonArr (map jsonOfDomNodeSummary (dom_parents dom))) None;
          lines = maybeAddLine P lines (lit ''siblings'') (jsonOfSiblingSummary (dom_siblings dom)) None;
          lines = maybeAddLine P lines (lit ''children'') (jsonOfChildSummary (dom_children dom)) None;
          lines = maybeAddLine P lines (lit ''selectors'') (jsonOfSelectors (dom_selectors dom)) None
      in lines)"

definition reactSection :: "JsonPrinter \<Rightarrow> ElementContextV2 \<Rightarrow> jsstring list \<Rightarrow> jsstring list" where
  "reactSection P ctx lines =
     (let reactDebug = ec_reactDebug ctx;
          lines = maybeAddLine P lines (lit ''status'')
                    (JsonObj
                       [(lit ''available'', JsonBool (ec_react ctx \<noteq> None)),
                        (lit ''inspectorStatus'',
                           JsonStr (inspectorStatusName (rd_inspectorStatus reactDebug))),
                        (lit ''build'', JsonStr (buildTypeName (rd_buildType reactDebug))),
                        (lit ''message'', jsonOpt JsonStr (rd_message reactDebug))])
                    (lineOptions (Some True) None)
      in case ec_react ctx of
           None \<Rightarrow> lines
         | Some react \<Rightarrow>
             (let lines = maybeAddLine P lines (lit ''owner_index'')
                            (jsonOpt (\<lambda>n. JsonNum (real n)) (rs_ownerIndex react))
                            (lineOptions (Some False) None);
                  lines = maybeAddLine P lines (lit ''stack'') (formatReactStack react)
                            (lineOptions None (Some True));
                  lines = maybeAddLine P lines (lit ''owner_props'')
                            (formatPropsSnapshot (rs_ownerProps react)) (lineOptions None (Some True));
                  lines = maybeAddLine P lines (lit ''owner_state'')
                            (formatStateSnapshot (rs_ownerState react)) (lineOptions None (Some True));
                  lines = maybeAddLine P lines (lit ''owner_contexts'')
                            (formatContextSnapshot (rs_ownerContexts react))
                            (lineOptions None (Some True))
              in lines))"

definition stylingSection :: "JsonPrinter \<Rightarrow> ElementContextV2 \<Rightarrow> jsstring list \<Rightarrow> jsstring list" where
  "stylingSection P ctx lines =
     (let style = ec_styling ctx;
          lines = maybeAddLine P lines (lit ''layout'') (jsonOfStyleLayout (st_layout style))
                    (lineOptions (Some True) (Some False));
          lines = maybeAddLine P lines (lit ''spacing'') (jsonOfStyleSpacing (st_spacing style))
                    (lineOptions (Some True) (Some False));
          lines = maybeAddLine P lines (lit ''size'') (jsonOfStyleSize (st_size style))
                    (lineOptions (Some True) (Some False));
          lines = maybeAddLine P lines (lit ''typography'')
                    (jsonOfStyleTypography (st_typography style))
                    (lineOptions (Some True) (Some False));
          lines = maybeAddLine P lines (lit ''colors'') (jsonOfStyleColors (st_colors style))
                    (lineOptions (Some True) (Some False));
          lines = maybeAddLine P lines (lit ''clickable'') (JsonBool (st_clickable style))
                    (lineOptions (Some False) None)
      in lines)"

definition behaviorSection :: "JsonPrinter \<Rightarrow> ElementContextV2 \<Rightarrow> jsstring list \<Rightarrow> jsstring list" where
  "behaviorSection P ctx lines =
     (let lines = maybeAddLine P lines (lit ''inference_level'')
                    (JsonStr (inferenceLevelName (bc_inferenceLevel (ec_behavior ctx))))
                    (lineOptions (Some False) None);
          lines = maybeAddLine P lines (lit ''handlers'')
                    (formatBehaviorHandlers (bc_handlers (ec_behavior ctx)))
                    (lineOptions None (Some True))
      in lines)"

definition appSection :: "JsonPrinter \<Rightarrow> ElementContextV2 \<Rightarrow> jsstring list \<Rightarrow> jsstring list" where
  "appSection P ctx lines =
     (let app = ec_app ctx;
          lines = maybeAddLine P lines (lit ''url'')
                    (JsonObj
                       [(lit ''full'', JsonStr (app_url app)),
                        (lit ''pathname'', JsonStr (app_pathname app)),
                        (lit ''search'', JsonStr (app_search app)),
                        (lit ''hash'', JsonStr (app_hash app))])
                    (lineOptions (Some True) None);
          lines = maybeAddLine P lines (lit ''routing'')
                    (JsonObj
                       [(lit ''framework'', JsonStr (frameworkName (app_framework app))),
                        (lit ''routePatternGuess'', jsonOpt JsonStr (app_routePatternGuess app)),
                        (lit ''routeParamsGuess'',
                           jsonOpt (\<lambda>params. JsonObj (map (\<lambda>(name, v). (name, JsonStr v)) params))
                             (app_routeParamsGuess app)),
                        (lit ''pageComponent'', formatSourceForPrompt (app_pageComponent app)),
                        (lit ''layoutComponents'',
                           JsonArr (map (\<lambda>loc. formatSourceForPrompt (Some loc))
                                      (app_layoutComponents app)))])
                    (lineOptions (Some True) (Some True));
          lines = maybeAddLine P lines (lit ''data_sources'')
                    (JsonArr (map jsonOfDataSourceHint (app_dataSources app)))
                    (lineOptions None (Some True))
      in lines)"

definition testsSection :: "JsonPrinter \<Rightarrow> TestsBlock \<Rightarrow> jsstring list \<Rightarrow> jsstring list" where
  "testsSection P tests lines =
     maybeAddLine P lines (lit ''hints'') (JsonArr (map jsonOfTestHint (tb_hints tests)))
       (lineOptions None (Some True))"

definition contextChecksum :: "JsonPrinter \<Rightarrow> ElementContextV2 \<Rightarrow> thrown + jsstring" where
  "contextChecksum P ctx =
     (case stringifyForPrompt P (jsonOfElementContext ctx) False of
        None \<Rightarrow> Inl (ErrorObject (lit ''TypeError''))
      | Some serialized \<Rightarrow> Inr (promptChecksum serialized))"

definition renderElementContextPrompt :: "JsonPrinter \<Rightarrow> ElementContextV2 \<Rightarrow> thrown + jsstring" where
  "renderElementContextPrompt P ctx =
     (let selectionId = deriveSelectionId ctx
      in case contextChecksum P ctx of
           Inl e \<Rightarrow> Inl e
         | Inr checksum \<Rightarrow>
             (let lines = [];
                  lines = lines @ [openingTag selectionId checksum];
                  lines = pushSection (lit ''meta'') (metaSection P ctx selectionId checksum) lines;
                  lines = pushSection (lit ''selection'') (selectionSection P ctx) lines;
                  lines = pushSection (lit ''dom'') (domSection P ctx) lines;
                  lines = pushSection (lit ''react'') (reactSection P ctx) lines;
                  lines = pushSection (lit ''styling'') (stylingSection P ctx) lines;
                  lines = pushSection (lit ''behavior'') (behaviorSection P ctx) lines;
                  lines = pushSection (lit ''app'') (appSection P ctx) lines;
                  lines = (case ec_tests ctx of
                             None \<Rightarrow> lines
                           | Some tests \<Rightarrow> pushSection (lit ''tests'') (testsSection P tests) lines);
                  lines = lines @ [closingTag selectionId checksum]
              in Inr (joinWith [0x0A] lines)))"

subsection \<open>Reading a tag\<close>

text \<open>
  How a reader of the prompt finds the two tags and their attributes: the first line of
  the output is the text before the first line feed, the last line the text after the
  last one, and the value of the attribute \<open>name\<close> of a line is what stands between the
  first \<open>name="\<close> and the next quotation mark.
\<close>

definition firstLine :: "jsstring \<Rightarrow> jsstring" where
  "firstLine out = takeWhile (\<lambda>c. c \<noteq> 0x0A) out"

definition lastLine :: "jsstring \<Rightarrow> jsstring" where
  "lastLine out = rev (takeWhile (\<lambda>c. c \<noteq> 0x0A) (rev out))"

fun afterFirst :: "jsstring \<Rightarrow> jsstring \<Rightarrow> jsstring option" where
  "afterFirst p [] = (if p = [] then Some [] else None)"
| "afterFirst p (c # cs) =
     (if startsWith (c # cs) p then Some (drop (length p) (c # cs)) else afterFirst p cs)"

definition attributeValue :: "jsstring \<Rightarrow> jsstring \<Rightarrow> jsstring option" where
  "attributeValue name line =
     map_option (takeWhile (\<lambda>c. c \<noteq> 0x22)) (afterFirst (name @ lit ''='' @ [0x22]) line)"

subsection \<open>The checksum is written in hexadecimal digits\<close>

definition hexDigits :: "16 word set" where
  "hexDigits = set (lit ''0123456789abcdef'')"

lemma hexDigit_table: "map hexDigit [0..<16] = lit ''0123456789abcdef''"
  by (simp add: hexDigit_def lit_def upt_rec)

lemma hexDigit_hex: "d < 16 \<Longrightarrow> hexDigit d \<in> hexDigits"
proof -
  assume "d < 16"
  then have "hexDigit d \<in> set (map hexDigit [0..<16])" by simp
  then show ?thesis unfolding hexDigit_table hexDigits_def .
qed

lemma toHexString_hex: "set (toHexString n) \<subseteq> hexDigits"
proof (induction n rule: toHexString.induct)
  case (1 n)
  show ?case
  proof (cases "n < 16")
    case True
    then show ?thesis by (subst toHexString.simps) (simp add: hexDigit_hex)
  next
    case False
    have "n mod 16 < 16" by simp
    then have "hexDigit (n mod 16) \<in> hexDigits" by (rule hexDigit_hex)
    then show ?thesis using False 1 by (subst toHexString.simps) simp
  qed
qed

lemma promptChecksum_hex: "set (promptChecksum input) \<subseteq> hexDigits"
  by (simp add: promptChecksum_def toHexString_hex)

lemma hexDigits_plain:
  assumes "c \<in> hexDigits"
  shows "c \<noteq> 0x22" and "c \<noteq> 0x0A" and "c \<noteq> 0x68"
  using assms by (auto simp add: hexDigits_def lit_def)

lemma deriveSelectionId_form:
  "\<exists>h. deriveSelectionId ctx = lit ''sel_'' @ h \<and> set h \<subseteq> hexDigits"
  by (simp add: deriveSelectionId_def Let_def promptChecksum_hex)

lemma contextChecksum_returns:
  "\<exists>serialized. contextChecksum P ctx = Inr (promptChecksum serialized)"
proof -
  obtain es where "replaceForPrompt False (jsonOfElementContext ctx) = JsonObj es"
    by (simp add: jsonOfElementContext_def)
  then obtain serialized where
    "stringifyForPrompt P (jsonOfElementContext ctx) False = Some serialized"
    by (simp add: stringifyForPrompt_def)
  then show ?thesis by (auto simp add: contextChecksum_def)
qed

subsection \<open>First and last line of joined lines\<close>

lemma joinWith_snoc:
  "joinWith sep (xs @ [t]) = (if xs = [] then t else joinWith sep xs @ sep @ t)"
  by (induction sep xs rule: joinWith.induct) auto

lemma firstLine_joinWith:
  assumes "0x0A \<notin> set t"
  shows "firstLine (joinWith [0x0A] (t # rest)) = t"
proof (cases rest)
  case Nil
  then show ?thesis using assms by (auto simp add: firstLine_def)
next
  case (Cons y ys)
  have "takeWhile (\<lambda>c. c \<noteq> 0x0A) (t @ [0x0A] @ joinWith [0x0A] (y # ys)) = t"
    using assms by (subst takeWhile_append2) auto
  then show ?thesis using Cons by (simp add: firstLine_def)
qed

lemma lastLine_joinWith:
  assumes "0x0A \<notin> set t"
  shows "lastLine (joinWith [0x0A] (xs @ [t])) = t"
proof (cases "xs = []")
  case True
  have "takeWhile (\<lambda>c. c \<noteq> 0x0A) (rev t) = rev t"
    using assms by auto
  then have "rev (takeWhile (\<lambda>c. c \<noteq> 0x0A) (rev t)) = t"
    by (simp only: rev_rev_ident)
  then show ?thesis using True by (simp add: lastLine_def del: takeWhile_eq_all_conv)
next
  case False
  have "takeWhile (\<lambda>c. c \<noteq> 0x0A) (rev t @ [0x0A] @ rev (joinWith [0x0A] xs)) = rev t"
    using assms by (subst takeWhile_append2) auto
  then show ?thesis using False by (simp add: lastLine_def joinWith_snoc)
qed

subsection \<open>The lines between the tags\<close>

definition keepsHead :: "('a list \<Rightarrow> 'a list) \<Rightarrow> bool" where
  "keepsHead f \<longleftrightarrow> (\<forall>lines. lines \<noteq> [] \<longrightarrow> f lines \<noteq> [] \<and> hd (f lines) = hd lines)"

lemma maybeAddLine_nonempty:
  "lines \<noteq> [] \<Longrightarrow> maybeAddLine P lines key v options \<noteq> []"
  by (simp add: maybeAddLine_def Let_def)

lemma maybeAddLine_hd:
  "lines \<noteq> [] \<Longrightarrow> hd (maybeAddLine P lines key v options) = hd lines"
  by (simp add: maybeAddLine_def Let_def)

lemmas maybeAddLine_keeps = maybeAddLine_nonempty maybeAddLine_hd

lemma metaSection_keeps: "keepsHead (metaSection P ctx selectionId checksum)"
  by (simp add: keepsHead_def metaSection_def Let_def maybeAddLine_keeps)

lemma selectionSection_keeps: "keepsHead (selectionSection P ctx)"
  by (simp add: keepsHead_def selectionSection_def Let_def maybeAddLine_keeps)

lemma domSection_keeps: "keepsHead (domSection P ctx)"
  by (simp add: keepsHead_def domSection_def Let_def maybeAddLine_keeps)

lemma reactSection_keeps: "keepsHead (reactSection P ctx)"
  by (simp add: keepsHead_def reactSection_def Let_def maybeAddLine_keeps split: option.split)

lemma stylingSection_keeps: "keepsHead (stylingSection P ctx)"
  by (simp add: keepsHead_def stylingSection_def Let_def maybeAddLine_keeps)

lemma behaviorSection_keeps: "keepsHead (behaviorSection P ctx)"
  by (simp add: keepsHead_def behaviorSection_def Let_def maybeAddLine_keeps)

lemma appSection_keeps: "keepsHead (appSection P ctx)"
  by (simp add: keepsHead_def appSection_def Let_def maybeAddLine_keeps)

lemma testsSection_keeps: "keepsHead (testsSection P tests)"
  by (simp add: keepsHead_def testsSection_def maybeAddLine_keeps)

lemma pushSection_keeps: "keepsHead body \<Longrightarrow> keepsHead (pushSection name body)"
  by (simp add: keepsHead_def pushSection_def)

lemma keepsHead_apply:
  "keepsHead f \<Longrightarrow> lines \<noteq> [] \<Longrightarrow> f lines \<noteq> [] \<and> hd (f lines) = hd lines"
  by (simp add: keepsHead_def)

lemma renderElementContextPrompt_lines:
  "\<exists>serialized rest.
     contextChecksum P ctx = Inr (promptChecksum serialized) \<and>
     renderElementContextPrompt P ctx =
       Inr (joinWith [0x0A]
              (openingTag (deriveSelectionId ctx) (promptChecksum serialized) #
               rest @ [closingTag (deriveSelectionId ctx) (promptChecksum serialized)]))"
proof -
  obtain serialized where cs: "contextChecksum P ctx = Inr (promptChecksum serialized)"
    using contextChecksum_returns by blast
  define sel where "sel = deriveSelectionId ctx"
  define checksum where "checksum = promptChecksum serialized"
  define f1 where "f1 = pushSection (lit ''meta'') (metaSection P ctx sel checksum)"
  define f2 where "f2 = pushSection (lit ''selection'') (selectionSection P ctx)"
  define f3 where "f3 = pushSection (lit ''dom'') (domSection P ctx)"
  define f4 where "f4 = pushSection (lit ''react'') (reactSection P ctx)"
  define f5 where "f5 = pushSection (lit ''styling'') (stylingSection P ctx)"
  define f6 where "f6 = pushSection (lit ''behavior'') (behaviorSection P ctx)"
  define f7 where "f7 = pushSection (lit ''app'') (appSection P ctx)"
  define f8 where "f8 = (\<lambda>lines. case ec_tests ctx of
                             None \<Rightarrow> lines
                           | Some tests \<Rightarrow> pushSection (lit ''tests'') (testsSection P tests) lines)"
  have k: "keepsHead f1" "keepsHead f2" "keepsHead f3" "keepsHead f4" "keepsHead f5"
    "keepsHead f6" "keepsHead f7"
    unfolding f1_def f2_def f3_def f4_def f5_def f6_def f7_def
    by (intro pushSection_keeps metaSection_keeps selectionSection_keeps domSection_keeps
        reactSection_keeps stylingSection_keeps behaviorSection_keeps appSection_keeps)+
  have k8: "keepsHead f8"
  proof (cases "ec_tests ctx")
    case None
    then show ?thesis by (simp add: f8_def keepsHead_def)
  next
    case (Some tests)
    have "f8 = pushSection (lit ''tests'') (testsSection P tests)"
      using Some by (simp add: f8_def)
    then show ?thesis by (simp add: pushSection_keeps testsSection_keeps)
  qed
  define body where "body = f8 (f7 (f6 (f5 (f4 (f3 (f2 (f1 [openingTag sel checksum])))))))"
  have l1: "f1 [openingTag sel checksum] \<noteq> [] \<and> hd (f1 [openingTag sel checksum]) = openingTag sel checksum"
    using keepsHead_apply [OF k(1), of "[openingTag sel checksum]"] by simp
  note l2 = keepsHead_apply [OF k(2) conjunct1 [OF l1]]
  note l3 = keepsHead_apply [OF k(3) conjunct1 [OF l2]]
  note l4 = keepsHead_apply [OF k(4) conjunct1 [OF l3]]
  note l5 = keepsHead_apply [OF k(5) conjunct1 [OF l4]]
  note l6 = keepsHead_apply [OF k(6) conjunct1 [OF l5]]
  note l7 = keepsHead_apply [OF k(7) conjunct1 [OF l6]]
  note l8 = keepsHead_apply [OF k8 conjunct1 [OF l7]]
  have "body \<noteq> [] \<and> hd body = openingTag sel checksum"
    unfolding body_def using l1 l2 l3 l4 l5 l6 l7 l8 by simp
  then have body: "body = openingTag sel checksum # tl body"
    by (cases body) simp_all
  have "renderElementContextPrompt P ctx =
          Inr (joinWith [0x0A] (body @ [closingTag sel checksum]))"
    unfolding renderElementContextPrompt_def Let_def body_def f1_def f2_def f3_def f4_def f5_def
      f6_def f7_def f8_def sel_def checksum_def
    by (simp only: cs sum.case append_Nil)
  then have "renderElementContextPrompt P ctx =
          Inr (joinWith [0x0A] (openingTag sel checksum # tl body @ [closingTag sel checksum]))"
    using body by (metis append_Cons)
  then show ?thesis using cs unfolding sel_def checksum_def by blast
qed

subsection \<open>Reading the attributes of the two tags\<close>

lemma afterFirst_skip:
  assumes "\<forall>x \<in> set xs. x \<noteq> c1" and "ys \<noteq> []" and "hd ys \<noteq> c1"
  shows "afterFirst (c0 # c1 # p) (xs @ ys) = afterFirst (c0 # c1 # p) ys"
  using assms(1)
proof (induction xs)
  case Nil
  show ?case by simp
next
  case (Cons x xs)
  obtain a l where al: "xs @ ys = a # l" using assms(2) by (cases "xs @ ys") auto
  have "a \<noteq> c1"
  proof (cases xs)
    case Nil
    then show ?thesis using al assms(3) by simp
  next
    case (Cons b bs)
    then show ?thesis using al Cons.prems by auto
  qed
  then have "\<not> startsWith (x # xs @ ys) (c0 # c1 # p)"
    by (simp add: startsWith_def al)
  then show ?case using Cons by simp
qed

lemma attributeValue_found:
  assumes "afterFirst (name @ lit ''='' @ [0x22]) line = Some (v @ 0x22 # rest)"
      and "0x22 \<notin> set v"
  shows "attributeValue name line = Some v"
proof -
  have "takeWhile (\<lambda>c. c \<noteq> 0x22) (v @ 0x22 # rest) = v"
    using assms(2) by (subst takeWhile_append2) auto
  then show ?thesis by (simp add: attributeValue_def assms(1))
qed

lemma sel_id_opening:
  "afterFirst (lit ''sel_id'' @ lit ''='' @ [0x22]) (openingTag sel checksum)
     = Some (sel @ 0x22 # lit '' checksum='' @ [0x22] @ checksum @ [0x22] @ lit ''>'')"
  by (simp add: openingTag_def lit_def startsWith_def)

lemma sel_id_closing:
  "afterFirst (lit ''sel_id'' @ lit ''='' @ [0x22]) (closingTag sel checksum)
     = Some (sel @ 0x22 # lit '' checksum='' @ [0x22] @ checksum @ [0x22] @ lit ''/>'')"
  by (simp add: closingTag_def lit_def startsWith_def)

lemma checksum_after_id:
  assumes "set h \<subseteq> hexDigits"
  shows "afterFirst (lit ''checksum'' @ lit ''='' @ [0x22])
           (lit ''sel_'' @ h @ 0x22 # lit '' checksum='' @ [0x22] @ rest) = Some rest"
proof -
  have pat: "lit ''checksum'' @ lit ''='' @ [0x22] = 0x63 # 0x68 # lit ''ecksum'' @ lit ''='' @ [0x22]"
    by (simp add: lit_def)
  have h: "\<forall>x \<in> set h. x \<noteq> 0x68" using assms hexDigits_plain(3) by blast
  have skip: "afterFirst (0x63 # 0x68 # lit ''ecksum'' @ lit ''='' @ [0x22])
                (h @ 0x22 # lit '' checksum='' @ [0x22] @ rest)
              = afterFirst (0x63 # 0x68 # lit ''ecksum'' @ lit ''='' @ [0x22])
                  (0x22 # lit '' checksum='' @ [0x22] @ rest)"
    by (rule afterFirst_skip) (use h in simp_all)
  have found: "afterFirst (0x63 # 0x68 # lit ''ecksum'' @ lit ''='' @ [0x22])
                  (0x22 # lit '' checksum='' @ [0x22] @ rest) = Some rest"
    by (simp add: lit_def startsWith_def)
  have front: "afterFirst (0x63 # 0x68 # lit ''ecksum'' @ lit ''='' @ [0x22])
                 (lit ''sel_'' @ h @ 0x22 # lit '' checksum='' @ [0x22] @ rest)
               = afterFirst (0x63 # 0x68 # lit ''ecksum'' @ lit ''='' @ [0x22])
                   (h @ 0x22 # lit '' checksum='' @ [0x22] @ rest)"
    by (simp add: lit_def startsWith_def)
  show ?thesis unfolding pat front skip found ..
qed

lemma checksum_opening:
  assumes "set h \<subseteq> hexDigits"
  shows "afterFirst (lit ''checksum'' @ lit ''='' @ [0x22]) (openingTag (lit ''sel_'' @ h) checksum)
           = Some (checksum @ 0x22 # lit ''>'')"
proof -
  have "afterFirst (lit ''checksum'' @ lit ''='' @ [0x22]) (openingTag (lit ''sel_'' @ h) checksum)
        = afterFirst (lit ''checksum'' @ lit ''='' @ [0x22])
            (lit ''sel_'' @ h @ 0x22 # lit '' checksum='' @ [0x22] @ (checksum @ 0x22 # lit ''>''))"
    by (simp add: openingTag_def lit_def startsWith_def)
  then show ?thesis using checksum_after_id [OF assms] by simp
qed

lemma checksum_closing:
  assumes "set h \<subseteq> hexDigits"
  shows "afterFirst (lit ''checksum'' @ lit ''='' @ [0x22]) (closingTag (lit ''sel_'' @ h) checksum)
           = Some (checksum @ 0x22 # lit ''/>'')"
proof -
  have "afterFirst (lit ''checksum'' @ lit ''='' @ [0x22]) (closingTag (lit ''sel_'' @ h) checksum)
        = afterFirst (lit ''checksum'' @ lit ''='' @ [0x22])
            (lit ''sel_'' @ h @ 0x22 # lit '' checksum='' @ [0x22] @ (checksum @ 0x22 # lit ''/>''))"
    by (simp add: closingTag_def lit_def startsWith_def)
  then show ?thesis using checksum_after_id [OF assms] by simp
qed

lemma tag_no_line_feed:
  assumes "set h \<subseteq> hexDigits" and "set checksum \<subseteq> hexDigits"
  shows "0x0A \<notin> set (openingTag (lit ''sel_'' @ h) checksum)"
    and "0x0A \<notin> set (closingTag (lit ''sel_'' @ h) checksum)"
  using assms hexDigits_plain(2)
  by (auto simp add: openingTag_def closingTag_def lit_def)

lemma tags_read:
  assumes h: "set h \<subseteq> hexDigits" and c: "set checksum \<subseteq> hexDigits"
  shows "attributeValue (lit ''sel_id'') (openingTag (lit ''sel_'' @ h) checksum) = Some (lit ''sel_'' @ h)"
    and "attributeValue (lit ''sel_id'') (closingTag (lit ''sel_'' @ h) checksum) = Some (lit ''sel_'' @ h)"
    and "attributeValue (lit ''checksum'') (openingTag (lit ''sel_'' @ h) checksum) = Some checksum"
    and "attributeValue (lit ''checksum'') (closingTag (lit ''sel_'' @ h) checksum) = Some checksum"
proof -
  have q: "0x22 \<notin> set (lit ''sel_'' @ h)"
    using h hexDigits_plain(1) by (auto simp add: lit_def)
  have qc: "0x22 \<notin> set checksum" using c hexDigits_plain(1) by blast
  show "attributeValue (lit ''sel_id'') (openingTag (lit ''sel_'' @ h) checksum) = Some (lit ''sel_'' @ h)"
    by (rule attributeValue_found [OF sel_id_opening q])
  show "attributeValue (lit ''sel_id'') (closingTag (lit ''sel_'' @ h) checksum) = Some (lit ''sel_'' @ h)"
    by (rule attributeValue_found [OF sel_id_closing q])
  show "attributeValue (lit ''checksum'') (openingTag (lit ''sel_'' @ h) checksum) = Some checksum"
    by (rule attributeValue_found [OF checksum_opening [OF h] qc])
  show "attributeValue (lit ''checksum'') (closingTag (lit ''sel_'' @ h) checksum) = Some checksum"
    by (rule attributeValue_found [OF checksum_closing [OF h] qc])
qed

lemma renderElementContextPrompt_read:
  "\<exists>out checksum.
     renderElementContextPrompt P ctx = Inr out \<and>
     contextChecksum P ctx = Inr checksum \<and>
     firstLine out = openingTag (deriveSelectionId ctx) checksum \<and>
     lastLine out = closingTag (deriveSelectionId ctx) checksum \<and>
     attributeValue (lit ''sel_id'') (firstLine out) = Some (deriveSelectionId ctx) \<and>
     attributeValue (lit ''sel_id'') (lastLine out) = Some (deriveSelectionId ctx) \<and>
     attributeValue (lit ''checksum'') (firstLine out) = Some checksum \<and>
     attributeValue (lit ''checksum'') (lastLine out) = Some checksum"
proof -
  obtain serialized rest where
    cs: "contextChecksum P ctx = Inr (promptChecksum serialized)" and
    out: "renderElementContextPrompt P ctx =
       Inr (joinWith [0x0A]
              (openingTag (deriveSelectionId ctx) (promptChecksum serialized) #
               rest @ [closingTag (deriveSelectionId ctx) (promptChecksum serialized)]))"
    using renderElementContextPrompt_lines by blast
  obtain h where sel: "deriveSelectionId ctx = lit ''sel_'' @ h" and h: "set h \<subseteq> hexDigits"
    using deriveSelectionId_form by blast
  define checksum where "checksum = promptChecksum serialized"
  have c: "set checksum \<subseteq> hexDigits" by (simp add: checksum_def promptChecksum_hex)
  define res where "res = joinWith [0x0A]
              (openingTag (lit ''sel_'' @ h) checksum #
               rest @ [closingTag (lit ''sel_'' @ h) checksum])"
  have first: "firstLine res = openingTag (lit ''sel_'' @ h) checksum"
    unfolding res_def by (rule firstLine_joinWith [OF tag_no_line_feed(1) [OF h c]])
  have "lastLine (joinWith [0x0A]
              ((openingTag (lit ''sel_'' @ h) checksum # rest) @ [closingTag (lit ''sel_'' @ h) checksum]))
        = closingTag (lit ''sel_'' @ h) checksum"
    by (rule lastLine_joinWith [OF tag_no_line_feed(2) [OF h c]])
  then have last: "lastLine res = closingTag (lit ''sel_'' @ h) checksum"
    by (simp add: res_def)
  have r: "renderElementContextPrompt P ctx = Inr res"
    using out by (simp add: res_def sel checksum_def)
  have cs': "contextChecksum P ctx = Inr checksum" using cs by (simp add: checksum_def)
  show ?thesis
    apply (rule exI [of _ res])
    apply (rule exI [of _ checksum])
    using r cs' first last tags_read [OF h c] by (simp add: sel)
qed

lemma promptChecksum_sample: "promptChecksum (lit ''hello world'') = lit ''6aefe2c4''"
  by (simp add: promptChecksum_def lit_def toHexString.simps hexDigit_def)

definition samplePrinter :: JsonPrinter where
  "samplePrinter =
     \<lparr> jp_numberToString = (\<lambda>x. showInt \<lfloor>x\<rfloor>),
       jp_quoteJSONString = (\<lambda>s. [0x22] @ s @ [0x22]) \<rparr>"

text \<open>
  C8: \<open>renderElementContextPrompt\<close> is a function of the context and of the two printers of
  the language, and of nothing else, so two calls on one context give one output; it
  returns, and in its output the first line is the opening tag and the last line the
  closing tag, both written with the selection id of the context and the checksum of its
  serialization: the \<open>sel_id\<close> read from the opening tag is the \<open>sel_id\<close> read from the
  closing tag, and the \<open>checksum\<close> read from the opening tag is the \<open>checksum\<close> read from
  the closing tag.
\<close>

theorem renderElementContextPrompt_tags_agree:
  "(ctx' = ctx \<longrightarrow> renderElementContextPrompt P ctx' = renderElementContextPrompt P ctx) \<and>
   (\<exists>out checksum.
      renderElementContextPrompt P ctx = Inr out \<and>
      contextChecksum P ctx = Inr checksum \<and>
      firstLine out = openingTag (deriveSelectionId ctx) checksum \<and>
      lastLine out = closingTag (deriveSelectionId ctx) checksum \<and>
      attributeValue (lit ''sel_id'') (firstLine out) = Some (deriveSelectionId ctx) \<and>
      attributeValue (lit ''sel_id'') (lastLine out) = Some (deriveSelectionId ctx) \<and>
      attributeValue (lit ''checksum'') (firstLine out) = Some checksum \<and>
      attributeValue (lit ''checksum'') (lastLine out) = Some checksum)"
  using renderElementContextPrompt_read [of P ctx] by simp

theorem renderElementContextPrompt_tags_agree_witness:
  "deriveSelectionId sampleContext = lit ''sel_3534e539'' \<and>
   (\<exists>out.
      renderElementContextPrompt samplePrinter sampleContext = Inr out \<and>
      attributeValue (lit ''sel_id'') (firstLine out) = Some (lit ''sel_3534e539'') \<and>
      attributeValue (lit ''sel_id'') (lastLine out) = Some (lit ''sel_3534e539'') \<and>
      attributeValue (lit ''checksum'') (firstLine out)
        = attributeValue (lit ''checksum'') (lastLine out))"
proof -
  have s: "deriveSelectionId sampleContext = lit ''sel_3534e539''"
    by (simp add: deriveSelectionId_def sampleContext_def mathRound_def showInt_def
        showNat.simps promptChecksum_def lit_def toHexString.simps hexDigit_def)
  from renderElementContextPrompt_tags_agree [of sampleContext sampleContext samplePrinter]
  show ?thesis unfolding s by auto
qed


end
